theory Spec2Isabelle
  imports Main
begin

section \<open>Strings and paths\<close>

text \<open>
  The JavaScript string methods used by the route handlers: \<open>startsWith\<close>,
  \<open>includes\<close>, \<open>indexOf\<close>, \<open>split('/')\<close> and \<open>replace\<close> with a string pattern.
\<close>

definition starts_with :: "string \<Rightarrow> string \<Rightarrow> bool" where
  "starts_with s p = (take (length p) s = p)"

fun includes_str :: "string \<Rightarrow> string \<Rightarrow> bool" where
  "includes_str [] sub = (sub = [])"
| "includes_str (c # cs) sub = (starts_with (c # cs) sub \<or> includes_str cs sub)"

fun index_of :: "string \<Rightarrow> string \<Rightarrow> nat option" where
  "index_of [] sub = (if sub = [] then Some 0 else None)"
| "index_of (c # cs) sub =
     (if starts_with (c # cs) sub then Some 0 else map_option Suc (index_of cs sub))"

text \<open>
  The replacement text of \<open>String.prototype.replace\<close>: with a string pattern the
  sequences \<open>$$\<close>, \<open>$&\<close>, \<open>$`\<close> and \<open>$'\<close> are still expanded.
\<close>

fun get_substitution :: "string \<Rightarrow> string \<Rightarrow> string \<Rightarrow> string \<Rightarrow> string" where
  "get_substitution matched pre post [] = []"
| "get_substitution matched pre post [c] = [c]"
| "get_substitution matched pre post (c # d # r) =
     (if c = CHR ''$'' \<and> d = CHR ''$'' then CHR ''$'' # get_substitution matched pre post r
      else if c = CHR ''$'' \<and> d = CHR ''&'' then matched @ get_substitution matched pre post r
      else if c = CHR ''$'' \<and> d = CHR 0x60 then pre @ get_substitution matched pre post r
      else if c = CHR ''$'' \<and> d = CHR 0x27 then post @ get_substitution matched pre post r
      else c # get_substitution matched pre post (d # r))"

definition replace_first :: "string \<Rightarrow> string \<Rightarrow> string \<Rightarrow> string" where
  "replace_first s pat rep =
     (case index_of s pat of
        None \<Rightarrow> s
      | Some i \<Rightarrow>
          take i s @ get_substitution pat (take i s) (drop (i + length pat) s) rep
            @ drop (i + length pat) s)"

fun split_slash :: "string \<Rightarrow> string list" where
  "split_slash [] = [[]]"
| "split_slash (c # cs) =
     (if c = CHR ''/'' then [] # split_slash cs
      else (case split_slash cs of
              [] \<Rightarrow> [[c]]
            | s # ss \<Rightarrow> (c # s) # ss))"

text \<open>
  A path is absolute: the list of its segments from the root of the file system, which
  is the empty list. \<open>path.join\<close> joins its arguments with \<open>/\<close> and normalises the
  result segment by segment: empty and \<open>.\<close> segments vanish and \<open>..\<close> removes the
  segment before it, whichever argument that segment came from; at the root of the file
  system \<open>..\<close> has nothing to remove. The first argument is always built from
  \<open>__dirname\<close>, so the result is absolute, and \<open>path_join base rel\<close> is
  \<open>path.join\<close> of a normalised absolute \<open>base\<close> and of \<open>rel\<close>.

  All handlers take \<open>root\<close>, the directory of the project: it is what
  \<open>path.join(__dirname, '../../')\<close> denotes in the routes file (in \<open>src/routes\<close>) and
  \<open>path.join(__dirname, '..')\<close> in the server file (in \<open>src\<close>). A stored path with
  enough \<open>..\<close> segments resolves to a place outside the project.
\<close>

type_synonym path = "string list"

fun walk :: "path \<Rightarrow> string list \<Rightarrow> path" where
  "walk p [] = p"
| "walk p (s # ss) =
     (if s = [] \<or> s = ''.'' then walk p ss
      else if s = ''..'' then walk (butlast p) ss
      else walk (p @ [s]) ss)"

definition path_join :: "path \<Rightarrow> string \<Rightarrow> path" where
  "path_join base rel = walk base (split_slash rel)"

definition documents_root :: "path \<Rightarrow> path" where
  "documents_root root = path_join root ''uploads/documents''"

definition dirname :: "path \<Rightarrow> path" where
  "dirname p = butlast p"

text \<open>
  The two regular expressions that recognise a staging reference. Both end in
  \<open>\/([^\/]+)$\<close> and are not anchored at the start, so a match is decided by the
  last four \<open>/\<close>-separated pieces of the string, which must be preceded by a
  \<open>/\<close> (hence by a fifth, possibly empty, piece):
  \<^item> \<open>/\/uploads\/documents\/temp-[^\/]+\/([^\/]+)$/\<close> of the diagnostic route
    captures the file name;
  \<^item> \<open>/\/uploads\/documents\/(temp-[a-f0-9-]+)\/([^\/]+)$/\<close> of the repair tool
    captures the staging directory and the file name.
\<close>

definition temp_match_check :: "string \<Rightarrow> string option" where
  "temp_match_check s =
     (case rev (split_slash s) of
        f # t # d # u # x # xs \<Rightarrow>
          if u = ''uploads'' \<and> d = ''documents'' \<and> starts_with t ''temp-'' \<and> 5 < length t
             \<and> f \<noteq> []
          then Some f else None
      | _ \<Rightarrow> None)"

definition hex_or_dash :: "char \<Rightarrow> bool" where
  "hex_or_dash c = (c \<in> set ''abcdef0123456789-'')"

definition temp_match_repair :: "string \<Rightarrow> (string \<times> string) option" where
  "temp_match_repair s =
     (case rev (split_slash s) of
        f # t # d # u # x # xs \<Rightarrow>
          if u = ''uploads'' \<and> d = ''documents'' \<and> starts_with t ''temp-'' \<and> 5 < length t
             \<and> list_all hex_or_dash (drop 5 t) \<and> f \<noteq> []
          then Some (t, f) else None
      | _ \<Rightarrow> None)"

section \<open>The file store and the record store\<close>

text \<open>
  The state the handlers work on: the files and directories of the file system, by
  their absolute paths, and the \<open>clients\<close> table. A row maps a column name to its value
  (\<open>None\<close> is SQL \<open>NULL\<close>); the table is kept in the order of
  \<open>ORDER BY created_at DESC\<close>.
  \<open>denied\<close> marks the paths at which the operating system refuses a change
  (permissions, read-only or full device), \<open>write_fails\<close> the client ids for which a
  write to the table is rejected: these are the failures the handlers' \<open>try\<close> blocks
  are written for.
\<close>

datatype node = Dir | File string

type_synonym row = "string \<Rightarrow> string option"

record world =
  nodes :: "path \<Rightarrow> node option"
  denied :: "path \<Rightarrow> bool"
  rows :: "row list"
  write_fails :: "string \<Rightarrow> bool"

datatype fs_error = ENOENT | ENOTDIR | EISDIR | EACCES | EINVAL | EEXIST

datatype error = FsError fs_error | DbError string

text \<open>An operation either returns a value or throws; both leave a state behind.\<close>

datatype 'a result = Raise error world | Return 'a world

definition node_at :: "world \<Rightarrow> path \<Rightarrow> node option" where
  "node_at w p = (if p = [] then Some Dir else nodes w p)"

definition exists_sync :: "world \<Rightarrow> path \<Rightarrow> bool" where
  "exists_sync w p = (node_at w p \<noteq> None)"

text \<open>
  \<open>fs.existsSync(path.join(base, rel))\<close> for a stored path or an id \<open>rel\<close>.
  \<open>path.join\<close> keeps a slash at the end of its last argument, and a path that ends in
  a slash names a directory only: the test fails when a regular file is there. For a
  name that does not end in a slash, such as those that the regular expressions
  capture, and for the result of \<open>path.dirname\<close>, the test is \<open>exists_sync\<close> of the
  joined path.
\<close>

definition trailing_slash :: "string \<Rightarrow> bool" where
  "trailing_slash s = (s \<noteq> [] \<and> last s = CHR ''/'')"

definition exists_joined :: "world \<Rightarrow> path \<Rightarrow> string \<Rightarrow> bool" where
  "exists_joined w base rel =
     (case node_at w (path_join base rel) of
        None \<Rightarrow> False
      | Some Dir \<Rightarrow> True
      | Some (File c) \<Rightarrow> \<not> trailing_slash rel)"

text \<open>\<open>fs.mkdirSync(p, { recursive: true })\<close>: every missing ancestor is created in turn.\<close>

fun mkdir_from :: "world \<Rightarrow> path \<Rightarrow> string list \<Rightarrow> unit result" where
  "mkdir_from w pre [] = Return () w"
| "mkdir_from w pre (s # ss) =
     (case nodes w (pre @ [s]) of
        Some Dir \<Rightarrow> mkdir_from w (pre @ [s]) ss
      | Some (File c) \<Rightarrow> Raise (FsError (if ss = [] then EEXIST else ENOTDIR)) w
      | None \<Rightarrow>
          if denied w (pre @ [s]) then Raise (FsError EACCES) w
          else mkdir_from (w\<lparr>nodes := (nodes w)(pre @ [s] \<mapsto> Dir)\<rparr>) (pre @ [s]) ss)"

definition mkdir_sync :: "world \<Rightarrow> path \<Rightarrow> unit result" where
  "mkdir_sync w p = mkdir_from w [] p"

definition write_file_sync :: "world \<Rightarrow> path \<Rightarrow> string \<Rightarrow> unit result" where
  "write_file_sync w p content =
     (case node_at w (dirname p) of
        None \<Rightarrow> Raise (FsError ENOENT) w
      | Some (File c) \<Rightarrow> Raise (FsError ENOTDIR) w
      | Some Dir \<Rightarrow>
          (case node_at w p of
             Some Dir \<Rightarrow> Raise (FsError EISDIR) w
           | _ \<Rightarrow>
               if denied w p then Raise (FsError EACCES) w
               else Return () (w\<lparr>nodes := (nodes w)(p \<mapsto> File content)\<rparr>)))"

definition copy_file_sync :: "world \<Rightarrow> path \<Rightarrow> path \<Rightarrow> unit result" where
  "copy_file_sync w src dst =
     (case node_at w src of
        None \<Rightarrow> Raise (FsError ENOENT) w
      | Some Dir \<Rightarrow> Raise (FsError EISDIR) w
      | Some (File content) \<Rightarrow> write_file_sync w dst content)"

definition unlink_sync :: "world \<Rightarrow> path \<Rightarrow> unit result" where
  "unlink_sync w p =
     (case node_at w p of
        None \<Rightarrow> Raise (FsError ENOENT) w
      | Some Dir \<Rightarrow> Raise (FsError EISDIR) w
      | Some (File c) \<Rightarrow>
          if denied w p then Raise (FsError EACCES) w
          else Return () (w\<lparr>nodes := (nodes w)(p := None)\<rparr>))"

text \<open>\<open>fs.rmSync(p, { recursive: true, force: true })\<close> removes \<open>p\<close> and all below it.\<close>

definition purged :: "(path \<Rightarrow> node option) \<Rightarrow> path \<Rightarrow> path \<Rightarrow> node option" where
  "purged ns p = (\<lambda>q. if take (length p) q = p then None else ns q)"

definition rm_sync :: "world \<Rightarrow> path \<Rightarrow> unit result" where
  "rm_sync w p =
     (if denied w p then Raise (FsError EACCES) w
      else Return () (w\<lparr>nodes := purged (nodes w) p\<rparr>))"

text \<open>
  \<open>fs.renameSync(src, dst)\<close> moves \<open>src\<close> and all below it. Its only call comes right
  after the destination has been removed, so a destination that exists is reported as
  an error and the replacing variants of \<open>rename\<close> are left out.
\<close>

definition relocated :: "(path \<Rightarrow> node option) \<Rightarrow> path \<Rightarrow> path \<Rightarrow> path \<Rightarrow> node option" where
  "relocated ns src dst =
     (\<lambda>q. if take (length dst) q = dst then ns (src @ drop (length dst) q)
          else if take (length src) q = src then None
          else ns q)"

definition rename_sync :: "world \<Rightarrow> path \<Rightarrow> path \<Rightarrow> unit result" where
  "rename_sync w src dst =
     (if node_at w src = None then Raise (FsError ENOENT) w
      else if node_at w (dirname dst) \<noteq> Some Dir then Raise (FsError ENOENT) w
      else if src = dst then Return () w
      else if take (length src) dst = src then Raise (FsError EINVAL) w
      else if node_at w dst \<noteq> None then Raise (FsError EEXIST) w
      else if denied w src \<or> denied w dst then Raise (FsError EACCES) w
      else Return () (w\<lparr>nodes := relocated (nodes w) src dst\<rparr>))"

subsection \<open>The \<open>Client\<close> model class\<close>

definition truthy :: "string option \<Rightarrow> bool" where
  "truthy v = (v \<noteq> None \<and> v \<noteq> Some [])"

definition get_by_id :: "world \<Rightarrow> string \<Rightarrow> row option" where
  "get_by_id w cid = find (\<lambda>r. r ''id'' = Some cid) (rows w)"

definition get_all :: "world \<Rightarrow> nat \<Rightarrow> nat \<Rightarrow> row list" where
  "get_all w limit offset = take limit (drop offset (rows w))"

definition set_columns :: "(string \<times> string option) list \<Rightarrow> row \<Rightarrow> row" where
  "set_columns data r = foldl (\<lambda>r' (k, v). r'(k := v)) r data"

text \<open>
  \<open>Client.update(id, data)\<close>: no query when \<open>data\<close> is empty; otherwise
  \<open>UPDATE clients SET ... WHERE id = ?\<close>, returning whether a row matched.
\<close>

definition client_update :: "world \<Rightarrow> string \<Rightarrow> (string \<times> string option) list \<Rightarrow> bool result" where
  "client_update w cid data =
     (if data = [] then Return True w
      else if write_fails w cid then Raise (DbError cid) w
      else Return (list_ex (\<lambda>r. r ''id'' = Some cid) (rows w))
             (w\<lparr>rows := map (\<lambda>r. if r ''id'' = Some cid then set_columns data r else r) (rows w)\<rparr>))"

text \<open>
  \<open>Client.create(data)\<close>: the id is \<open>data.id\<close> when given, else the generated
  \<open>C\<close> followed by eight characters of a fresh UUID (the argument \<open>fresh\<close>); the
  primary key rejects an id already in the table.
\<close>

definition client_create :: "world \<Rightarrow> string \<Rightarrow> (string \<times> string option) list \<Rightarrow> string result" where
  "client_create w fresh data =
     (let clientId = (case set_columns data (\<lambda>k. None) ''id'' of
                        None \<Rightarrow> CHR ''C'' # fresh
                      | Some given \<Rightarrow> if given = [] then CHR ''C'' # fresh else given)
      in if write_fails w clientId \<or> list_ex (\<lambda>r. r ''id'' = Some clientId) (rows w)
         then Raise (DbError clientId) w
         else Return clientId
           (w\<lparr>rows := (set_columns data (\<lambda>k. None))(''id'' := Some clientId) # rows w\<rparr>))"

record user =
  role :: string
  userId :: string

datatype 'a response = Failure nat string | Success nat 'a

definition documentFields :: "string list" where
  "documentFields =
     [''coverage_proof'', ''sum_insured_proof'', ''policy_fee_invoice'',
      ''vat_debit_note'', ''payment_receipt'', ''nic_proof'',
      ''dob_proof'', ''business_registration_proof'', ''svat_proof'', ''vat_proof'']"

text \<open>A statement loop over a list: an exception thrown by the body ends the loop.\<close>

fun for_each :: "('a \<Rightarrow> 's \<Rightarrow> world \<Rightarrow> 's result) \<Rightarrow> 'a list \<Rightarrow> 's \<Rightarrow> world \<Rightarrow> 's result" where
  "for_each body [] s w = Return s w"
| "for_each body (x # xs) s w =
     (case body x s w of
        Raise e w' \<Rightarrow> Raise e w'
      | Return s' w' \<Rightarrow> for_each body xs s' w')"

text \<open>The texts pushed to an \<open>errors\<close> list or stored in a document's \<open>error\<close>.\<close>

datatype message =
    ClientHasNoId "string option"
  | ErrorCopyingFile error
  | TempFileNotFound path
  | FileNotFound path
  | FailedToCreatePlaceholder path error
  | DatabaseErrorUpdating string error
  | FailedToUpdateClient string error

section \<open>The repair tool\<close>

text \<open>\<open>app.get('/api/repair-all-documents')\<close> of the server file.\<close>

record repair_results =
  success :: bool
  clientsProcessed :: nat
  fixedPaths :: nat
  createdDirectories :: nat
  errors :: "message list"

definition placeholder_text :: string where
  "placeholder_text = ''Document placeholder created by repair tool''"

definition is_wrong_prefix :: "string \<Rightarrow> bool" where
  "is_wrong_prefix docPath =
     (starts_with docPath ''/documents/'' \<and> \<not> starts_with docPath ''/uploads/documents/'')"

text \<open>The body of the loop over \<open>documentFields\<close>; \<open>updates\<close> collects the corrected paths.\<close>

definition repair_field ::
  "path \<Rightarrow> row \<Rightarrow> string \<Rightarrow> repair_results \<times> (string \<times> string option) list \<Rightarrow> world
    \<Rightarrow> (repair_results \<times> (string \<times> string option) list) result" where
  "repair_field root client fld acc w =
     (case acc of (results, updates) \<Rightarrow>
      (case client fld of
         None \<Rightarrow> Return (results, updates) w
       | Some docPath \<Rightarrow>
           if docPath = [] then Return (results, updates) w
           else
             (case temp_match_repair docPath of
                Some (tempId, filename) \<Rightarrow>
                  (case (if \<not> exists_sync w (path_join (documents_root root) tempId)
                         then (case mkdir_sync w (path_join (documents_root root) tempId) of
                                 Raise e w1 \<Rightarrow> Raise e w1
                               | Return u w1 \<Rightarrow>
                                   Return (results\<lparr>createdDirectories :=
                                                     createdDirectories results + 1\<rparr>) w1)
                         else Return results w) of
                     Raise e w1 \<Rightarrow> Raise e w1
                   | Return results1 w1 \<Rightarrow>
                       if \<not> exists_sync w1 (path_join (path_join (documents_root root) tempId) filename)
                       then
                         (case write_file_sync w1
                                 (path_join (path_join (documents_root root) tempId) filename)
                                 placeholder_text of
                            Raise e w2 \<Rightarrow>
                              Return (results1\<lparr>errors := errors results1 @
                                         [FailedToCreatePlaceholder
                                            (path_join (path_join (documents_root root) tempId) filename) e]\<rparr>,
                                      updates) w2
                          | Return u w2 \<Rightarrow>
                              Return (results1\<lparr>fixedPaths := fixedPaths results1 + 1\<rparr>,
                                      updates) w2)
                       else Return (results1, updates) w1)
              | None \<Rightarrow>
                  if is_wrong_prefix docPath
                  then Return (results\<lparr>fixedPaths := fixedPaths results + 1\<rparr>,
                               updates @ [(fld, Some (''/uploads'' @ docPath))]) w
                  else Return (results, updates) w)))"

text \<open>\<open>pool.query('UPDATE clients SET ? WHERE id = ?', [updates, clientId])\<close>.\<close>

definition update_query :: "world \<Rightarrow> string \<Rightarrow> (string \<times> string option) list \<Rightarrow> bool result" where
  "update_query w cid data =
     (if write_fails w cid then Raise (DbError cid) w
      else Return (list_ex (\<lambda>r. r ''id'' = Some cid) (rows w))
             (w\<lparr>rows := map (\<lambda>r. if r ''id'' = Some cid then set_columns data r else r) (rows w)\<rparr>))"

text \<open>The body of the loop over the clients.\<close>

definition repair_client :: "path \<Rightarrow> row \<Rightarrow> repair_results \<Rightarrow> world \<Rightarrow> repair_results result" where
  "repair_client root client results w =
     (case client ''id'' of
        None \<Rightarrow> Return results w
      | Some clientId \<Rightarrow>
          if clientId = [] then Return results w
          else
            (case (if \<not> exists_joined w (documents_root root) clientId
                   then (case mkdir_sync w (path_join (documents_root root) clientId) of
                           Raise e w1 \<Rightarrow> Raise e w1
                         | Return u w1 \<Rightarrow>
                             Return (results\<lparr>createdDirectories :=
                                               createdDirectories results + 1\<rparr>) w1)
                   else Return results w) of
               Raise e w1 \<Rightarrow> Raise e w1
             | Return results1 w1 \<Rightarrow>
                 (case for_each (repair_field root client) documentFields (results1, []) w1 of
                    Raise e w2 \<Rightarrow> Raise e w2
                  | Return (results2, updates) w2 \<Rightarrow>
                      if updates \<noteq> [] then
                        (case update_query w2 clientId updates of
                           Raise e w3 \<Rightarrow>
                             Return (results2\<lparr>errors := errors results2 @
                                        [DatabaseErrorUpdating clientId e]\<rparr>) w3
                         | Return u w3 \<Rightarrow> Return results2 w3)
                      else Return results2 w2)))"

definition repair_all_documents :: "path \<Rightarrow> world \<Rightarrow> repair_results response \<times> world" where
  "repair_all_documents root w =
     (case for_each (repair_client root) (rows w)
             \<lparr>success = True, clientsProcessed = length (rows w), fixedPaths = 0,
              createdDirectories = 0, errors = []\<rparr> w of
        Raise e w' \<Rightarrow> (Failure 500 ''Error repairing documents'', w')
      | Return results w' \<Rightarrow> (Success 200 results, w'))"

section \<open>The diagnostic routes\<close>

text \<open>\<open>router.post('/diagnostic/check-documents')\<close> of the clients routes.\<close>

record doc_result =
  field :: string
  originalPath :: string
  newPath :: "string option"
  status :: string
  error :: "message option"

record client_result =
  clientId :: string
  clientName :: "string option"
  documents :: "doc_result list"
  tempPathsFixed :: nat
  missingFiles :: nat

record check_results =
  totalClients :: nat
  checkedDocuments :: nat
  missingFiles :: nat
  tempFiles :: nat
  fixedPaths :: nat
  errors :: "message list"
  details :: "client_result list"

text \<open>The inner \<open>try\<close> block: make the target directory, copy, update the record.\<close>

definition copy_to_client ::
  "world \<Rightarrow> path \<Rightarrow> path \<Rightarrow> string \<Rightarrow> string \<Rightarrow> string \<Rightarrow> bool result" where
  "copy_to_client w fullTempPath newFullPath cid fld newRelativePath =
     (case (if \<not> exists_sync w (dirname newFullPath)
            then mkdir_sync w (dirname newFullPath) else Return () w) of
        Raise e w1 \<Rightarrow> Raise e w1
      | Return u w1 \<Rightarrow>
          (case copy_file_sync w1 fullTempPath newFullPath of
             Raise e w2 \<Rightarrow> Raise e w2
           | Return u' w2 \<Rightarrow> client_update w2 cid [(fld, Some newRelativePath)]))"

definition push_document :: "doc_result \<Rightarrow> client_result \<Rightarrow> client_result" where
  "push_document d c = c\<lparr>documents := documents c @ [d]\<rparr>"

text \<open>The body of the loop over \<open>documentFields\<close>.\<close>

definition check_field ::
  "path \<Rightarrow> string \<Rightarrow> row \<Rightarrow> string \<Rightarrow> (check_results \<times> client_result) \<times> world
    \<Rightarrow> (check_results \<times> client_result) \<times> world" where
  "check_field root cid client fld acc =
     (case acc of ((results, clientResult), w) \<Rightarrow>
      (case client fld of
         None \<Rightarrow> ((results, clientResult), w)
       | Some docPath \<Rightarrow>
           if docPath = [] then ((results, clientResult), w)
           else
             (let results1 = results\<lparr>checkedDocuments := checkedDocuments results + 1\<rparr>;
                  docResult = \<lparr>field = fld, originalPath = docPath, newPath = None,
                               status = ''ok'', error = None\<rparr>
              in
              if includes_str docPath ''temp-'' then
                (let results2 = results1\<lparr>tempFiles := tempFiles results1 + 1\<rparr>;
                     docResult1 = docResult\<lparr>status := ''temp-path''\<rparr>
                 in
                 case temp_match_check docPath of
                   None \<Rightarrow> ((results2, push_document docResult1 clientResult), w)
                 | Some filename \<Rightarrow>
                     (let fullTempPath = path_join root docPath;
                          newRelativePath = ''/uploads/documents/'' @ cid @ ''/'' @ filename;
                          newFullPath = path_join root newRelativePath
                      in
                      if exists_joined w root docPath then
                        (case copy_to_client w fullTempPath newFullPath cid fld newRelativePath of
                           Raise e w' \<Rightarrow>
                             ((results2\<lparr>check_results.errors :=
                                          check_results.errors results2 @ [ErrorCopyingFile e]\<rparr>,
                               push_document
                                 (docResult1\<lparr>error := Some (ErrorCopyingFile e),
                                             status := ''error''\<rparr>) clientResult), w')
                         | Return u w' \<Rightarrow>
                             ((results2\<lparr>check_results.fixedPaths :=
                                          check_results.fixedPaths results2 + 1\<rparr>,
                               push_document
                                 (docResult1\<lparr>newPath := Some newRelativePath,
                                             status := ''fixed''\<rparr>)
                                 (clientResult\<lparr>tempPathsFixed := tempPathsFixed clientResult + 1\<rparr>)),
                              w'))
                      else
                        ((results2\<lparr>check_results.missingFiles :=
                                     check_results.missingFiles results2 + 1\<rparr>,
                          push_document
                            (docResult1\<lparr>status := ''missing-temp-file'',
                                        error := Some (TempFileNotFound fullTempPath)\<rparr>)
                            (clientResult\<lparr>client_result.missingFiles :=
                                            client_result.missingFiles clientResult + 1\<rparr>)),
                         w)))
              else
                if \<not> exists_joined w root docPath then
                  ((results1\<lparr>check_results.missingFiles :=
                               check_results.missingFiles results1 + 1\<rparr>,
                    push_document
                      (docResult\<lparr>status := ''missing-file'',
                                 error := Some (FileNotFound (path_join root docPath))\<rparr>)
                      (clientResult\<lparr>client_result.missingFiles :=
                                      client_result.missingFiles clientResult + 1\<rparr>)),
                   w)
                else ((results1, push_document docResult clientResult), w))))"

text \<open>The body of the loop over the clients.\<close>

definition check_client :: "path \<Rightarrow> row \<Rightarrow> check_results \<Rightarrow> world \<Rightarrow> check_results result" where
  "check_client root client results w =
     (case client ''id'' of
        None \<Rightarrow>
          Return (results\<lparr>check_results.errors := check_results.errors results @
                             [ClientHasNoId (client ''client_name'')]\<rparr>) w
      | Some cid \<Rightarrow>
          if cid = [] then
            Return (results\<lparr>check_results.errors := check_results.errors results @
                               [ClientHasNoId (client ''client_name'')]\<rparr>) w
          else
            (case (if \<not> exists_joined w (documents_root root) cid
                   then mkdir_sync w (path_join (documents_root root) cid) else Return () w) of
               Raise e w1 \<Rightarrow> Raise e w1
             | Return u w1 \<Rightarrow>
                 (case fold (check_field root cid client) documentFields
                         ((results,
                           \<lparr>clientId = cid, clientName = client ''client_name'', documents = [],
                            tempPathsFixed = 0, missingFiles = 0\<rparr>), w1) of
                    ((results', clientResult), w2) \<Rightarrow>
                      if documents clientResult \<noteq> []
                      then Return (results'\<lparr>details := details results' @ [clientResult]\<rparr>) w2
                      else Return results' w2)))"

definition check_documents :: "path \<Rightarrow> world \<Rightarrow> check_results response \<times> world" where
  "check_documents root w =
     (case for_each (check_client root) (get_all w 100 0)
             \<lparr>totalClients = length (get_all w 100 0), checkedDocuments = 0, missingFiles = 0,
              tempFiles = 0, fixedPaths = 0, errors = [], details = []\<rparr> w of
        Raise e w' \<Rightarrow> (Failure 500 ''Failed to run document diagnostic'', w')
      | Return results w' \<Rightarrow> (Success 200 results, w'))"

text \<open>\<open>router.post('/diagnostic/fix-document-paths')\<close> of the clients routes.\<close>

record fix_client_result =
  fixClientId :: string
  fixClientName :: "string option"
  pathsChecked :: nat
  pathsFixed :: nat

record fix_results =
  totalClients :: nat
  checkedPaths :: nat
  fixedPaths :: nat
  errors :: "message list"
  details :: "fix_client_result list"

definition fix_field ::
  "row \<Rightarrow> string \<Rightarrow> (fix_results \<times> fix_client_result) \<times> (string \<times> string option) list
    \<Rightarrow> (fix_results \<times> fix_client_result) \<times> (string \<times> string option) list" where
  "fix_field client fld acc =
     (case acc of ((results, clientResult), updates) \<Rightarrow>
      (case client fld of
         None \<Rightarrow> ((results, clientResult), updates)
       | Some docPath \<Rightarrow>
           if docPath = [] then ((results, clientResult), updates)
           else if is_wrong_prefix docPath then
             ((results\<lparr>checkedPaths := checkedPaths results + 1,
                       fix_results.fixedPaths := fix_results.fixedPaths results + 1\<rparr>,
               clientResult\<lparr>pathsChecked := pathsChecked clientResult + 1,
                            pathsFixed := pathsFixed clientResult + 1\<rparr>),
              updates @ [(fld, Some (''/uploads'' @ docPath))])
           else
             ((results\<lparr>checkedPaths := checkedPaths results + 1\<rparr>,
               clientResult\<lparr>pathsChecked := pathsChecked clientResult + 1\<rparr>),
              updates)))"

definition fix_client :: "row \<Rightarrow> fix_results \<Rightarrow> world \<Rightarrow> fix_results result" where
  "fix_client client results w =
     (case client ''id'' of
        None \<Rightarrow>
          Return (results\<lparr>fix_results.errors := fix_results.errors results @
                             [ClientHasNoId (client ''client_name'')]\<rparr>) w
      | Some cid \<Rightarrow>
          if cid = [] then
            Return (results\<lparr>fix_results.errors := fix_results.errors results @
                               [ClientHasNoId (client ''client_name'')]\<rparr>) w
          else
            (case fold (fix_field client) documentFields
                    ((results, \<lparr>fixClientId = cid, fixClientName = client ''client_name'',
                                pathsChecked = 0, pathsFixed = 0\<rparr>), []) of
               ((results', clientResult), updates) \<Rightarrow>
                 if updates \<noteq> [] then
                   (case client_update w cid updates of
                      Raise e w' \<Rightarrow>
                        Return (results'\<lparr>fix_results.errors := fix_results.errors results' @
                                           [FailedToUpdateClient cid e]\<rparr>) w'
                    | Return u w' \<Rightarrow>
                        Return (results'\<lparr>fix_results.details :=
                                           fix_results.details results' @ [clientResult]\<rparr>) w')
                 else Return results' w))"

definition fix_document_paths :: "world \<Rightarrow> fix_results response \<times> world" where
  "fix_document_paths w =
     (case for_each fix_client (get_all w 100 0)
             \<lparr>totalClients = length (get_all w 100 0), checkedPaths = 0, fixedPaths = 0,
              errors = [], details = []\<rparr> w of
        Raise e w' \<Rightarrow> (Failure 500 ''Failed to fix document paths'', w')
      | Return results w' \<Rightarrow> (Success 200 results, w'))"

section \<open>The upload middleware\<close>

text \<open>
  \<open>multer.diskStorage\<close> with the two callbacks of the routes file. For every file of a
  request multer calls \<open>destination\<close>, then \<open>filename\<close>, and writes the file to
  \<open>path.join(destination, filename)\<close>. An uploaded file is given by its form field, the
  extension of its original name, its bytes, and the two values that \<open>uuidv4()\<close>
  returns for it, one in each callback. \<open>paramsId\<close> is \<open>req.params.id\<close>, absent in the
  route that creates a client; \<open>body\<close> holds the text fields of the form, sent before
  the files.
\<close>

record uploaded =
  fieldname :: string
  extname :: string
  bytes :: string
  destination_uuid :: string
  filename_uuid :: string

definition storage_destination :: "path \<Rightarrow> string option \<Rightarrow> string \<Rightarrow> world \<Rightarrow> path result" where
  "storage_destination root paramsId uuid w =
     (let clientId = (case paramsId of
                        None \<Rightarrow> ''temp-'' @ uuid
                      | Some i \<Rightarrow> if i = [] then ''temp-'' @ uuid else i);
          clientDir = path_join (documents_root root) clientId
      in case (if \<not> exists_joined w (documents_root root) clientId then mkdir_sync w clientDir else Return () w) of
           Raise e w1 \<Rightarrow> Raise e w1
         | Return u w1 \<Rightarrow> Return clientDir w1)"

definition storage_filename :: "(string \<times> string option) list \<Rightarrow> uploaded \<Rightarrow> string" where
  "storage_filename body f =
     (case set_columns body (\<lambda>k. None) ''documentType'' of
        None \<Rightarrow> fieldname f
      | Some dt \<Rightarrow> if dt = [] then fieldname f else dt)
     @ ''-'' @ filename_uuid f @ extname f"

text \<open>One file: the entry added to \<open>req.files\<close> is the form field with the file name.\<close>

definition handle_file ::
  "path \<Rightarrow> string option \<Rightarrow> (string \<times> string option) list \<Rightarrow> uploaded
    \<Rightarrow> (string \<times> string) list \<Rightarrow> world \<Rightarrow> (string \<times> string) list result" where
  "handle_file root paramsId body f files w =
     (case storage_destination root paramsId (destination_uuid f) w of
        Raise e w1 \<Rightarrow> Raise e w1
      | Return dir w1 \<Rightarrow>
          (case write_file_sync w1 (path_join dir (storage_filename body f)) (bytes f) of
             Raise e w2 \<Rightarrow> Raise e w2
           | Return u w2 \<Rightarrow> Return (files @ [(fieldname f, storage_filename body f)]) w2))"

text \<open>
  \<open>upload.fields([...])\<close> accepts at most one file for each of the ten document fields,
  and the file filter only images and PDF files: \<open>fs\<close> lists the files of the request
  that are accepted.
\<close>

definition upload_fields ::
  "path \<Rightarrow> string option \<Rightarrow> (string \<times> string option) list \<Rightarrow> uploaded list \<Rightarrow> world
    \<Rightarrow> (string \<times> string) list result" where
  "upload_fields root paramsId body fs w = for_each (handle_file root paramsId body) fs [] w"

section \<open>Creating and updating a client with documents\<close>

text \<open>
  The handler of \<open>router.post('/with-documents')\<close>. \<open>files\<close> is \<open>req.files\<close>: for
  each uploaded field, the field name and the file name that the upload middleware gave
  the stored file. The handler names its staging directory \<open>temp-\<close> followed by a
  value of \<open>uuidv4()\<close> of its own, \<open>tempUuid\<close>.
\<close>

definition staged_path :: "string \<Rightarrow> string \<Rightarrow> string" where
  "staged_path tempClientId filename = ''/uploads/documents/'' @ tempClientId @ ''/'' @ filename"

text \<open>
  What the block that moves the staging directory leaves behind: the staging directory
  was not there, an exception was caught, or the paths were rewritten, with the flag
  \<open>allFilesUpdated\<close> and the fields reported as \<open>File not found at new location\<close>.
\<close>

datatype promotion =
    TempDirNotFound
  | MoveFailed error
  | Promoted bool "(string \<times> string) list"

definition rewritten_paths :: "string \<Rightarrow> string \<Rightarrow> (string \<times> string) list \<Rightarrow> (string \<times> string) list" where
  "rewritten_paths tempClientId cid files =
     map (\<lambda>(fieldName, filename).
            (fieldName, replace_first (staged_path tempClientId filename) tempClientId cid)) files"

definition promote :: "path \<Rightarrow> world \<Rightarrow> string \<Rightarrow> string \<Rightarrow> (string \<times> string) list \<Rightarrow> promotion \<times> world" where
  "promote root w tempClientId cid files =
     (if exists_joined w (documents_root root) tempClientId then
        (case (if \<not> exists_sync w (dirname (path_join (documents_root root) cid))
               then mkdir_sync w (dirname (path_join (documents_root root) cid)) else Return () w) of
           Raise e w1 \<Rightarrow> (MoveFailed e, w1)
         | Return u w1 \<Rightarrow>
             (case (if exists_joined w1 (documents_root root) cid
                    then rm_sync w1 (path_join (documents_root root) cid) else Return () w1) of
                Raise e w2 \<Rightarrow> (MoveFailed e, w2)
              | Return u' w2 \<Rightarrow>
                  (case rename_sync w2 (path_join (documents_root root) tempClientId)
                          (path_join (documents_root root) cid) of
                     Raise e w3 \<Rightarrow> (MoveFailed e, w3)
                   | Return u'' w3 \<Rightarrow>
                       (let updateData = rewritten_paths tempClientId cid files;
                            notFound = filter (\<lambda>(fieldName, newPath).
                                         \<not> exists_joined w3 root newPath) updateData
                        in
                        case client_update w3 cid (map (\<lambda>(k, v). (k, Some v)) updateData) of
                          Raise e w4 \<Rightarrow> (MoveFailed e, w4)
                        | Return updated w4 \<Rightarrow> (Promoted (notFound = []) notFound, w4)))))
      else (TempDirNotFound, w))"

definition requiredFields :: "string list" where
  "requiredFields = [''customer_type'', ''product'', ''insurance_provider'', ''client_name'', ''mobile_no'']"

fun join_comma :: "string list \<Rightarrow> string" where
  "join_comma [] = []"
| "join_comma [x] = x"
| "join_comma (x # y # ys) = x @ '', '' @ join_comma (y # ys)"

definition with_sales_rep :: "user \<Rightarrow> (string \<times> string option) list \<Rightarrow> (string \<times> string option) list" where
  "with_sales_rep u clientData =
     (if \<not> truthy (set_columns clientData (\<lambda>k. None) ''sales_rep_id'') \<and> role u = ''sales''
      then clientData @ [(''sales_rep_id'', Some (userId u))] else clientData)"

text \<open>
  The handler ends by requesting the repair tool over HTTP from its own server;
  \<open>loopback\<close> tells whether that request reaches it. Its answer is only logged.
\<close>

definition create_with_documents ::
  "path \<Rightarrow> world \<Rightarrow> user \<Rightarrow> string \<Rightarrow> string \<Rightarrow> (string \<times> string option) list \<Rightarrow> (string \<times> string) list
    \<Rightarrow> bool \<Rightarrow> string response \<times> world" where
  "create_with_documents root w u tempUuid fresh body files loopback =
     (let tempClientId = ''temp-'' @ tempUuid;
          clientData = with_sales_rep u body;
          missingFields = filter (\<lambda>f. \<not> truthy (set_columns clientData (\<lambda>k. None) f)) requiredFields
      in
      if missingFields \<noteq> [] then
        (Failure 400 (''Missing required fields: '' @ join_comma missingFields), w)
      else
        (case client_create w fresh
                (clientData @ map (\<lambda>(fieldName, filename).
                                     (fieldName, Some (staged_path tempClientId filename))) files) of
           Raise e w1 \<Rightarrow> (Failure 500 ''Failed to create client with documents'', w1)
         | Return cid w1 \<Rightarrow>
             (case promote root w1 tempClientId cid files of
                (p, w2) \<Rightarrow>
                  (Success 201 cid, if loopback then snd (repair_all_documents root w2) else w2))))"

text \<open>
  The route \<open>router.post('/with-documents')\<close> for a caller that \<open>authenticate\<close> and
  \<open>authorize\<close> let pass: the upload middleware, then the handler. The arguments
  \<open>tempUuid\<close> and \<open>fresh\<close> are the values of \<open>uuidv4()\<close> in the handler and in
  \<open>Client.create\<close>; those of the middleware come with the uploaded files. When the
  middleware fails the handler is not reached; the answer and the state are then those
  of the failure, and what multer does with the files it had already stored is left
  out.
\<close>

definition post_with_documents ::
  "path \<Rightarrow> world \<Rightarrow> user \<Rightarrow> (string \<times> string option) list \<Rightarrow> uploaded list \<Rightarrow> string \<Rightarrow> string
    \<Rightarrow> bool \<Rightarrow> string response \<times> world" where
  "post_with_documents root w u body fs tempUuid fresh loopback =
     (case upload_fields root None body fs w of
        Raise e w1 \<Rightarrow> (Failure 500 ''Internal Server Error'', w1)
      | Return files w1 \<Rightarrow> create_with_documents root w1 u tempUuid fresh body files loopback)"

text \<open>The handler of \<open>router.put('/:id/with-documents')\<close>.\<close>

definition delete_old_file :: "path \<Rightarrow> row \<Rightarrow> string \<times> string \<Rightarrow> unit \<Rightarrow> world \<Rightarrow> unit result" where
  "delete_old_file root existingClient f s w =
     (case existingClient (fst f) of
        None \<Rightarrow> Return () w
      | Some old \<Rightarrow>
          if old = [] then Return () w
          else if exists_joined w root old
          then unlink_sync w (path_join root old)
          else Return () w)"

definition update_with_documents ::
  "path \<Rightarrow> world \<Rightarrow> user \<Rightarrow> string \<Rightarrow> (string \<times> string option) list \<Rightarrow> (string \<times> string) list \<Rightarrow> bool
    \<Rightarrow> unit response \<times> world" where
  "update_with_documents root w u cid body files loopback =
     (case get_by_id w cid of
        None \<Rightarrow> (Failure 404 ''Client not found'', w)
      | Some existingClient \<Rightarrow>
          if role u = ''sales'' \<and> existingClient ''sales_rep_id'' \<noteq> Some (userId u)
          then (Failure 403 ''You are not authorized to update this client'', w)
          else
            (case for_each (delete_old_file root existingClient) files () w of
               Raise e w1 \<Rightarrow> (Failure 500 ''Failed to update client with documents'', w1)
             | Return x w1 \<Rightarrow>
                 (case client_update w1 cid
                         (body @ map (\<lambda>(fieldName, filename).
                                        (fieldName, Some (''/uploads/documents/'' @ filename))) files) of
                    Raise e w2 \<Rightarrow> (Failure 500 ''Failed to update client with documents'', w2)
                  | Return updated w2 \<Rightarrow>
                      if \<not> updated
                      then (Failure 500 ''Failed to update client with documents'', w2)
                      else (Success 200 (),
                            if loopback then snd (repair_all_documents root w2) else w2))))"

text \<open>\<open>router.post('/:id/documents')\<close>: one document for an existing client.\<close>

definition upload_document ::
  "path \<Rightarrow> world \<Rightarrow> user \<Rightarrow> string \<Rightarrow> string option \<Rightarrow> string option \<Rightarrow> string response \<times> world" where
  "upload_document root w u cid file documentType =
     (case (file, documentType) of
        (Some filename, Some dt) \<Rightarrow>
          if dt = [] then (Failure 400 ''File and document type are required'', w)
          else
            (case get_by_id w cid of
               None \<Rightarrow> (Failure 404 ''Client not found'', w)
             | Some existingClient \<Rightarrow>
                 if role u = ''sales'' \<and> existingClient ''sales_rep_id'' \<noteq> Some (userId u)
                 then (Failure 403 ''You are not authorized to update this client'', w)
                 else
                   (case (if \<not> exists_joined w (documents_root root) cid
                          then mkdir_sync w (path_join (documents_root root) cid) else Return () w) of
                      Raise e w1 \<Rightarrow> (Failure 500 ''Failed to upload document'', w1)
                    | Return x w1 \<Rightarrow>
                        (case delete_old_file root existingClient (dt, filename) () w1 of
                           Raise e w2 \<Rightarrow> (Failure 500 ''Failed to upload document'', w2)
                         | Return y w2 \<Rightarrow>
                             (case client_update w2 cid
                                     [(dt, Some (''/uploads/documents/'' @ cid @ ''/'' @ filename))] of
                                Raise e w3 \<Rightarrow> (Failure 500 ''Failed to upload document'', w3)
                              | Return updated w3 \<Rightarrow>
                                  if \<not> updated
                                  then (Failure 500 ''Failed to update client document'', w3)
                                  else (Success 200
                                          (''/uploads/documents/'' @ cid @ ''/'' @ filename), w3)))))
      | _ \<Rightarrow> (Failure 400 ''File and document type are required'', w))"

text \<open>
  The canonical form of a stored path, in the words of the specification: the root
  marker \<open>/uploads/documents\<close>, a namespace id and a file name, the last two
  non-empty and free of traversal.
\<close>

definition spec_canonical :: "string \<Rightarrow> bool" where
  "spec_canonical p =
     (case split_slash p of
        [e, u, d, ns, fn] \<Rightarrow>
          e = [] \<and> u = ''uploads'' \<and> d = ''documents''
          \<and> ns \<noteq> [] \<and> ns \<noteq> ''.'' \<and> ns \<noteq> ''..''
          \<and> fn \<noteq> [] \<and> fn \<noteq> ''.'' \<and> fn \<noteq> ''..''
      | _ \<Rightarrow> False)"

section \<open>Deleting one document of a client\<close>

text \<open>\<open>router.delete('/:id/documents/:documentType')\<close>.\<close>

definition delete_document :: "path \<Rightarrow> world \<Rightarrow> user \<Rightarrow> string \<Rightarrow> string \<Rightarrow> unit response \<times> world" where
  "delete_document root w u cid documentType =
     (case get_by_id w cid of
        None \<Rightarrow> (Failure 404 ''Client not found'', w)
      | Some existingClient \<Rightarrow>
          if role u = ''sales'' \<and> existingClient ''sales_rep_id'' \<noteq> Some (userId u)
          then (Failure 403 ''You are not authorized to update this client'', w)
          else
            (case existingClient documentType of
               None \<Rightarrow> (Failure 404 ''Document not found'', w)
             | Some filePath \<Rightarrow>
                 if filePath = [] then (Failure 404 ''Document not found'', w)
                 else
                   (case (if exists_joined w root filePath
                          then unlink_sync w (path_join root filePath)
                          else Return () w) of
                      Raise e w1 \<Rightarrow> (Failure 500 ''Failed to delete document'', w1)
                    | Return x w1 \<Rightarrow>
                        (case client_update w1 cid [(documentType, None)] of
                           Raise e w2 \<Rightarrow> (Failure 500 ''Failed to delete document'', w2)
                         | Return updated w2 \<Rightarrow>
                             if updated then (Success 200 (), w2)
                             else (Failure 500 ''Failed to delete client document'', w2)))))"

section \<open>Example states\<close>

text \<open>A namespace id or file name that is one proper path segment.\<close>

definition simple_segment :: "string \<Rightarrow> bool" where
  "simple_segment s = (s \<noteq> [] \<and> s \<noteq> ''.'' \<and> s \<noteq> ''..'' \<and> CHR ''/'' \<notin> set s)"

text \<open>
  In the examples the project is installed in \<open>/srv/backend\<close>. \<open>world_of ns rs\<close> is
  the state with that directory, with the nodes \<open>ns\<close>, given by their paths below it,
  and with the table \<open>rs\<close>; nothing is refused.
\<close>

definition install_dir :: path where
  "install_dir = [''srv'', ''backend'']"

definition world_of :: "(path \<times> node) list \<Rightarrow> row list \<Rightarrow> world" where
  "world_of ns rs =
     \<lparr>nodes = map_of ([([''srv''], Dir), ([''srv'', ''backend''], Dir)]
                       @ map (\<lambda>(p, n). (install_dir @ p, n)) ns),
      denied = (\<lambda>p. False), rows = rs, write_fails = (\<lambda>c. False)\<rparr>"

definition row_of :: "(string \<times> string) list \<Rightarrow> row" where
  "row_of cols = map_of cols"

definition admin :: user where
  "admin = \<lparr>role = ''admin'', userId = ''1''\<rparr>"

text \<open>A client whose NIC proof is stored where its reference says.\<close>

definition settled_row :: row where
  "settled_row =
     row_of [(''id'', ''C123''), (''client_name'', ''Perera''),
             (''nic_proof'', ''/uploads/documents/C123/nic_proof-ab12.pdf'')]"

definition settled_world :: world where
  "settled_world =
     world_of
       [([''uploads''], Dir), ([''uploads'', ''documents''], Dir),
        ([''uploads'', ''documents'', ''C123''], Dir),
        ([''uploads'', ''documents'', ''C123'', ''nic_proof-ab12.pdf''], File ''%PDF'')]
       [settled_row]"

text \<open>The same client after a new NIC proof has been uploaded into its directory.\<close>

definition uploaded_world :: world where
  "uploaded_world =
     world_of
       [([''uploads''], Dir), ([''uploads'', ''documents''], Dir),
        ([''uploads'', ''documents'', ''C123''], Dir),
        ([''uploads'', ''documents'', ''C123'', ''nic_proof-ab12.pdf''], File ''%PDF''),
        ([''uploads'', ''documents'', ''C123'', ''nic_proof-cd34.pdf''], File ''%PDF new'')]
       [settled_row]"

text \<open>A client whose NIC proof still points into a staging directory that is gone.\<close>

definition staging_missing_row :: row where
  "staging_missing_row =
     row_of [(''id'', ''C123''), (''client_name'', ''Perera''),
             (''nic_proof'', ''/uploads/documents/temp-1f0e/nic_proof-ab12.pdf'')]"

definition staging_missing_world :: world where
  "staging_missing_world =
     world_of
       [([''uploads''], Dir), ([''uploads'', ''documents''], Dir),
        ([''uploads'', ''documents'', ''C123''], Dir)]
       [staging_missing_row]"

text \<open>
  Two clients: the first has a reference without the \<open>/uploads\<close> prefix, the second
  has no directory yet, and the operating system refuses to create it.
\<close>

definition legacy_row :: row where
  "legacy_row =
     row_of [(''id'', ''C1''), (''client_name'', ''Silva''),
             (''nic_proof'', ''/documents/C1/nic_proof-ab12.pdf'')]"

definition second_row :: row where
  "second_row = row_of [(''id'', ''C2''), (''client_name'', ''Fernando'')]"

definition blocked_world :: world where
  "blocked_world =
     (world_of
        [([''uploads''], Dir), ([''uploads'', ''documents''], Dir),
         ([''uploads'', ''documents'', ''C1''], Dir),
         ([''uploads'', ''documents'', ''C1'', ''nic_proof-ab12.pdf''], File ''%PDF'')]
        [legacy_row, second_row])
     \<lparr>denied := (\<lambda>p. p = install_dir @ [''uploads'', ''documents'', ''C2''])\<rparr>"

text \<open>The state an operation leaves behind, whether it returned or threw.\<close>

definition state_of :: "'a result \<Rightarrow> world" where
  "state_of r = (case r of Raise e w \<Rightarrow> w | Return x w \<Rightarrow> w)"

text \<open>A client whose NIC proof points into a staging directory that holds the file.\<close>

definition staged_row :: row where
  "staged_row =
     row_of [(''id'', ''C123''), (''client_name'', ''Perera''),
             (''nic_proof'', ''/uploads/documents/temp-1f0e/nic_proof-ab12.pdf'')]"

definition staged_world :: world where
  "staged_world =
     world_of
       [([''uploads''], Dir), ([''uploads'', ''documents''], Dir),
        ([''uploads'', ''documents'', ''temp-1f0e''], Dir),
        ([''uploads'', ''documents'', ''temp-1f0e'', ''nic_proof-ab12.pdf''], File ''%PDF'')]
       [staged_row]"

text \<open>
  The form fields of a request that creates a client, and a state in which the handler
  would find a staging directory \<open>temp-1f0e\<close> with the uploaded NIC proof.
\<close>

definition new_client_body :: "(string \<times> string option) list" where
  "new_client_body =
     [(''customer_type'', Some ''individual''), (''product'', Some ''motor''),
      (''insurance_provider'', Some ''ABC Insurance''), (''client_name'', Some ''Perera''),
      (''mobile_no'', Some ''0771234567'')]"

definition upload_world :: world where
  "upload_world =
     world_of
       [([''uploads''], Dir), ([''uploads'', ''documents''], Dir),
        ([''uploads'', ''documents'', ''temp-1f0e''], Dir),
        ([''uploads'', ''documents'', ''temp-1f0e'', ''nic_proof-ab12.pdf''], File ''%PDF'')]
       []"

text \<open>
  Stored paths with a \<open>..\<close> segment. The first leaves the project directory and comes
  back into it, to the staging file; the second leaves it for good, and resolves to
  \<open>/srv/uploads/documents/C123/nic_proof-ab12.pdf\<close>, where nothing is.
\<close>

definition detour_row :: row where
  "detour_row =
     row_of [(''id'', ''C123''), (''client_name'', ''Perera''),
             (''nic_proof'', ''/../backend/uploads/documents/temp-1f0e/nic_proof-ab12.pdf'')]"

definition detour_world :: world where
  "detour_world =
     world_of
       [([''uploads''], Dir), ([''uploads'', ''documents''], Dir),
        ([''uploads'', ''documents'', ''temp-1f0e''], Dir),
        ([''uploads'', ''documents'', ''temp-1f0e'', ''nic_proof-ab12.pdf''], File ''%PDF'')]
       [detour_row]"

definition outside_row :: row where
  "outside_row =
     row_of [(''id'', ''C123''), (''client_name'', ''Perera''),
             (''nic_proof'', ''/../uploads/documents/C123/nic_proof-ab12.pdf'')]"

definition outside_world :: world where
  "outside_world =
     world_of
       [([''uploads''], Dir), ([''uploads'', ''documents''], Dir),
        ([''uploads'', ''documents'', ''C123''], Dir),
        ([''uploads'', ''documents'', ''C123'', ''nic_proof-ab12.pdf''], File ''%PDF'')]
       [outside_row]"

text \<open>A stored path that ends in a slash, while a file is there.\<close>

definition slash_row :: row where
  "slash_row =
     row_of [(''id'', ''C123''), (''client_name'', ''Perera''),
             (''nic_proof'', ''/uploads/documents/C123/nic_proof-ab12.pdf/'')]"

definition slash_world :: world where
  "slash_world =
     world_of
       [([''uploads''], Dir), ([''uploads'', ''documents''], Dir),
        ([''uploads'', ''documents'', ''C123''], Dir),
        ([''uploads'', ''documents'', ''C123'', ''nic_proof-ab12.pdf''], File ''%PDF'')]
       [slash_row]"

text \<open>
  A request that creates a client with a NIC proof, as it reaches the upload middleware:
  the documents directory is empty and the table has no client. The values of
  \<open>uuidv4()\<close> are shortened: \<open>7c3d\<close> in \<open>destination\<close>, \<open>ab12\<close> in \<open>filename\<close>.
\<close>

definition empty_store :: world where
  "empty_store = world_of [([''uploads''], Dir), ([''uploads'', ''documents''], Dir)] []"

definition nic_upload :: uploaded where
  "nic_upload = \<lparr>fieldname = ''nic_proof'', extname = ''.pdf'', bytes = ''%PDF'',
                  destination_uuid = ''7c3d'', filename_uuid = ''ab12''\<rparr>"


text \<open>
  The same request with the id \<open>C123\<close> given in the form, while a directory of that name,
  holding an older file, is already there.
\<close>

definition leftover_store :: world where
  "leftover_store =
     world_of
       [([''uploads''], Dir), ([''uploads'', ''documents''], Dir),
        ([''uploads'', ''documents'', ''C123''], Dir),
        ([''uploads'', ''documents'', ''C123'', ''old-scan.pdf''], File ''%PDF old'')]
       []"

definition named_client_body :: "(string \<times> string option) list" where
  "named_client_body = (''id'', Some ''C123'') # new_client_body"

text \<open>Two clients with references without the \<open>/uploads\<close> prefix; the table rejects
  writes to the record of the first.\<close>

definition other_legacy_row :: row where
  "other_legacy_row =
     row_of [(''id'', ''C2''), (''client_name'', ''Fernando''),
             (''dob_proof'', ''/documents/C2/dob_proof-ef56.pdf'')]"

definition unwritable_world :: world where
  "unwritable_world =
     (world_of
        [([''uploads''], Dir), ([''uploads'', ''documents''], Dir),
         ([''uploads'', ''documents'', ''C1''], Dir),
         ([''uploads'', ''documents'', ''C2''], Dir)]
        [legacy_row, other_legacy_row])
     \<lparr>write_fails := (\<lambda>c. c = ''C1'')\<rparr>"

section \<open>Relations between states\<close>

text \<open>
  \<open>extends w w'\<close>: every directory of \<open>w\<close> is a directory of \<open>w'\<close> and every file
  of \<open>w\<close> is a file of \<open>w'\<close>, so nothing was removed or moved away.
  \<open>dirs_added w w'\<close>: the table is the same, and the nodes are the same except for
  directories that \<open>w'\<close> has in places where \<open>w\<close> has nothing.
\<close>

definition is_file :: "world \<Rightarrow> path \<Rightarrow> bool" where
  "is_file w p = (case node_at w p of Some (File c) \<Rightarrow> True | _ \<Rightarrow> False)"

definition extends :: "world \<Rightarrow> world \<Rightarrow> bool" where
  "extends w w' =
     (denied w' = denied w \<and> write_fails w' = write_fails w
      \<and> (\<forall>p. (nodes w p = Some Dir \<longrightarrow> nodes w' p = Some Dir)
             \<and> (\<forall>c. nodes w p = Some (File c) \<longrightarrow> (\<exists>c'. nodes w' p = Some (File c')))))"

definition dirs_added :: "world \<Rightarrow> world \<Rightarrow> bool" where
  "dirs_added w w' =
     (rows w' = rows w \<and> denied w' = denied w \<and> write_fails w' = write_fails w
      \<and> (\<forall>p. nodes w' p = nodes w p \<or> (nodes w p = None \<and> nodes w' p = Some Dir)))"

text \<open>
  A client whose record has just been created, in a state where the staging directory
  that the handler names exists and holds the NIC proof, and where a directory with the
  id of the client is already there, holding an older file.
\<close>

definition promotion_row :: row where
  "promotion_row =
     row_of [(''id'', ''C123''), (''client_name'', ''Perera''),
             (''nic_proof'', ''/uploads/documents/temp-1f0e/nic_proof-ab12.pdf'')]"

definition promotion_world :: world where
  "promotion_world =
     world_of
       [([''uploads''], Dir), ([''uploads'', ''documents''], Dir),
        ([''uploads'', ''documents'', ''temp-1f0e''], Dir),
        ([''uploads'', ''documents'', ''temp-1f0e'', ''nic_proof-ab12.pdf''], File ''%PDF''),
        ([''uploads'', ''documents'', ''C123''], Dir),
        ([''uploads'', ''documents'', ''C123'', ''old-scan.pdf''], File ''%PDF old'')]
       [promotion_row]"

text \<open>A client with a reference without the \<open>/uploads\<close> prefix whose file is in place.\<close>

definition legacy_world :: world where
  "legacy_world =
     world_of
       [([''uploads''], Dir), ([''uploads'', ''documents''], Dir),
        ([''uploads'', ''documents'', ''C1''], Dir),
        ([''uploads'', ''documents'', ''C1'', ''nic_proof-ab12.pdf''], File ''%PDF'')]
       [legacy_row]"

text \<open>A client with a reference without the \<open>/uploads\<close> prefix into a staging directory.\<close>

definition legacy_staging_row :: row where
  "legacy_staging_row =
     row_of [(''id'', ''C123''), (''client_name'', ''Perera''),
             (''nic_proof'', ''/documents/temp-1f0e/nic_proof-ab12.pdf'')]"

definition legacy_staging_world :: world where
  "legacy_staging_world =
     world_of
       [([''uploads''], Dir), ([''uploads'', ''documents''], Dir),
        ([''uploads'', ''documents'', ''C123''], Dir)]
       [legacy_staging_row]"

section \<open>States the repair tool leaves alone\<close>

text \<open>
  A field is settled when the repair tool has nothing to do for it: it is empty, or a
  staging reference whose directory and file exist, or a reference that is not missing
  the \<open>/uploads\<close> prefix. A client is settled when its directory exists and its
  fields are settled; a state when all its clients are.
\<close>

definition settled_field :: "path \<Rightarrow> world \<Rightarrow> row \<Rightarrow> string \<Rightarrow> bool" where
  "settled_field root w client fld =
     (case client fld of
        None \<Rightarrow> True
      | Some docPath \<Rightarrow>
          docPath = [] \<or>
          (case temp_match_repair docPath of
             Some (tempId, filename) \<Rightarrow>
               exists_sync w (path_join (documents_root root) tempId)
               \<and> exists_sync w (path_join (path_join (documents_root root) tempId) filename)
           | None \<Rightarrow> \<not> is_wrong_prefix docPath))"

definition settled_client :: "path \<Rightarrow> world \<Rightarrow> row \<Rightarrow> bool" where
  "settled_client root w client =
     (case client ''id'' of
        None \<Rightarrow> True
      | Some cid \<Rightarrow>
          cid = [] \<or>
          (exists_joined w (documents_root root) cid
           \<and> (\<forall>fld \<in> set documentFields. settled_field root w client fld)))"

definition settled :: "path \<Rightarrow> world \<Rightarrow> bool" where
  "settled root w = (\<forall>client \<in> set (rows w). settled_client root w client)"

text \<open>
  No reference of the client lacks the \<open>/uploads\<close> prefix and becomes, once the
  prefix is added, a staging reference in the eyes of the repair tool.
\<close>

definition no_staging_behind_prefix :: "row \<Rightarrow> bool" where
  "no_staging_behind_prefix client =
     (\<forall>fld \<in> set documentFields. \<forall>p.
        client fld = Some p \<and> temp_match_repair p = None \<and> is_wrong_prefix p
        \<longrightarrow> temp_match_repair (''/uploads'' @ p) = None)"

text \<open>No reference of the client lacks the \<open>/uploads\<close> prefix.\<close>

definition clean_row :: "row \<Rightarrow> bool" where
  "clean_row x = (\<forall>fld \<in> set documentFields. \<forall>p. x fld = Some p \<longrightarrow> \<not> is_wrong_prefix p)"

section \<open>Properties of strings and paths\<close>

lemmas fs_defs = exists_sync_def exists_joined_def trailing_slash_def node_at_def mkdir_sync_def
  write_file_sync_def copy_file_sync_def
  unlink_sync_def rm_sync_def rename_sync_def dirname_def purged_def relocated_def

lemmas path_defs = path_join_def documents_root_def

lemmas db_defs = get_by_id_def get_all_def set_columns_def client_update_def update_query_def

lemmas ex_defs = world_of_def install_dir_def row_of_def admin_def settled_world_def settled_row_def

lemmas repair_defs = repair_all_documents_def repair_client_def repair_field_def
  temp_match_repair_def starts_with_def is_wrong_prefix_def hex_or_dash_def documentFields_def

lemmas upload_defs = post_with_documents_def upload_fields_def handle_file_def
  storage_destination_def storage_filename_def nic_upload_def empty_store_def leftover_store_def
  named_client_body_def

lemmas create_defs = create_with_documents_def with_sales_rep_def requiredFields_def truthy_def
  new_client_body_def client_create_def promote_def rewritten_paths_def staged_path_def
  replace_first_def

lemma split_slash_nonempty: "split_slash s \<noteq> []"
  by (induction s) (auto split: list.splits)

lemma split_slash_no_slash: "CHR ''/'' \<notin> set s \<Longrightarrow> split_slash s = [s]"
  by (induction s) auto

lemma split_slash_append:
  "split_slash (a @ CHR ''/'' # b) = split_slash a @ split_slash b"
  by (induction a) (auto split: list.splits simp: split_slash_nonempty)

lemma walk_append: "walk p (xs @ ys) = walk (walk p xs) ys"
  by (induction xs arbitrary: p) auto

lemma path_join_simple: "simple_segment s \<Longrightarrow> path_join p s = p @ [s]"
  by (simp add: path_join_def simple_segment_def split_slash_no_slash)

lemma documents_root_eq: "documents_root root = root @ [''uploads'', ''documents'']"
  by (simp add: documents_root_def path_join_def)

lemma path_join_slash: "path_join p (a @ CHR ''/'' # b) = path_join (path_join p a) b"
  by (simp add: path_join_def split_slash_append walk_append)

lemma path_join_stored:
  assumes "simple_segment ns" "simple_segment fn"
  shows "path_join root (''/uploads/documents/'' @ ns @ ''/'' @ fn)
         = (documents_root root) @ [ns, fn]"
proof -
  have "path_join root (''/uploads/documents/'' @ ns @ ''/'' @ fn)
        = path_join (path_join (path_join root ''/uploads/documents'') ns) fn"
    using path_join_slash[of root "''/uploads/documents/'' @ ns" fn]
          path_join_slash[of root "''/uploads/documents''" ns] by simp
  also have "path_join root ''/uploads/documents'' = (documents_root root)"
    by (simp add: documents_root_def path_join_def)
  finally show ?thesis using assms by (simp add: path_join_simple)
qed

lemma get_by_id_mem: "get_by_id w cid = Some c \<Longrightarrow> c \<in> set (rows w) \<and> c ''id'' = Some cid"
  unfolding get_by_id_def by (auto simp: find_Some_iff)

lemma split_slash_two:
  "CHR ''/'' \<in> set s \<Longrightarrow> \<exists>a b bs. split_slash s = a # b # bs"
proof (induction s)
  case Nil
  then show ?case by simp
next
  case (Cons c cs)
  show ?case
  proof (cases "c = CHR ''/''")
    case True
    then show ?thesis using split_slash_nonempty[of cs] by (cases "split_slash cs") auto
  next
    case False
    with Cons.prems have "CHR ''/'' \<in> set cs" by simp
    from Cons.IH[OF this] False show ?thesis by auto
  qed
qed

lemma split_slash_trailing: "trailing_slash s \<Longrightarrow> last (split_slash s) = []"
proof (induction s)
  case Nil
  then show ?case by (simp add: trailing_slash_def)
next
  case (Cons c cs)
  show ?case
  proof (cases "cs = []")
    case True
    with Cons.prems show ?thesis by (simp add: trailing_slash_def)
  next
    case False
    with Cons.prems have t: "trailing_slash cs" by (simp add: trailing_slash_def)
    then have l: "last (split_slash cs) = []" by (rule Cons.IH)
    from t have "CHR ''/'' \<in> set cs"
      unfolding trailing_slash_def using last_in_set[of cs] by auto
    then obtain a b bs where ab: "split_slash cs = a # b # bs"
      using split_slash_two by blast
    with l show ?thesis by auto
  qed
qed

lemma temp_match_check_no_slash: "temp_match_check p = Some fn \<Longrightarrow> \<not> trailing_slash p"
proof
  assume m: "temp_match_check p = Some fn" and t: "trailing_slash p"
  from t have "last (split_slash p) = []" by (rule split_slash_trailing)
  then have "hd (rev (split_slash p)) = []"
    using split_slash_nonempty[of p] by (simp add: hd_rev)
  with m show False
    by (auto simp: temp_match_check_def split: list.splits if_splits)
qed

lemma exists_joined_plain:
  "\<not> trailing_slash rel \<Longrightarrow> exists_joined w base rel = exists_sync w (path_join base rel)"
  by (auto simp: exists_joined_def exists_sync_def split: option.splits node.splits)

lemma split_slash_pieces: "x \<in> set (split_slash s) \<Longrightarrow> CHR ''/'' \<notin> set x"
proof (induction s arbitrary: x)
  case Nil
  then show ?case by simp
next
  case (Cons c cs)
  then show ?case
    using split_slash_nonempty[of cs]
    by (cases "split_slash cs") (auto split: if_splits)
qed

lemma temp_match_repair_no_slash:
  assumes "temp_match_repair p = Some (t, f)"
  shows "\<not> trailing_slash t \<and> \<not> trailing_slash f"
proof -
  from assms have "t \<in> set (split_slash p) \<and> f \<in> set (split_slash p)"
    by (auto simp: temp_match_repair_def split: list.splits if_splits
        dest: arg_cong[where f = set])
  then have "CHR ''/'' \<notin> set t \<and> CHR ''/'' \<notin> set f" using split_slash_pieces by blast
  then show ?thesis unfolding trailing_slash_def using last_in_set by metis
qed

lemma exists_joined_file:
  "node_at w (path_join base rel) = Some (File c) \<Longrightarrow> \<not> trailing_slash rel
   \<Longrightarrow> exists_joined w base rel"
  by (simp add: exists_joined_def)

lemma exists_joined_exists: "exists_joined w base rel \<Longrightarrow> exists_sync w (path_join base rel)"
  by (auto simp: exists_joined_def exists_sync_def split: option.splits)

section \<open>Deleting a document\<close>

text \<open>
  C10. Deleting a document of an existing client (by a caller allowed to change that
  client) whose named slot holds no reference, null or empty, answers 404
  \<open>Document not found\<close> and leaves the records and the files as they were. When the
  slot holds a path, the file it resolves to from the project directory, inside or
  outside of it, is removed if present, and the slot is then set to null; nothing else
  changes. A path that ends in a slash names no file, and none is removed for it. (The
  second part is stated for the case that
  neither the removal nor the update throws: the path does not resolve to a directory,
  the file may be removed and the table accepts the write.)
\<close>

theorem delete_document_behaviour:
  assumes "get_by_id w cid = Some c"
    and "\<not> (role u = ''sales'' \<and> c ''sales_rep_id'' \<noteq> Some (userId u))"
  shows "(\<not> truthy (c dt) \<longrightarrow>
            delete_document root w u cid dt = (Failure 404 ''Document not found'', w))
       \<and> (\<forall>p. c dt = Some p \<and> p \<noteq> []
              \<and> node_at w (path_join root p) \<noteq> Some Dir
              \<and> \<not> denied w (path_join root p) \<and> \<not> write_fails w cid \<longrightarrow>
            delete_document root w u cid dt =
              (Success 200 (),
               w\<lparr>nodes := (if trailing_slash p then nodes w
                            else (nodes w)(path_join root p := None)),
                 rows := map (\<lambda>r. if r ''id'' = Some cid then r(dt := None) else r) (rows w)\<rparr>))"
proof (intro conjI allI impI)
  assume "\<not> truthy (c dt)"
  with assms show "delete_document root w u cid dt = (Failure 404 ''Document not found'', w)"
    by (auto simp: delete_document_def truthy_def split: option.splits)
next
  fix p
  assume h: "c dt = Some p \<and> p \<noteq> []
              \<and> node_at w (path_join root p) \<noteq> Some Dir
              \<and> \<not> denied w (path_join root p) \<and> \<not> write_fails w cid"
  let ?fp = "path_join root p"
  have mem: "c \<in> set (rows w)" "c ''id'' = Some cid"
    using get_by_id_mem[OF assms(1)] by auto
  have ne: "?fp \<noteq> []" using h by (auto simp: node_at_def)
  show "delete_document root w u cid dt =
              (Success 200 (),
               w\<lparr>nodes := (if trailing_slash p then nodes w else (nodes w)(?fp := None)),
                 rows := map (\<lambda>r. if r ''id'' = Some cid then r(dt := None) else r) (rows w)\<rparr>)"
  proof (cases "nodes w ?fp")
    case None
    then have "(nodes w)(?fp := None) = nodes w" by auto
    with None assms h ne mem show ?thesis
      by (auto simp: delete_document_def exists_joined_def node_at_def client_update_def
            set_columns_def list_ex_iff)
  next
    case (Some n)
    with h ne obtain content where "n = File content"
      by (cases n) (auto simp: node_at_def)
    with Some assms h ne mem show ?thesis
      by (auto simp: delete_document_def exists_joined_def node_at_def unlink_sync_def
            client_update_def set_columns_def list_ex_iff)
  qed
qed

theorem delete_document_behaviour_witness:
  "delete_document install_dir settled_world admin ''C123'' ''dob_proof''
     = (Failure 404 ''Document not found'', settled_world)
   \<and> delete_document install_dir settled_world admin ''C123'' ''nic_proof''
     = (Success 200 (),
        settled_world\<lparr>nodes := (nodes settled_world)
                         ((install_dir @ [''uploads'', ''documents'', ''C123'', ''nic_proof-ab12.pdf'']) := None),
                      rows := map (\<lambda>r. if r ''id'' = Some ''C123''
                                        then r(''nic_proof'' := None) else r)
                                (rows settled_world)\<rparr>)
   \<and> delete_document install_dir outside_world admin ''C123'' ''nic_proof''
     = (Success 200 (),
        outside_world\<lparr>nodes := (nodes outside_world)
                         ([''srv'', ''uploads'', ''documents'', ''C123'', ''nic_proof-ab12.pdf''] := None),
                      rows := map (\<lambda>r. if r ''id'' = Some ''C123''
                                        then r(''nic_proof'' := None) else r)
                                (rows outside_world)\<rparr>)
   \<and> nodes (snd (delete_document install_dir outside_world admin ''C123'' ''nic_proof''))
        (install_dir @ [''uploads'', ''documents'', ''C123'', ''nic_proof-ab12.pdf''])
     = Some (File ''%PDF'')
   \<and> delete_document install_dir slash_world admin ''C123'' ''nic_proof''
     = (Success 200 (),
        slash_world\<lparr>nodes := nodes slash_world,
                    rows := map (\<lambda>r. if r ''id'' = Some ''C123''
                                      then r(''nic_proof'' := None) else r)
                              (rows slash_world)\<rparr>)"
proof -
  have g: "get_by_id settled_world ''C123'' = Some settled_row"
    by (simp add: get_by_id_def settled_world_def world_of_def install_dir_def settled_row_def row_of_def)
  have a: "\<not> (role admin = ''sales'' \<and> settled_row ''sales_rep_id'' \<noteq> Some (userId admin))"
    by (simp add: admin_def)
  have p: "path_join install_dir ''/uploads/documents/C123/nic_proof-ab12.pdf''
           = (install_dir @ [''uploads'', ''documents'', ''C123'', ''nic_proof-ab12.pdf''])"
    by (simp add: path_join_def)
  have n: "\<not> truthy (settled_row ''dob_proof'')"
    by (simp add: truthy_def settled_row_def row_of_def)
  have s: "settled_row ''nic_proof'' = Some ''/uploads/documents/C123/nic_proof-ab12.pdf''"
    by (simp add: settled_row_def row_of_def)
  have f: "node_at settled_world (install_dir @ [''uploads'', ''documents'', ''C123'', ''nic_proof-ab12.pdf''])
             \<noteq> Some Dir"
          "\<not> denied settled_world (install_dir @ [''uploads'', ''documents'', ''C123'', ''nic_proof-ab12.pdf''])"
          "\<not> write_fails settled_world ''C123''"
    by (simp_all add: node_at_def settled_world_def world_of_def install_dir_def)
  have 1: "delete_document install_dir settled_world admin ''C123'' ''dob_proof''
     = (Failure 404 ''Document not found'', settled_world)"
    using delete_document_behaviour[OF g a, of "''dob_proof''"] n by simp
  have ts: "\<not> trailing_slash ''/uploads/documents/C123/nic_proof-ab12.pdf''"
    "\<not> trailing_slash ''/../uploads/documents/C123/nic_proof-ab12.pdf''"
    by (simp_all add: trailing_slash_def)
  have 2: "delete_document install_dir settled_world admin ''C123'' ''nic_proof''
     = (Success 200 (),
        settled_world\<lparr>nodes := (nodes settled_world)
                         ((install_dir @ [''uploads'', ''documents'', ''C123'', ''nic_proof-ab12.pdf'']) := None),
                      rows := map (\<lambda>r. if r ''id'' = Some ''C123''
                                        then r(''nic_proof'' := None) else r)
                                (rows settled_world)\<rparr>)"
    using delete_document_behaviour[OF g a, of "''nic_proof''" install_dir] s f p ts by simp
  have g': "get_by_id outside_world ''C123'' = Some outside_row"
    by (simp add: get_by_id_def outside_world_def world_of_def install_dir_def outside_row_def row_of_def)
  have a': "\<not> (role admin = ''sales'' \<and> outside_row ''sales_rep_id'' \<noteq> Some (userId admin))"
    by (simp add: admin_def)
  have p': "path_join install_dir ''/../uploads/documents/C123/nic_proof-ab12.pdf''
           = [''srv'', ''uploads'', ''documents'', ''C123'', ''nic_proof-ab12.pdf'']"
    by (simp add: path_join_def install_dir_def)
  have s': "outside_row ''nic_proof'' = Some ''/../uploads/documents/C123/nic_proof-ab12.pdf''"
    by (simp add: outside_row_def row_of_def)
  have f': "node_at outside_world [''srv'', ''uploads'', ''documents'', ''C123'', ''nic_proof-ab12.pdf'']
             \<noteq> Some Dir"
          "\<not> denied outside_world [''srv'', ''uploads'', ''documents'', ''C123'', ''nic_proof-ab12.pdf'']"
          "\<not> write_fails outside_world ''C123''"
    by (simp_all add: node_at_def outside_world_def world_of_def install_dir_def)
  have 3: "delete_document install_dir outside_world admin ''C123'' ''nic_proof''
     = (Success 200 (),
        outside_world\<lparr>nodes := (nodes outside_world)
                         ([''srv'', ''uploads'', ''documents'', ''C123'', ''nic_proof-ab12.pdf''] := None),
                      rows := map (\<lambda>r. if r ''id'' = Some ''C123''
                                        then r(''nic_proof'' := None) else r)
                                (rows outside_world)\<rparr>)"
    using delete_document_behaviour[OF g' a', of "''nic_proof''" install_dir] s' f' p' ts by simp
  have 4: "nodes (snd (delete_document install_dir outside_world admin ''C123'' ''nic_proof''))
        (install_dir @ [''uploads'', ''documents'', ''C123'', ''nic_proof-ab12.pdf''])
     = Some (File ''%PDF'')"
    unfolding 3 by (simp add: outside_world_def world_of_def install_dir_def)
  have g'': "get_by_id slash_world ''C123'' = Some slash_row"
    by (simp add: get_by_id_def slash_world_def world_of_def install_dir_def slash_row_def row_of_def)
  have a'': "\<not> (role admin = ''sales'' \<and> slash_row ''sales_rep_id'' \<noteq> Some (userId admin))"
    by (simp add: admin_def)
  have p'': "path_join install_dir ''/uploads/documents/C123/nic_proof-ab12.pdf/''
           = [''srv'', ''backend'', ''uploads'', ''documents'', ''C123'', ''nic_proof-ab12.pdf'']"
    by (simp add: path_join_def install_dir_def)
  have s'': "slash_row ''nic_proof'' = Some ''/uploads/documents/C123/nic_proof-ab12.pdf/''"
    by (simp add: slash_row_def row_of_def)
  have f'': "node_at slash_world
               [''srv'', ''backend'', ''uploads'', ''documents'', ''C123'', ''nic_proof-ab12.pdf'']
             \<noteq> Some Dir"
          "\<not> denied slash_world
               [''srv'', ''backend'', ''uploads'', ''documents'', ''C123'', ''nic_proof-ab12.pdf'']"
          "\<not> write_fails slash_world ''C123''"
          "trailing_slash ''/uploads/documents/C123/nic_proof-ab12.pdf/''"
    by (simp_all add: node_at_def slash_world_def world_of_def install_dir_def trailing_slash_def)
  have 5: "delete_document install_dir slash_world admin ''C123'' ''nic_proof''
     = (Success 200 (),
        slash_world\<lparr>nodes := nodes slash_world,
                    rows := map (\<lambda>r. if r ''id'' = Some ''C123''
                                      then r(''nic_proof'' := None) else r)
                              (rows slash_world)\<rparr>)"
    using delete_document_behaviour[OF g'' a'', of "''nic_proof''" install_dir] s'' f'' p'' by simp
  from 1 2 3 4 5 show ?thesis by (intro conjI)
qed

section \<open>Basic facts about the file operations\<close>

lemma mkdir_from_frame:
  "rows (state_of (mkdir_from w pre ss)) = rows w
   \<and> denied (state_of (mkdir_from w pre ss)) = denied w
   \<and> write_fails (state_of (mkdir_from w pre ss)) = write_fails w"
  by (induction w pre ss rule: mkdir_from.induct)
     (auto simp: state_of_def split: option.splits node.splits)

lemma mkdir_sync_rows: "mkdir_sync w p = Return u w' \<Longrightarrow> rows w' = rows w"
  using mkdir_from_frame[of w "[]" p] by (simp add: mkdir_sync_def state_of_def)

lemma for_each_invariant:
  assumes "I w" and "\<And>x s w. x \<in> set xs \<Longrightarrow> I w \<Longrightarrow> I (state_of (body x s w))"
  shows "I (state_of (for_each body xs s w))"
  using assms
proof (induction xs arbitrary: s w)
  case Nil
  then show ?case by (simp add: state_of_def)
next
  case (Cons x xs)
  have step: "I (state_of (body x s w))" using Cons.prems by simp
  show ?case
  proof (cases "body x s w")
    case (Raise e w')
    with step show ?thesis by (simp add: state_of_def)
  next
    case (Return s' w')
    with step have "I w'" by (simp add: state_of_def)
    then have "I (state_of (for_each body xs s' w'))"
      using Cons.IH Cons.prems(2) by simp
    with Return show ?thesis by simp
  qed
qed

lemma fold_invariant:
  assumes "I (snd a)" and "\<And>x a. x \<in> set xs \<Longrightarrow> I (snd a) \<Longrightarrow> I (snd (f x a))"
  shows "I (snd (fold f xs a))"
  using assms by (induction xs arbitrary: a) auto

lemma write_file_sync_Return:
  "write_file_sync w p c = Return u w' \<Longrightarrow> w' = w\<lparr>nodes := (nodes w)(p \<mapsto> File c)\<rparr>"
  by (auto simp: write_file_sync_def split: option.splits node.splits if_splits)


section \<open>Placeholders written by the repair tool\<close>

text \<open>
  C3, as amended. For a reference into a staging directory whose file is absent,
  the repair tool writes the file \<open>Document placeholder created by repair tool\<close> at
  the staging location, leaves the reference alone (nothing is added to the updates of
  the record, and no row changes), and counts the placeholder as a fix:
  \<open>fixedPaths\<close> goes up by one whenever the placeholder is written. For a reference
  that is neither a staging reference nor one without the \<open>/uploads\<close> prefix, such
  as a canonical path whose file is absent, the tool does nothing at all.
\<close>

theorem repair_field_placeholder_counted:
  assumes "client fld = Some docPath" and "docPath \<noteq> []"
  shows "(temp_match_repair docPath = Some (tempId, filename)
            \<and> (if \<not> exists_sync w (path_join (documents_root root) tempId)
                then mkdir_sync w (path_join (documents_root root) tempId) else Return () w) = Return () w1
            \<and> \<not> exists_sync w1 (path_join (path_join (documents_root root) tempId) filename)
            \<and> write_file_sync w1 (path_join (path_join (documents_root root) tempId) filename)
                  placeholder_text = Return () w2
          \<longrightarrow> (\<exists>results'. repair_field root client fld (results, updates) w = Return (results', updates) w2
                  \<and> repair_results.fixedPaths results' = repair_results.fixedPaths results + 1)
              \<and> nodes w2 (path_join (path_join (documents_root root) tempId) filename)
                    = Some (File placeholder_text)
              \<and> rows w2 = rows w)
       \<and> (temp_match_repair docPath = None \<and> \<not> is_wrong_prefix docPath
          \<longrightarrow> repair_field root client fld (results, updates) w = Return (results, updates) w)"
proof (intro conjI impI)
  let ?dir = "path_join (documents_root root) tempId"
  let ?file = "path_join ?dir filename"
  assume h: "temp_match_repair docPath = Some (tempId, filename)
            \<and> (if \<not> exists_sync w ?dir then mkdir_sync w ?dir else Return () w) = Return () w1
            \<and> \<not> exists_sync w1 ?file
            \<and> write_file_sync w1 ?file placeholder_text = Return () w2"
  then have w2: "w2 = w1\<lparr>nodes := (nodes w1)(?file \<mapsto> File placeholder_text)\<rparr>"
    using write_file_sync_Return by blast
  have r1: "rows w1 = rows w"
    using h mkdir_sync_rows[of w ?dir "()" w1] by (auto split: if_splits)
  show "nodes w2 ?file = Some (File placeholder_text)" using w2 by simp
  show "rows w2 = rows w" using w2 r1 by simp
  show "\<exists>results'. repair_field root client fld (results, updates) w = Return (results', updates) w2
          \<and> repair_results.fixedPaths results' = repair_results.fixedPaths results + 1"
  proof (cases "exists_sync w ?dir")
    case True
    with h assms show ?thesis by (simp add: repair_field_def)
  next
    case False
    with h assms show ?thesis by (simp add: repair_field_def)
  qed
next
  assume "temp_match_repair docPath = None \<and> \<not> is_wrong_prefix docPath"
  with assms show "repair_field root client fld (results, updates) w = Return (results, updates) w"
    by (simp add: repair_field_def)
qed

theorem repair_field_placeholder_counted_witness:
  "((\<exists>results'. repair_field install_dir staging_missing_row ''nic_proof''
        (\<lparr>success = True, clientsProcessed = 1, fixedPaths = 0, createdDirectories = 0, errors = []\<rparr>, [])
        staging_missing_world
      = Return (results', [])
          (staging_missing_world\<lparr>nodes := (nodes staging_missing_world)
             ((install_dir @ [''uploads'', ''documents'', ''temp-1f0e'']) \<mapsto> Dir,
              (install_dir @ [''uploads'', ''documents'', ''temp-1f0e'', ''nic_proof-ab12.pdf''])
                 \<mapsto> File placeholder_text)\<rparr>)
      \<and> repair_results.fixedPaths results' = 0 + 1)
    \<and> nodes (staging_missing_world\<lparr>nodes := (nodes staging_missing_world)
             ((install_dir @ [''uploads'', ''documents'', ''temp-1f0e'']) \<mapsto> Dir,
              (install_dir @ [''uploads'', ''documents'', ''temp-1f0e'', ''nic_proof-ab12.pdf''])
                 \<mapsto> File placeholder_text)\<rparr>)
          (install_dir @ [''uploads'', ''documents'', ''temp-1f0e'', ''nic_proof-ab12.pdf''])
        = Some (File placeholder_text))
   \<and> repair_field install_dir settled_row ''nic_proof''
        (\<lparr>success = True, clientsProcessed = 1, fixedPaths = 0, createdDirectories = 0, errors = []\<rparr>, [])
        settled_world
      = Return (\<lparr>success = True, clientsProcessed = 1, fixedPaths = 0, createdDirectories = 0,
                 errors = []\<rparr>, []) settled_world"
proof -
  let ?r0 = "\<lparr>success = True, clientsProcessed = 1, fixedPaths = 0, createdDirectories = 0,
              errors = ([]::message list)\<rparr>"
  let ?w1 = "staging_missing_world\<lparr>nodes := (nodes staging_missing_world)
             ((install_dir @ [''uploads'', ''documents'', ''temp-1f0e'']) \<mapsto> Dir)\<rparr>"
  let ?w2 = "staging_missing_world\<lparr>nodes := (nodes staging_missing_world)
             ((install_dir @ [''uploads'', ''documents'', ''temp-1f0e'']) \<mapsto> Dir,
              (install_dir @ [''uploads'', ''documents'', ''temp-1f0e'', ''nic_proof-ab12.pdf''])
                 \<mapsto> File placeholder_text)\<rparr>"
  let ?dir = "path_join (documents_root install_dir) ''temp-1f0e''"
  let ?file = "path_join ?dir ''nic_proof-ab12.pdf''"
  have a: "staging_missing_row ''nic_proof''
             = Some ''/uploads/documents/temp-1f0e/nic_proof-ab12.pdf''"
          "''/uploads/documents/temp-1f0e/nic_proof-ab12.pdf'' \<noteq> []"
    by (simp_all add: staging_missing_row_def row_of_def)
  have d: "?file = (install_dir @ [''uploads'', ''documents'', ''temp-1f0e'', ''nic_proof-ab12.pdf''])"
    by (simp add: path_defs)
  have p1: "temp_match_repair ''/uploads/documents/temp-1f0e/nic_proof-ab12.pdf''
             = Some (''temp-1f0e'', ''nic_proof-ab12.pdf'')
          \<and> (if \<not> exists_sync staging_missing_world ?dir
              then mkdir_sync staging_missing_world ?dir
              else Return () staging_missing_world) = Return () ?w1
          \<and> \<not> exists_sync ?w1 ?file
          \<and> write_file_sync ?w1 ?file placeholder_text = Return () ?w2"
    by (simp add: temp_match_repair_def starts_with_def hex_or_dash_def fs_defs path_defs
          staging_missing_world_def world_of_def install_dir_def)
  have b: "settled_row ''nic_proof'' = Some ''/uploads/documents/C123/nic_proof-ab12.pdf''"
          "''/uploads/documents/C123/nic_proof-ab12.pdf'' \<noteq> []"
    by (simp_all add: settled_row_def row_of_def)
  have p2: "temp_match_repair ''/uploads/documents/C123/nic_proof-ab12.pdf'' = None
          \<and> \<not> is_wrong_prefix ''/uploads/documents/C123/nic_proof-ab12.pdf''"
    by (simp add: temp_match_repair_def starts_with_def is_wrong_prefix_def)
  note t1 = repair_field_placeholder_counted[where client = staging_missing_row
            and fld = "''nic_proof''" and w = staging_missing_world and results = ?r0
            and updates = "[]" and tempId = "''temp-1f0e''" and filename = "''nic_proof-ab12.pdf''"
            and ?w1.0 = ?w1 and ?w2.0 = ?w2, OF a]
  note t2 = repair_field_placeholder_counted[where client = settled_row
            and fld = "''nic_proof''" and w = settled_world and results = ?r0
            and updates = "[]", OF b]
  have c1: "(\<exists>results'. repair_field install_dir staging_missing_row ''nic_proof'' (?r0, []) staging_missing_world
               = Return (results', []) ?w2
             \<and> repair_results.fixedPaths results' = repair_results.fixedPaths ?r0 + 1)
           \<and> nodes ?w2 ?file = Some (File placeholder_text)
           \<and> rows ?w2 = rows staging_missing_world"
    by (rule mp[OF conjunct1[OF t1] p1])
  have c2: "repair_field install_dir settled_row ''nic_proof'' (?r0, []) settled_world = Return (?r0, []) settled_world"
    by (rule mp[OF conjunct2[OF t2] p2])
  from c1 have c1': "(\<exists>results'. repair_field install_dir staging_missing_row ''nic_proof'' (?r0, []) staging_missing_world
               = Return (results', []) ?w2
             \<and> repair_results.fixedPaths results' = 0 + 1)
           \<and> nodes ?w2 (install_dir @ [''uploads'', ''documents'', ''temp-1f0e'', ''nic_proof-ab12.pdf''])
                = Some (File placeholder_text)"
    unfolding d by simp
  show ?thesis by (rule conjI[OF c1' c2])
qed


text \<open>
  C3 as stated fails: one client, one reference into an absent staging directory, and
  the run reports \<open>fixedPaths = 1\<close> while the reference stays as it was.
\<close>

theorem repair_counts_placeholder_counterexample:
  "repair_all_documents install_dir staging_missing_world =
     (Success 200 \<lparr>success = True, clientsProcessed = 1, fixedPaths = 1,
                   createdDirectories = 1, errors = []\<rparr>,
      staging_missing_world\<lparr>nodes := (nodes staging_missing_world)
        ((install_dir @ [''uploads'', ''documents'', ''temp-1f0e'']) \<mapsto> Dir,
         (install_dir @ [''uploads'', ''documents'', ''temp-1f0e'', ''nic_proof-ab12.pdf''])
            \<mapsto> File placeholder_text)\<rparr>)"
  by (simp add: repair_all_documents_def repair_client_def repair_field_def
      staging_missing_world_def staging_missing_row_def fs_defs path_defs db_defs ex_defs
      documentFields_def temp_match_repair_def starts_with_def is_wrong_prefix_def
      hex_or_dash_def)

section \<open>A request that creates a client with documents\<close>

lemma simple_temp: "CHR ''/'' \<notin> set u \<Longrightarrow> simple_segment (''temp-'' @ u)"
  by (simp add: simple_segment_def)

lemma mkdir_from_elsewhere:
  "take (length q) (pre @ ss) \<noteq> q \<Longrightarrow> nodes (state_of (mkdir_from w pre ss)) q = nodes w q"
proof (induction w pre ss rule: mkdir_from.induct)
  case (1 w pre)
  then show ?case by (simp add: state_of_def)
next
  case (2 w pre s ss)
  have ne: "q \<noteq> pre @ [s]" using 2(3) by auto
  have p: "take (length q) ((pre @ [s]) @ ss) \<noteq> q" using 2(3) by simp
  show ?case
  proof (cases "nodes w (pre @ [s])")
    case None
    show ?thesis
    proof (cases "denied w (pre @ [s])")
      case True
      with None show ?thesis by (simp add: state_of_def)
    next
      case False
      from 2(1)[OF None False p] None False ne show ?thesis by simp
    qed
  next
    case (Some n)
    show ?thesis
    proof (cases n)
      case Dir
      from 2(2)[OF Some Dir p] Some Dir show ?thesis by simp
    next
      case (File c)
      with Some show ?thesis by (simp add: state_of_def)
    qed
  qed
qed

lemma mkdir_guard_elsewhere:
  assumes "take (length q) p \<noteq> q"
  shows "nodes (state_of (if c then mkdir_sync w p else Return () w)) q = nodes w q"
  using mkdir_from_elsewhere[of q "[]" p w] assms by (simp add: mkdir_sync_def state_of_def)

lemma write_file_sync_elsewhere:
  "q \<noteq> p \<Longrightarrow> nodes (state_of (write_file_sync w p c)) q = nodes w q"
  by (auto simp: write_file_sync_def state_of_def split: option.splits node.splits)

text \<open>
  Storing a file in the directory \<open>d\<close> that \<open>destination\<close> names touches no path \<open>T\<close>
  that is neither \<open>d\<close>, nor above \<open>d\<close>, nor the file itself.
\<close>

lemma handle_file_elsewhere_at:
  assumes "path_join (documents_root root) (''temp-'' @ destination_uuid f) = d"
    and "path_join d (storage_filename body f) = p"
    and "take (length T) d \<noteq> T" and "T \<noteq> p"
  shows "nodes (state_of (handle_file root None body f files w)) T = nodes w T"
proof -
  let ?m = "if \<not> exists_joined w (documents_root root) (''temp-'' @ destination_uuid f)
            then mkdir_sync w d else Return () w"
  have sd: "storage_destination root None (destination_uuid f) w
            = (case ?m of Raise e w1 \<Rightarrow> Raise e w1 | Return u w1 \<Rightarrow> Return d w1)"
    by (simp only: storage_destination_def Let_def option.case assms(1))
  have 1: "nodes (state_of ?m) T = nodes w T"
    by (rule mkdir_guard_elsewhere) (rule assms(3))
  show ?thesis
  proof (cases ?m)
    case (Raise e w1)
    with 1 show ?thesis unfolding handle_file_def sd by (simp add: state_of_def)
  next
    case (Return u w1)
    with 1 have 2: "nodes w1 T = nodes w T" by (simp add: state_of_def)
    have "nodes (state_of (write_file_sync w1 p (bytes f))) T = nodes w1 T"
      by (rule write_file_sync_elsewhere) (rule assms(4))
    with 2 Return show ?thesis unfolding handle_file_def sd
      by (auto simp: assms(2) state_of_def split: result.splits)
  qed
qed

lemma handle_file_elsewhere:
  assumes "CHR ''/'' \<notin> set (destination_uuid f)" and "simple_segment (storage_filename body f)"
    and "destination_uuid f \<noteq> tempUuid"
  shows "nodes (state_of (handle_file root None body f files w))
           (documents_root root @ [''temp-'' @ tempUuid])
         = nodes w (documents_root root @ [''temp-'' @ tempUuid])"
proof (rule handle_file_elsewhere_at)
  show "path_join (documents_root root) (''temp-'' @ destination_uuid f)
        = documents_root root @ [''temp-'' @ destination_uuid f]"
    by (rule path_join_simple[OF simple_temp[OF assms(1)]])
  show "path_join (documents_root root @ [''temp-'' @ destination_uuid f]) (storage_filename body f)
        = documents_root root @ [''temp-'' @ destination_uuid f, storage_filename body f]"
    using path_join_simple[OF assms(2)] by simp
  show "take (length (documents_root root @ [''temp-'' @ tempUuid]))
          (documents_root root @ [''temp-'' @ destination_uuid f])
        \<noteq> documents_root root @ [''temp-'' @ tempUuid]"
    using assms(3) by simp
  show "documents_root root @ [''temp-'' @ tempUuid]
        \<noteq> documents_root root @ [''temp-'' @ destination_uuid f, storage_filename body f]"
    by simp
qed

lemma upload_fields_elsewhere:
  assumes "\<forall>f \<in> set fs. CHR ''/'' \<notin> set (destination_uuid f)
             \<and> simple_segment (storage_filename body f) \<and> destination_uuid f \<noteq> tempUuid"
  shows "nodes (state_of (upload_fields root None body fs w))
           (documents_root root @ [''temp-'' @ tempUuid])
         = nodes w (documents_root root @ [''temp-'' @ tempUuid])"
  unfolding upload_fields_def
  by (rule for_each_invariant[where I = "\<lambda>w'. nodes w' (documents_root root @ [''temp-'' @ tempUuid])
         = nodes w (documents_root root @ [''temp-'' @ tempUuid])"])
     (use assms handle_file_elsewhere in auto)

lemma promote_without_staging_directory:
  "\<not> exists_sync w (path_join (documents_root root) tempClientId)
   \<Longrightarrow> promote root w tempClientId cid files = (TempDirNotFound, w)"
  using exists_joined_exists[of w "documents_root root" tempClientId] by (auto simp: promote_def)

lemma client_create_nodes: "nodes (state_of (client_create w fresh data)) = nodes w"
  by (simp add: client_create_def state_of_def Let_def)

text \<open>
  The block of the handler that moves the staging directory never takes effect. The
  upload middleware stores each file in a directory named after a value of \<open>uuidv4()\<close>
  of its own; the handler names the staging directory after another value. When that
  value differs from those of the middleware, and no directory of that name was there
  before the request, a request whose files have been stored does what it would do
  without the block: the client is created with the staging paths and nothing is moved.
  (The values of \<open>uuidv4()\<close> and the file names are single path segments.)
\<close>

lemma post_with_documents_never_promotes:
  assumes "\<forall>f \<in> set fs. CHR ''/'' \<notin> set (destination_uuid f)
             \<and> simple_segment (storage_filename body f) \<and> destination_uuid f \<noteq> tempUuid"
    and "CHR ''/'' \<notin> set tempUuid"
    and "nodes w (documents_root root @ [''temp-'' @ tempUuid]) = None"
    and "upload_fields root None body fs w = Return files w1"
  shows "post_with_documents root w u body fs tempUuid fresh loopback =
     (let clientData = with_sales_rep u body;
          missingFields = filter (\<lambda>f. \<not> truthy (set_columns clientData (\<lambda>k. None) f))
                            requiredFields
      in if missingFields \<noteq> [] then
           (Failure 400 (''Missing required fields: '' @ join_comma missingFields), w1)
         else
           (case client_create w1 fresh
                   (clientData @ map (\<lambda>(fieldName, filename).
                      (fieldName, Some (staged_path (''temp-'' @ tempUuid) filename))) files) of
              Raise e w2 \<Rightarrow> (Failure 500 ''Failed to create client with documents'', w2)
            | Return cid w2 \<Rightarrow>
                (Success 201 cid,
                 if loopback then snd (repair_all_documents root w2) else w2)))"
proof -
  let ?T = "documents_root root @ [''temp-'' @ tempUuid]"
  have T: "path_join (documents_root root) (''temp-'' @ tempUuid) = ?T"
    using path_join_simple[OF simple_temp[OF assms(2)], of "documents_root root"] by simp
  have 1: "nodes w1 ?T = None"
    using upload_fields_elsewhere[OF assms(1), of root w] assms(3,4)
    by (simp add: state_of_def)
  have 2: "promote root w2 (''temp-'' @ tempUuid) cid files = (TempDirNotFound, w2)"
    if "client_create w1 fresh data = Return cid w2" for data cid w2
  proof -
    have "nodes w2 = nodes w1" using client_create_nodes[of w1 fresh data] that
      by (simp add: state_of_def)
    with 1 have "\<not> exists_sync w2 ?T" by (simp add: exists_sync_def node_at_def)
    then show ?thesis using promote_without_staging_directory[of w2 root "''temp-'' @ tempUuid"] T
      by simp
  qed
  show ?thesis
    using assms(4) 2
    by (auto simp: post_with_documents_def create_with_documents_def Let_def split: result.splits)
qed

text \<open>
  The block itself, had the handler named the directory of the middleware: the directory
  of the client is replaced by the staging directory and the reference is rewritten.
\<close>

lemma promote_found_directory:
  "fst (promote install_dir promotion_world ''temp-1f0e'' ''C123''
          [(''nic_proof'', ''nic_proof-ab12.pdf'')]) = Promoted True []
   \<and> map (\<lambda>r. r ''nic_proof'')
        (rows (snd (promote install_dir promotion_world ''temp-1f0e'' ''C123''
                      [(''nic_proof'', ''nic_proof-ab12.pdf'')])))
     = [Some ''/uploads/documents/C123/nic_proof-ab12.pdf'']
   \<and> nodes (snd (promote install_dir promotion_world ''temp-1f0e'' ''C123''
                      [(''nic_proof'', ''nic_proof-ab12.pdf'')]))
        (install_dir @ [''uploads'', ''documents'', ''C123'', ''nic_proof-ab12.pdf''])
     = Some (File ''%PDF'')
   \<and> nodes (snd (promote install_dir promotion_world ''temp-1f0e'' ''C123''
                      [(''nic_proof'', ''nic_proof-ab12.pdf'')]))
        (install_dir @ [''uploads'', ''documents'', ''C123'', ''old-scan.pdf'']) = None"
  by (simp add: create_defs promotion_world_def promotion_row_def fs_defs path_defs db_defs
      ex_defs Let_def starts_with_def)

text \<open>\<open>String.prototype.replace\<close> expands \<open>$&\<close> in a client id to the staging id.\<close>

lemma rewritten_paths_dollar:
  "rewritten_paths ''temp-1f0e'' ''C$&''
       [(''nic_proof'', ''nic_proof-ab12.pdf'')]
     = [(''nic_proof'', ''/uploads/documents/Ctemp-1f0e/nic_proof-ab12.pdf'')]"
  by (simp add: rewritten_paths_def staged_path_def replace_first_def starts_with_def)

lemma world_eqI:
  "nodes a = nodes b \<Longrightarrow> denied a = denied b \<Longrightarrow> rows a = rows b
   \<Longrightarrow> write_fails a = write_fails b \<Longrightarrow> (a::world) = b"
  by simp


lemma post_with_documents_example:
  "fst (post_with_documents install_dir empty_store admin new_client_body [nic_upload]
          ''1f0e'' ''9a8b7c6d'' True) = Success 201 ''C9a8b7c6d''"
  "map (\<lambda>r. (r ''id'', r ''nic_proof''))
        (rows (snd (post_with_documents install_dir empty_store admin new_client_body [nic_upload]
                      ''1f0e'' ''9a8b7c6d'' True)))
     = [(Some ''C9a8b7c6d'', Some ''/uploads/documents/temp-1f0e/nic_proof-ab12.pdf'')]"
  "nodes (snd (post_with_documents install_dir empty_store admin new_client_body [nic_upload]
                      ''1f0e'' ''9a8b7c6d'' True))
        (install_dir @ [''uploads'', ''documents'', ''C9a8b7c6d'', ''nic_proof-ab12.pdf'']) = None"
  "nodes (snd (post_with_documents install_dir empty_store admin new_client_body [nic_upload]
                      ''1f0e'' ''9a8b7c6d'' True))
        (install_dir @ [''uploads'', ''documents'', ''temp-7c3d'', ''nic_proof-ab12.pdf''])
     = Some (File ''%PDF'')"
  "nodes (snd (post_with_documents install_dir empty_store admin new_client_body [nic_upload]
                      ''1f0e'' ''9a8b7c6d'' True))
        (install_dir @ [''uploads'', ''documents'', ''temp-1f0e'', ''nic_proof-ab12.pdf''])
     = Some (File placeholder_text)"
  by (simp_all add: upload_defs create_defs repair_defs fs_defs path_defs db_defs ex_defs Let_def)

text \<open>
  C1. A client is created with a NIC proof. The upload middleware stores the file as
  \<open>uploads/documents/temp-7c3d/nic_proof-ab12.pdf\<close>; the handler names the staging
  directory \<open>temp-1f0e\<close>, stores \<open>/uploads/documents/temp-1f0e/nic_proof-ab12.pdf\<close> in
  the record and finds no such directory to move. The request succeeds, and afterwards
  the reference still names the staging directory of the handler, not the client
  \<open>C9a8b7c6d\<close>; no file \<open>nic_proof-ab12.pdf\<close> is in the directory of the client; the
  uploaded file is where the middleware put it, under a name that no reference holds;
  and what the reference resolves to is the placeholder that the repair tool, requested
  at the end of the handler, has written.
\<close>

theorem post_with_documents_keeps_staging_reference:
  "fst (post_with_documents install_dir empty_store admin new_client_body [nic_upload]
          ''1f0e'' ''9a8b7c6d'' True) = Success 201 ''C9a8b7c6d''
   \<and> map (\<lambda>r. (r ''id'', r ''nic_proof''))
        (rows (snd (post_with_documents install_dir empty_store admin new_client_body [nic_upload]
                      ''1f0e'' ''9a8b7c6d'' True)))
       = [(Some ''C9a8b7c6d'', Some ''/uploads/documents/temp-1f0e/nic_proof-ab12.pdf'')]
   \<and> nodes (snd (post_with_documents install_dir empty_store admin new_client_body [nic_upload]
                      ''1f0e'' ''9a8b7c6d'' True))
        (install_dir @ [''uploads'', ''documents'', ''C9a8b7c6d'', ''nic_proof-ab12.pdf'']) = None
   \<and> nodes (snd (post_with_documents install_dir empty_store admin new_client_body [nic_upload]
                      ''1f0e'' ''9a8b7c6d'' True))
        (install_dir @ [''uploads'', ''documents'', ''temp-7c3d'', ''nic_proof-ab12.pdf''])
       = Some (File ''%PDF'')
   \<and> nodes (snd (post_with_documents install_dir empty_store admin new_client_body [nic_upload]
                      ''1f0e'' ''9a8b7c6d'' True))
        (install_dir @ [''uploads'', ''documents'', ''temp-1f0e'', ''nic_proof-ab12.pdf''])
       = Some (File placeholder_text)"
  using post_with_documents_example by (intro conjI)

text \<open>
  C6. A client is created with the id \<open>C123\<close> and a NIC proof while the directory
  \<open>uploads/documents/C123\<close> exists and holds \<open>old-scan.pdf\<close>. When the handler reaches
  the block that moves the staging directory, the directory of the client exists, and
  the block does nothing, because the staging directory \<open>temp-1f0e\<close> does not. The
  request succeeds, and the directory of the client is neither removed nor replaced:
  \<open>old-scan.pdf\<close> is still in it, and the uploaded file is not, it stays in the
  directory of the middleware.
\<close>

theorem post_with_documents_keeps_client_directory:
  "node_at leftover_store (install_dir @ [''uploads'', ''documents'', ''C123'']) = Some Dir
   \<and> (\<exists>w1 w2. upload_fields install_dir None named_client_body [nic_upload] leftover_store
                   = Return [(''nic_proof'', ''nic_proof-ab12.pdf'')] w1
        \<and> client_create w1 ''9a8b7c6d''
              (named_client_body @
                 [(''nic_proof'', Some (staged_path ''temp-1f0e'' ''nic_proof-ab12.pdf''))])
            = Return ''C123'' w2
        \<and> exists_sync w2 (path_join (documents_root install_dir) ''C123'')
        \<and> promote install_dir w2 ''temp-1f0e'' ''C123'' [(''nic_proof'', ''nic_proof-ab12.pdf'')]
            = (TempDirNotFound, w2))
   \<and> fst (post_with_documents install_dir leftover_store admin named_client_body [nic_upload]
          ''1f0e'' ''9a8b7c6d'' True) = Success 201 ''C123''
   \<and> nodes (snd (post_with_documents install_dir leftover_store admin named_client_body
                    [nic_upload] ''1f0e'' ''9a8b7c6d'' True))
        (install_dir @ [''uploads'', ''documents'', ''C123'', ''old-scan.pdf''])
       = Some (File ''%PDF old'')
   \<and> nodes (snd (post_with_documents install_dir leftover_store admin named_client_body
                    [nic_upload] ''1f0e'' ''9a8b7c6d'' True))
        (install_dir @ [''uploads'', ''documents'', ''C123'', ''nic_proof-ab12.pdf'']) = None
   \<and> nodes (snd (post_with_documents install_dir leftover_store admin named_client_body
                    [nic_upload] ''1f0e'' ''9a8b7c6d'' True))
        (install_dir @ [''uploads'', ''documents'', ''temp-7c3d'', ''nic_proof-ab12.pdf''])
       = Some (File ''%PDF'')"
proof (intro conjI)
  show "node_at leftover_store (install_dir @ [''uploads'', ''documents'', ''C123'']) = Some Dir"
    by (simp add: node_at_def leftover_store_def ex_defs)
  show "\<exists>w1 w2. upload_fields install_dir None named_client_body [nic_upload] leftover_store
                   = Return [(''nic_proof'', ''nic_proof-ab12.pdf'')] w1
        \<and> client_create w1 ''9a8b7c6d''
              (named_client_body @
                 [(''nic_proof'', Some (staged_path ''temp-1f0e'' ''nic_proof-ab12.pdf''))])
            = Return ''C123'' w2
        \<and> exists_sync w2 (path_join (documents_root install_dir) ''C123'')
        \<and> promote install_dir w2 ''temp-1f0e'' ''C123'' [(''nic_proof'', ''nic_proof-ab12.pdf'')]
            = (TempDirNotFound, w2)"
    by (simp add: upload_defs create_defs fs_defs path_defs db_defs ex_defs Let_def)
  show "fst (post_with_documents install_dir leftover_store admin named_client_body [nic_upload]
          ''1f0e'' ''9a8b7c6d'' True) = Success 201 ''C123''"
    by (simp add: upload_defs create_defs repair_defs fs_defs path_defs db_defs ex_defs Let_def)
  show "nodes (snd (post_with_documents install_dir leftover_store admin named_client_body
                    [nic_upload] ''1f0e'' ''9a8b7c6d'' True))
        (install_dir @ [''uploads'', ''documents'', ''C123'', ''old-scan.pdf''])
       = Some (File ''%PDF old'')"
    by (simp add: upload_defs create_defs repair_defs fs_defs path_defs db_defs ex_defs Let_def)
  show "nodes (snd (post_with_documents install_dir leftover_store admin named_client_body
                    [nic_upload] ''1f0e'' ''9a8b7c6d'' True))
        (install_dir @ [''uploads'', ''documents'', ''C123'', ''nic_proof-ab12.pdf'']) = None"
    by (simp add: upload_defs create_defs repair_defs fs_defs path_defs db_defs ex_defs Let_def)
  show "nodes (snd (post_with_documents install_dir leftover_store admin named_client_body
                    [nic_upload] ''1f0e'' ''9a8b7c6d'' True))
        (install_dir @ [''uploads'', ''documents'', ''temp-7c3d'', ''nic_proof-ab12.pdf''])
       = Some (File ''%PDF'')"
    by (simp add: upload_defs create_defs repair_defs fs_defs path_defs db_defs ex_defs Let_def)
qed


section \<open>The path stored by the upload handlers\<close>

lemma update_with_documents_example:
  "update_with_documents install_dir uploaded_world admin ''C123'' []
       [(''nic_proof'', ''nic_proof-cd34.pdf'')] True
     = (Success 200 (),
        uploaded_world\<lparr>nodes := (nodes uploaded_world)
                          ((install_dir @ [''uploads'', ''documents'', ''C123'', ''nic_proof-ab12.pdf'']) := None),
                       rows := [settled_row(''nic_proof'' \<mapsto> ''/uploads/documents/nic_proof-cd34.pdf'')]\<rparr>)"
  by (simp add: update_with_documents_def delete_old_file_def uploaded_world_def
      repair_all_documents_def repair_client_def repair_field_def
      fs_defs path_defs db_defs ex_defs documentFields_def temp_match_repair_def
      starts_with_def is_wrong_prefix_def hex_or_dash_def)

lemma upload_document_example:
  "upload_document install_dir uploaded_world admin ''C123'' (Some ''nic_proof-cd34.pdf'') (Some ''nic_proof'')
     = (Success 200 ''/uploads/documents/C123/nic_proof-cd34.pdf'',
        uploaded_world\<lparr>nodes := (nodes uploaded_world)
                          ((install_dir @ [''uploads'', ''documents'', ''C123'', ''nic_proof-ab12.pdf'']) := None),
                       rows := [settled_row(''nic_proof'' \<mapsto> ''/uploads/documents/C123/nic_proof-cd34.pdf'')]\<rparr>)"
  by (simp add: upload_document_def delete_old_file_def uploaded_world_def
      fs_defs path_defs db_defs ex_defs)

lemma create_with_documents_example:
  "fst (create_with_documents install_dir upload_world admin ''1f0e'' ''9a8b7c6d'' new_client_body
          [(''nic_proof'', ''nic_proof-ab12.pdf'')] True) = Success 201 ''C9a8b7c6d''
   \<and> map (\<lambda>r. r ''nic_proof'')
         (rows (snd (create_with_documents install_dir upload_world admin ''1f0e'' ''9a8b7c6d'' new_client_body
            [(''nic_proof'', ''nic_proof-ab12.pdf'')] True)))
       = [Some ''/uploads/documents/C9a8b7c6d/nic_proof-ab12.pdf'']"
  by (simp add: create_with_documents_def with_sales_rep_def requiredFields_def truthy_def
      new_client_body_def client_create_def promote_def rewritten_paths_def staged_path_def
      replace_first_def upload_world_def repair_all_documents_def repair_client_def
      repair_field_def temp_match_repair_def starts_with_def is_wrong_prefix_def hex_or_dash_def
      documentFields_def fs_defs path_defs db_defs ex_defs Let_def)

lemma canonical_examples:
  "\<not> spec_canonical ''/uploads/documents/nic_proof-cd34.pdf''"
  "spec_canonical ''/uploads/documents/C123/nic_proof-cd34.pdf''"
  "spec_canonical ''/uploads/documents/C9a8b7c6d/nic_proof-ab12.pdf''"
  "spec_canonical ''/uploads/documents/temp-1f0e/nic_proof-ab12.pdf''"
  by (simp_all add: spec_canonical_def)

text \<open>
  The upload middleware, in the route that updates client \<open>C123\<close>, stores the new file
  in the directory of the client.
\<close>

lemma upload_fields_for_client:
  "upload_fields install_dir (Some ''C123'') []
       [\<lparr>fieldname = ''nic_proof'', extname = ''.pdf'', bytes = ''%PDF new'',
         destination_uuid = ''7c3d'', filename_uuid = ''cd34''\<rparr>] settled_world
     = Return [(''nic_proof'', ''nic_proof-cd34.pdf'')] uploaded_world"
proof -
  have w: "settled_world\<lparr>nodes := (nodes settled_world)
             (install_dir @ [''uploads'', ''documents'', ''C123'', ''nic_proof-cd34.pdf'']
                \<mapsto> File ''%PDF new'')\<rparr> = uploaded_world"
    by (rule world_eqI) (auto simp: uploaded_world_def ex_defs fun_eq_iff)
  show ?thesis unfolding w[symmetric]
    by (simp add: upload_defs fs_defs path_defs db_defs ex_defs Let_def)
qed

text \<open>
  C8. Updating client \<open>C123\<close> with a new NIC proof, which the upload middleware has
  stored as \<open>uploads/documents/C123/nic_proof-cd34.pdf\<close>, succeeds, removes the old
  file and stores the reference \<open>/uploads/documents/nic_proof-cd34.pdf\<close>: the
  namespace segment is missing, so the reference is not canonical, and the repair run
  at the end of the handler leaves it so. The upload of a single document stores, for
  the same file, the canonical path with the client id. The creation of a client with
  documents stores a path of three segments as well: the path with the client id if the
  handler finds its staging directory, and the path into that staging directory in a
  request as the upload middleware prepares it.
\<close>

theorem update_with_documents_stores_short_path:
  "update_with_documents install_dir uploaded_world admin ''C123'' []
       [(''nic_proof'', ''nic_proof-cd34.pdf'')] True
     = (Success 200 (),
        uploaded_world\<lparr>nodes := (nodes uploaded_world)
                          ((install_dir @ [''uploads'', ''documents'', ''C123'', ''nic_proof-ab12.pdf'']) := None),
                       rows := [settled_row(''nic_proof'' \<mapsto> ''/uploads/documents/nic_proof-cd34.pdf'')]\<rparr>)
   \<and> \<not> spec_canonical ''/uploads/documents/nic_proof-cd34.pdf''
   \<and> fst (upload_document install_dir uploaded_world admin ''C123'' (Some ''nic_proof-cd34.pdf'')
             (Some ''nic_proof''))
       = Success 200 ''/uploads/documents/C123/nic_proof-cd34.pdf''
   \<and> spec_canonical ''/uploads/documents/C123/nic_proof-cd34.pdf''
   \<and> map (\<lambda>r. r ''nic_proof'')
         (rows (snd (create_with_documents install_dir upload_world admin ''1f0e'' ''9a8b7c6d'' new_client_body
            [(''nic_proof'', ''nic_proof-ab12.pdf'')] True)))
       = [Some ''/uploads/documents/C9a8b7c6d/nic_proof-ab12.pdf'']
   \<and> spec_canonical ''/uploads/documents/C9a8b7c6d/nic_proof-ab12.pdf''
   \<and> map (\<lambda>r. (r ''id'', r ''nic_proof''))
        (rows (snd (post_with_documents install_dir empty_store admin new_client_body [nic_upload]
                      ''1f0e'' ''9a8b7c6d'' True)))
       = [(Some ''C9a8b7c6d'', Some ''/uploads/documents/temp-1f0e/nic_proof-ab12.pdf'')]
   \<and> spec_canonical ''/uploads/documents/temp-1f0e/nic_proof-ab12.pdf''"
  using update_with_documents_example upload_document_example create_with_documents_example
    post_with_documents_example(2) canonical_examples by simp

section \<open>A failure that ends the repair run\<close>

lemma repair_continues_after_update_failure:
  "repair_all_documents install_dir (unwritable_world) =
     (Success 200 \<lparr>success = True, clientsProcessed = 2, fixedPaths = 2, createdDirectories = 0,
                   errors = [DatabaseErrorUpdating ''C1'' (DbError ''C1'')]\<rparr>,
      unwritable_world\<lparr>rows := [legacy_row,
         other_legacy_row(''dob_proof'' \<mapsto> ''/uploads/documents/C2/dob_proof-ef56.pdf'')]\<rparr>)"
  by (simp add: repair_all_documents_def repair_client_def repair_field_def
      unwritable_world_def legacy_row_def other_legacy_row_def fs_defs path_defs db_defs ex_defs
      documentFields_def temp_match_repair_def starts_with_def is_wrong_prefix_def
      hex_or_dash_def)

text \<open>
  C9. The repair tool fixes the reference of the first client and writes it to the
  table; creating the directory of the second client then fails, the exception
  reaches the outer handler, and the answer is the bare 500 failure: the counters of
  the first client are gone and no \<open>errors\<close> list is returned.
\<close>

theorem repair_aborts_on_directory_failure:
  "repair_all_documents install_dir blocked_world =
     (Failure 500 ''Error repairing documents'',
      blocked_world\<lparr>rows := [legacy_row(''nic_proof'' \<mapsto> ''/uploads/documents/C1/nic_proof-ab12.pdf''),
                            second_row]\<rparr>)"
  by (simp add: repair_all_documents_def repair_client_def repair_field_def
      blocked_world_def legacy_row_def second_row_def fs_defs path_defs db_defs ex_defs
      documentFields_def temp_match_repair_def starts_with_def is_wrong_prefix_def
      hex_or_dash_def)

section \<open>The diagnostic scan\<close>

lemmas scan_defs = check_documents_def check_client_def check_field_def copy_to_client_def
  push_document_def temp_match_check_def starts_with_def

lemma extends_refl: "extends w w"
  by (simp add: extends_def)

lemma extends_trans: "extends a b \<Longrightarrow> extends b c \<Longrightarrow> extends a c"
  unfolding extends_def by (metis)

lemma dirs_added_refl: "dirs_added w w"
  by (simp add: dirs_added_def)

lemma dirs_added_trans: "dirs_added a b \<Longrightarrow> dirs_added b c \<Longrightarrow> dirs_added a c"
  unfolding dirs_added_def by (metis)

lemma dirs_added_extends: "dirs_added w w' \<Longrightarrow> extends w w'"
  unfolding dirs_added_def extends_def by (metis option.distinct(1))

lemma is_file_iff: "is_file w p \<longleftrightarrow> p \<noteq> [] \<and> (\<exists>c. nodes w p = Some (File c))"
  by (auto simp: is_file_def node_at_def split: option.splits node.splits)

lemma dirs_added_is_file: "dirs_added w w' \<Longrightarrow> is_file w' p = is_file w p"
  unfolding dirs_added_def is_file_iff
  by (metis node.distinct(1) option.distinct(1) option.inject)


lemma mkdir_from_dirs_added: "dirs_added w (state_of (mkdir_from w pre ss))"
proof (induction w pre ss rule: mkdir_from.induct)
  case (1 w pre)
  then show ?case by (simp add: state_of_def dirs_added_refl)
next
  case (2 w pre s ss)
  show ?case
  proof (cases "nodes w (pre @ [s])")
    case None
    show ?thesis
    proof (cases "denied w (pre @ [s])")
      case True
      with None show ?thesis by (simp add: state_of_def dirs_added_refl)
    next
      case False
      let ?w1 = "w\<lparr>nodes := (nodes w)(pre @ [s] \<mapsto> Dir)\<rparr>"
      have "dirs_added w ?w1" using None by (simp add: dirs_added_def)
      moreover have "dirs_added ?w1 (state_of (mkdir_from ?w1 (pre @ [s]) ss))"
        using 2(1)[OF None False] .
      ultimately show ?thesis using None False
        by (simp add: dirs_added_trans[of w ?w1])
    qed
  next
    case (Some n)
    then show ?thesis using 2(2)
      by (cases n) (simp_all add: state_of_def dirs_added_refl)
  qed
qed

lemma mkdir_sync_dirs_added: "dirs_added w (state_of (mkdir_sync w p))"
  by (simp add: mkdir_sync_def mkdir_from_dirs_added)

lemma write_file_sync_extends: "extends w (state_of (write_file_sync w p c))"
  by (auto simp: write_file_sync_def state_of_def extends_def node_at_def
      split: option.splits node.splits if_splits)

lemma copy_file_sync_extends: "extends w (state_of (copy_file_sync w src dst))"
  using write_file_sync_extends
  by (auto simp: copy_file_sync_def state_of_def extends_refl split: option.splits node.splits)

lemma client_update_nodes:
  "nodes (state_of (client_update w cid data)) = nodes w
   \<and> denied (state_of (client_update w cid data)) = denied w
   \<and> write_fails (state_of (client_update w cid data)) = write_fails w"
  by (simp add: client_update_def state_of_def)

lemma client_update_extends: "extends w (state_of (client_update w cid data))"
  using client_update_nodes[of w cid data] by (simp add: extends_def)

lemma copy_to_client_extends:
  "extends w (state_of (copy_to_client w src dst cid fld rel))"
proof -
  let ?m = "if \<not> exists_sync w (dirname dst) then mkdir_sync w (dirname dst) else Return () w"
  have m: "extends w (state_of ?m)"
    using mkdir_sync_dirs_added[of w "dirname dst"]
    by (auto simp: dirs_added_extends extends_refl state_of_def)
  show ?thesis
  proof (cases ?m)
    case (Raise e w1)
    with m show ?thesis by (simp add: copy_to_client_def state_of_def)
  next
    case (Return u w1)
    with m have 1: "extends w w1" by (simp add: state_of_def)
    show ?thesis
    proof (cases "copy_file_sync w1 src dst")
      case (Raise e w2)
      with copy_file_sync_extends[of w1 src dst] 1 Return show ?thesis
        by (auto simp: copy_to_client_def state_of_def intro: extends_trans)
    next
      case (Return u' w2)
      with copy_file_sync_extends[of w1 src dst] 1 have 2: "extends w w2"
        by (auto simp: state_of_def intro: extends_trans)
      from \<open>?m = Return u w1\<close> Return
      have "state_of (copy_to_client w src dst cid fld rel)
            = state_of (client_update w2 cid [(fld, Some rel)])"
        by (simp add: copy_to_client_def)
      with 2 client_update_extends[of w2 cid "[(fld, Some rel)]"] show ?thesis
        by (auto intro: extends_trans)
    qed
  qed
qed

lemma check_field_state:
  "snd (check_field root cid client fld ((results, cr), w)) =
     (case client fld of
        None \<Rightarrow> w
      | Some docPath \<Rightarrow>
          if docPath \<noteq> [] \<and> includes_str docPath ''temp-'' then
            (case temp_match_check docPath of
               None \<Rightarrow> w
             | Some fn \<Rightarrow>
                 if exists_joined w root docPath then
                   state_of (copy_to_client w (path_join root docPath)
                     (path_join root (''/uploads/documents/'' @ cid @ ''/'' @ fn))
                     cid fld (''/uploads/documents/'' @ cid @ ''/'' @ fn))
                 else w)
          else w)"
  by (auto simp: check_field_def Let_def state_of_def split: option.splits result.splits)

lemma check_field_extends: "extends (snd a) (snd (check_field root cid client fld a))"
proof -
  obtain results cr w where a: "a = ((results, cr), w)" by (metis surj_pair)
  show ?thesis unfolding a check_field_state
    by (auto simp: extends_refl copy_to_client_extends split: option.splits)
qed

lemma check_fields_extends:
  assumes "extends w0 (snd a)"
  shows "extends w0 (snd (fold (check_field root cid client) flds a))"
  by (rule fold_invariant[where I = "extends w0", OF assms])
     (blast intro: extends_trans check_field_extends)

lemma check_client_extends: "extends w (state_of (check_client root client results w))"
proof (cases "client ''id''")
  case None
  then show ?thesis by (simp add: check_client_def state_of_def extends_refl)
next
  case (Some cid)
  show ?thesis
  proof (cases "cid = []")
    case True
    with Some show ?thesis by (simp add: check_client_def state_of_def extends_refl)
  next
    case False
    let ?m = "if \<not> exists_joined w (documents_root root) cid
              then mkdir_sync w (path_join (documents_root root) cid) else Return () w"
    have m: "extends w (state_of ?m)"
      using mkdir_sync_dirs_added[of w "path_join (documents_root root) cid"]
      by (auto simp: dirs_added_extends extends_refl state_of_def)
    show ?thesis
    proof (cases ?m)
      case (Raise e w1)
      with m Some False show ?thesis by (simp add: check_client_def state_of_def)
    next
      case (Return u w1)
      with m have 1: "extends w w1" by (simp add: state_of_def)
      let ?a = "((results, \<lparr>clientId = cid, clientName = client ''client_name'', documents = [],
                            tempPathsFixed = 0, missingFiles = 0\<rparr>), w1)"
      have "extends w (snd (fold (check_field root cid client) documentFields ?a))"
        using check_fields_extends[of w ?a] 1 by simp
      with Some False Return show ?thesis
        by (auto simp: check_client_def state_of_def split: prod.splits)
    qed
  qed
qed

lemma check_documents_extends: "extends w (snd (check_documents root w))"
proof -
  let ?r = "for_each (check_client root) (get_all w 100 0)
             \<lparr>check_results.totalClients = length (get_all w 100 0), checkedDocuments = 0,
              missingFiles = 0, tempFiles = 0, fixedPaths = 0, errors = [], details = []\<rparr> w"
  have "extends w (state_of ?r)"
    by (rule for_each_invariant[where I = "extends w"])
       (auto intro: extends_refl extends_trans check_client_extends)
  then show ?thesis
    by (auto simp: check_documents_def state_of_def split: result.splits)
qed

lemma dirs_added_node_at:
  "dirs_added w w' \<Longrightarrow> node_at w p = Some n \<Longrightarrow> node_at w' p = Some n"
  unfolding dirs_added_def node_at_def by (metis option.distinct(1))

lemma mkdir_guard_dirs_added:
  "dirs_added w (state_of (if c then mkdir_sync w p else Return () w))"
  by (simp add: mkdir_sync_dirs_added) (simp add: state_of_def dirs_added_refl)

lemma copy_file_sync_not_file:
  "\<not> is_file w src \<Longrightarrow> copy_file_sync w src dst = Raise (FsError (if node_at w src = None then ENOENT else EISDIR)) w"
  by (auto simp: copy_file_sync_def is_file_def split: option.splits node.splits)

lemma copy_to_client_not_file:
  assumes "\<not> is_file w src"
  shows "dirs_added w (state_of (copy_to_client w src dst cid fld rel))"
proof -
  let ?m = "if \<not> exists_sync w (dirname dst) then mkdir_sync w (dirname dst) else Return () w"
  have m: "dirs_added w (state_of ?m)" by (rule mkdir_guard_dirs_added)
  show ?thesis
  proof (cases ?m)
    case (Raise e w1)
    with m show ?thesis by (simp add: copy_to_client_def state_of_def)
  next
    case (Return u w1)
    with m have 1: "dirs_added w w1" by (simp add: state_of_def)
    then have "\<not> is_file w1 src" using assms by (simp add: dirs_added_is_file)
    from copy_file_sync_not_file[OF this, of dst] Return 1 show ?thesis
      by (simp add: copy_to_client_def state_of_def)
  qed
qed

lemma check_field_dirs_added:
  assumes "dirs_added w0 (snd a)"
    and "\<forall>docPath fn. client fld = Some docPath \<and> includes_str docPath ''temp-''
            \<and> temp_match_check docPath = Some fn
          \<longrightarrow> \<not> is_file w0 (path_join root docPath)"
  shows "dirs_added w0 (snd (check_field root cid client fld a))"
proof -
  obtain results cr w where a: "a = ((results, cr), w)" by (metis surj_pair)
  have w: "dirs_added w0 w" using assms(1) a by simp
  show ?thesis
  proof (cases "client fld")
    case None
    with w show ?thesis unfolding a check_field_state by simp
  next
    case (Some docPath)
    show ?thesis
    proof (cases "docPath \<noteq> [] \<and> includes_str docPath ''temp-''")
      case False
      with Some w show ?thesis unfolding a check_field_state by auto
    next
      case True
      show ?thesis
      proof (cases "temp_match_check docPath")
        case None
        with Some True w show ?thesis unfolding a check_field_state by simp
      next
        case (Some fn)
        with \<open>client fld = Some docPath\<close> True assms(2)
        have "\<not> is_file w0 (path_join root docPath)" by blast
        then have "\<not> is_file w (path_join root docPath)"
          using w by (simp add: dirs_added_is_file)
        from copy_to_client_not_file[OF this] w
        have "dirs_added w0 (state_of (copy_to_client w (path_join root docPath)
                     (path_join root (''/uploads/documents/'' @ cid @ ''/'' @ fn))
                     cid fld (''/uploads/documents/'' @ cid @ ''/'' @ fn)))"
          by (blast intro: dirs_added_trans)
        with Some \<open>client fld = Some docPath\<close> True w show ?thesis
          unfolding a check_field_state by simp
      qed
    qed
  qed
qed

lemma check_client_dirs_added:
  assumes "dirs_added w0 w"
    and "\<forall>fld \<in> set documentFields. \<forall>docPath fn.
            client fld = Some docPath \<and> includes_str docPath ''temp-''
            \<and> temp_match_check docPath = Some fn
          \<longrightarrow> \<not> is_file w0 (path_join root docPath)"
  shows "dirs_added w0 (state_of (check_client root client results w))"
proof (cases "client ''id''")
  case None
  with assms(1) show ?thesis by (simp add: check_client_def state_of_def)
next
  case (Some cid)
  show ?thesis
  proof (cases "cid = []")
    case True
    with Some assms(1) show ?thesis by (simp add: check_client_def state_of_def)
  next
    case False
    let ?m = "if \<not> exists_joined w (documents_root root) cid
              then mkdir_sync w (path_join (documents_root root) cid) else Return () w"
    have m: "dirs_added w0 (state_of ?m)"
      using mkdir_guard_dirs_added[where w = w] assms(1) by (blast intro: dirs_added_trans)
    show ?thesis
    proof (cases ?m)
      case (Raise e w1)
      with m Some False show ?thesis by (simp add: check_client_def state_of_def)
    next
      case (Return u w1)
      with m have 1: "dirs_added w0 w1" by (simp add: state_of_def)
      let ?a = "((results, \<lparr>clientId = cid, clientName = client ''client_name'', documents = [],
                            tempPathsFixed = 0, missingFiles = 0\<rparr>), w1)"
      have "dirs_added w0 (snd (fold (check_field root cid client) documentFields ?a))"
      proof (rule fold_invariant[where I = "dirs_added w0"])
        show "dirs_added w0 (snd ?a)" using 1 by simp
      next
        fix x and a :: "(check_results \<times> client_result) \<times> world"
        assume "x \<in> set documentFields" "dirs_added w0 (snd a)"
        then show "dirs_added w0 (snd (check_field root cid client x a))"
          using assms(2) by (intro check_field_dirs_added) auto
      qed
      with Some False Return show ?thesis
        by (auto simp: check_client_def state_of_def split: prod.splits)
    qed
  qed
qed

lemma check_documents_dirs_added:
  assumes "\<forall>client \<in> set (get_all w 100 0). \<forall>fld \<in> set documentFields. \<forall>docPath fn.
            client fld = Some docPath \<and> includes_str docPath ''temp-''
            \<and> temp_match_check docPath = Some fn
          \<longrightarrow> \<not> is_file w (path_join root docPath)"
  shows "dirs_added w (snd (check_documents root w))"
proof -
  let ?r = "for_each (check_client root) (get_all w 100 0)
             \<lparr>check_results.totalClients = length (get_all w 100 0), checkedDocuments = 0,
              missingFiles = 0, tempFiles = 0, fixedPaths = 0, errors = [], details = []\<rparr> w"
  have "dirs_added w (state_of ?r)"
  proof (rule for_each_invariant[where I = "dirs_added w"])
    show "dirs_added w w" by (rule dirs_added_refl)
  next
    fix x s w' assume "x \<in> set (get_all w 100 0)" "dirs_added w w'"
    then show "dirs_added w (state_of (check_client root x s w'))"
      using assms by (intro check_client_dirs_added) auto
  qed
  then show ?thesis
    by (auto simp: check_documents_def state_of_def split: result.splits)
qed

lemma write_file_sync_Return_iff:
  "write_file_sync w p c = Return u w'
   \<Longrightarrow> w' = w\<lparr>nodes := (nodes w)(p \<mapsto> File c)\<rparr> \<and> p \<noteq> [] \<and> node_at w (dirname p) = Some Dir"
  by (auto simp: write_file_sync_def node_at_def split: option.splits node.splits if_splits)

lemma butlast_neq: "p \<noteq> [] \<Longrightarrow> butlast p \<noteq> p"
  by (metis length_butlast diff_less length_greater_0_conv less_numeral_extra(1) nat_neq_iff)

lemma copy_to_client_Return:
  assumes "copy_to_client w src dst cid fld rel = Return u w'"
    and "node_at w src = Some (File c)"
  shows "node_at w' dst = Some (File c) \<and> node_at w' (dirname dst) = Some Dir
         \<and> node_at w' src = Some (File c)
         \<and> rows w' = map (\<lambda>r. if r ''id'' = Some cid then r(fld \<mapsto> rel) else r) (rows w)"
proof -
  let ?m = "if \<not> exists_sync w (dirname dst) then mkdir_sync w (dirname dst) else Return () w"
  obtain w1 where m: "?m = Return () w1"
    using assms(1) by (cases ?m) (auto simp: copy_to_client_def)
  have d1: "dirs_added w w1"
    using mkdir_guard_dirs_added[where w = w and p = "dirname dst"
        and c = "\<not> exists_sync w (dirname dst)"] m
    by (simp add: state_of_def)
  obtain w2 where c: "copy_file_sync w1 src dst = Return () w2"
    using assms(1) m by (cases "copy_file_sync w1 src dst") (auto simp: copy_to_client_def)
  have s1: "node_at w1 src = Some (File c)" using dirs_added_node_at[OF d1 assms(2)] .
  with c have wr: "write_file_sync w1 dst c = Return () w2" by (simp add: copy_file_sync_def)
  from write_file_sync_Return_iff[OF wr]
  have w2: "w2 = w1\<lparr>nodes := (nodes w1)(dst \<mapsto> File c)\<rparr>" and ne: "dst \<noteq> []"
    and par: "node_at w1 (dirname dst) = Some Dir" by auto
  have u: "client_update w2 cid [(fld, Some rel)] = Return u w'"
    using assms(1) m c by (simp add: copy_to_client_def)
  then have w': "nodes w' = nodes w2"
    and r': "rows w' = map (\<lambda>r. if r ''id'' = Some cid then r(fld \<mapsto> rel) else r) (rows w2)"
    by (auto simp: client_update_def set_columns_def split: if_splits)
  have "rows w2 = rows w" using w2 d1 by (simp add: dirs_added_def)
  moreover have "node_at w' dst = Some (File c)" using w' w2 ne by (simp add: node_at_def)
  moreover have "node_at w' (dirname dst) = Some Dir"
    using w' w2 ne par butlast_neq[OF ne] by (auto simp: node_at_def dirname_def)
  moreover have "node_at w' src = Some (File c)"
    using w' w2 s1 by (auto simp: node_at_def)
  ultimately show ?thesis using r' by simp
qed


lemma includes_str_nonempty: "includes_str s ''temp-'' \<Longrightarrow> s \<noteq> []"
  by auto






lemma check_field_fixed:
  assumes "client fld = Some docPath" and "includes_str docPath ''temp-''"
    and "temp_match_check docPath = Some fn"
    and "node_at w (path_join root docPath) = Some (File content)"
    and "copy_to_client w (path_join root docPath)
           (path_join root (''/uploads/documents/'' @ cid @ ''/'' @ fn)) cid fld
           (''/uploads/documents/'' @ cid @ ''/'' @ fn) = Return u w'"
  shows "check_field root cid client fld ((results, cr), w) =
           ((results\<lparr>checkedDocuments := checkedDocuments results + 1,
                     tempFiles := tempFiles results + 1,
                     check_results.fixedPaths := check_results.fixedPaths results + 1\<rparr>,
             push_document
               \<lparr>field = fld, originalPath = docPath,
                newPath = Some (''/uploads/documents/'' @ cid @ ''/'' @ fn),
                status = ''fixed'', error = None\<rparr>
               (cr\<lparr>tempPathsFixed := tempPathsFixed cr + 1\<rparr>)), w')"
proof -
  have ne: "docPath \<noteq> []" using assms(2) by (rule includes_str_nonempty)
  have ex: "exists_joined w root docPath"
    using assms(4) temp_match_check_no_slash[OF assms(3)] by (rule exists_joined_file)
  from assms(1-3,5) ne ex show ?thesis
    by (simp add: check_field_def Let_def)
qed

lemma copy_to_client_staged:
  "copy_to_client staged_world
       (install_dir @ [''uploads'', ''documents'', ''temp-1f0e'', ''nic_proof-ab12.pdf''])
       (install_dir @ [''uploads'', ''documents'', ''C123'', ''nic_proof-ab12.pdf''])
       ''C123'' ''nic_proof'' ''/uploads/documents/C123/nic_proof-ab12.pdf''
     = Return True
         (staged_world\<lparr>nodes := (nodes staged_world)
            (install_dir @ [''uploads'', ''documents'', ''C123''] \<mapsto> Dir,
             install_dir @ [''uploads'', ''documents'', ''C123'', ''nic_proof-ab12.pdf'']
               \<mapsto> File ''%PDF''),
            rows := [staged_row(''nic_proof'' \<mapsto> ''/uploads/documents/C123/nic_proof-ab12.pdf'')]\<rparr>)"
  by (simp add: copy_to_client_def staged_world_def staged_row_def fs_defs db_defs ex_defs)

lemma path_join_examples:
  "path_join install_dir ''/uploads/documents/temp-1f0e/nic_proof-ab12.pdf''
     = install_dir @ [''uploads'', ''documents'', ''temp-1f0e'', ''nic_proof-ab12.pdf'']"
  "path_join install_dir ''/uploads/documents/C123/nic_proof-ab12.pdf''
     = install_dir @ [''uploads'', ''documents'', ''C123'', ''nic_proof-ab12.pdf'']"
  "path_join install_dir ''/../backend/uploads/documents/temp-1f0e/nic_proof-ab12.pdf''
     = install_dir @ [''uploads'', ''documents'', ''temp-1f0e'', ''nic_proof-ab12.pdf'']"
  "path_join install_dir ''/../uploads/documents/C123/nic_proof-ab12.pdf''
     = [''srv'', ''uploads'', ''documents'', ''C123'', ''nic_proof-ab12.pdf'']"
  by (simp_all add: path_defs ex_defs)

text \<open>
  C2, as amended. The scan never removes or moves a file or a directory. It changes
  no record and no file, creating at most missing directories, if none of the
  references it checks is a staging reference, recognised by the diagnostic route, that
  resolves to a file. When the scan handles a slot with such a reference, and neither
  the copy nor the update of the record fails, it copies the file to
  \<open>/uploads/documents/<client id>/<file name>\<close>, writes that path into the slot of the
  client's record, and reports the slot as \<open>fixed\<close>, counting it in \<open>fixedPaths\<close>.
\<close>

theorem scan_frame:
  "extends w (snd (check_documents root w))
   \<and> ((\<forall>client \<in> set (get_all w 100 0). \<forall>fld \<in> set documentFields. \<forall>docPath fn.
          client fld = Some docPath \<and> includes_str docPath ''temp-''
          \<and> temp_match_check docPath = Some fn
        \<longrightarrow> \<not> is_file w (path_join root docPath))
      \<longrightarrow> dirs_added w (snd (check_documents root w)))
   \<and> (row fld = Some docPath \<and> includes_str docPath ''temp-''
        \<and> temp_match_check docPath = Some filename
        \<and> node_at w (path_join root docPath) = Some (File content)
        \<and> copy_to_client w (path_join root docPath)
             (path_join root (''/uploads/documents/'' @ cid @ ''/'' @ filename)) cid fld
             (''/uploads/documents/'' @ cid @ ''/'' @ filename) = Return u w'
      \<longrightarrow> check_field root cid row fld ((results, cr), w) =
            ((results\<lparr>checkedDocuments := checkedDocuments results + 1,
                      tempFiles := tempFiles results + 1,
                      check_results.fixedPaths := check_results.fixedPaths results + 1\<rparr>,
              push_document
                \<lparr>field = fld, originalPath = docPath,
                 newPath = Some (''/uploads/documents/'' @ cid @ ''/'' @ filename),
                 status = ''fixed'', error = None\<rparr>
                (cr\<lparr>tempPathsFixed := tempPathsFixed cr + 1\<rparr>)), w')
          \<and> node_at w' (path_join root (''/uploads/documents/'' @ cid @ ''/'' @ filename))
              = Some (File content)
          \<and> node_at w' (path_join root docPath) = Some (File content)
          \<and> rows w' = map (\<lambda>r. if r ''id'' = Some cid
                                 then r(fld \<mapsto> ''/uploads/documents/'' @ cid @ ''/'' @ filename)
                                 else r) (rows w))"
proof (intro conjI impI)
  show "extends w (snd (check_documents root w))" by (rule check_documents_extends)
next
  assume "\<forall>client \<in> set (get_all w 100 0). \<forall>fld \<in> set documentFields. \<forall>docPath fn.
          client fld = Some docPath \<and> includes_str docPath ''temp-''
          \<and> temp_match_check docPath = Some fn
        \<longrightarrow> \<not> is_file w (path_join root docPath)"
  then show "dirs_added w (snd (check_documents root w))" by (rule check_documents_dirs_added)
next
  let ?rel = "''/uploads/documents/'' @ cid @ ''/'' @ filename"
  assume h: "row fld = Some docPath \<and> includes_str docPath ''temp-''
        \<and> temp_match_check docPath = Some filename
        \<and> node_at w (path_join root docPath) = Some (File content)
        \<and> copy_to_client w (path_join root docPath) (path_join root ?rel) cid fld ?rel = Return u w'"
  then have c: "copy_to_client w (path_join root docPath) (path_join root ?rel) cid fld ?rel
                  = Return u w'"
    and n: "node_at w (path_join root docPath) = Some (File content)" by simp_all
  note r = copy_to_client_Return[OF c n]
  show "check_field root cid row fld ((results, cr), w) =
            ((results\<lparr>checkedDocuments := checkedDocuments results + 1,
                      tempFiles := tempFiles results + 1,
                      check_results.fixedPaths := check_results.fixedPaths results + 1\<rparr>,
              push_document
                \<lparr>field = fld, originalPath = docPath, newPath = Some ?rel,
                 status = ''fixed'', error = None\<rparr>
                (cr\<lparr>tempPathsFixed := tempPathsFixed cr + 1\<rparr>)), w')"
    using h by (intro check_field_fixed) simp_all
  show "node_at w' (path_join root ?rel) = Some (File content)" using r by simp
  show "node_at w' (path_join root docPath) = Some (File content)" using r by simp
  show "rows w' = map (\<lambda>r. if r ''id'' = Some cid then r(fld \<mapsto> ?rel) else r) (rows w)"
    using r by simp
qed

theorem scan_frame_witness:
  "extends staging_missing_world (snd (check_documents install_dir staging_missing_world))
   \<and> dirs_added staging_missing_world (snd (check_documents install_dir staging_missing_world))
   \<and> snd (check_field install_dir ''C123'' staged_row ''nic_proof''
            ((\<lparr>check_results.totalClients = 1, checkedDocuments = 0, missingFiles = 0,
                tempFiles = 0, fixedPaths = 0, errors = [], details = []\<rparr>,
              \<lparr>clientId = ''C123'', clientName = Some ''Perera'', documents = [],
               tempPathsFixed = 0, missingFiles = 0\<rparr>), staged_world))
       = staged_world\<lparr>nodes := (nodes staged_world)
            (install_dir @ [''uploads'', ''documents'', ''C123''] \<mapsto> Dir,
             install_dir @ [''uploads'', ''documents'', ''C123'', ''nic_proof-ab12.pdf'']
               \<mapsto> File ''%PDF''),
            rows := [staged_row(''nic_proof'' \<mapsto> ''/uploads/documents/C123/nic_proof-ab12.pdf'')]\<rparr>
   \<and> map status (documents (snd (fst (check_field install_dir ''C123'' staged_row ''nic_proof''
            ((\<lparr>check_results.totalClients = 1, checkedDocuments = 0, missingFiles = 0,
                tempFiles = 0, fixedPaths = 0, errors = [], details = []\<rparr>,
              \<lparr>clientId = ''C123'', clientName = Some ''Perera'', documents = [],
               tempPathsFixed = 0, missingFiles = 0\<rparr>), staged_world))))) = [''fixed'']"
proof -
  let ?r0 = "\<lparr>check_results.totalClients = 1, checkedDocuments = 0, missingFiles = 0,
              tempFiles = 0, fixedPaths = 0, errors = ([]::message list), details = []\<rparr>"
  let ?c0 = "\<lparr>clientId = ''C123'', clientName = Some ''Perera'', documents = [],
              tempPathsFixed = 0, missingFiles = 0\<rparr>"
  let ?p = "''/uploads/documents/temp-1f0e/nic_proof-ab12.pdf''"
  let ?w' = "staged_world\<lparr>nodes := (nodes staged_world)
            (install_dir @ [''uploads'', ''documents'', ''C123''] \<mapsto> Dir,
             install_dir @ [''uploads'', ''documents'', ''C123'', ''nic_proof-ab12.pdf'']
               \<mapsto> File ''%PDF''),
            rows := [staged_row(''nic_proof'' \<mapsto> ''/uploads/documents/C123/nic_proof-ab12.pdf'')]\<rparr>"
  have h: "\<forall>client \<in> set (get_all staging_missing_world 100 0). \<forall>fld \<in> set documentFields.
          \<forall>docPath fn.
          client fld = Some docPath \<and> includes_str docPath ''temp-''
          \<and> temp_match_check docPath = Some fn
        \<longrightarrow> \<not> is_file staging_missing_world (path_join install_dir docPath)"
    by (simp add: get_all_def staging_missing_world_def staging_missing_row_def world_of_def
        install_dir_def row_of_def documentFields_def is_file_def node_at_def path_defs)
  note t1 = scan_frame[where w = staging_missing_world and root = install_dir]
  have 1: "extends staging_missing_world (snd (check_documents install_dir staging_missing_world))"
    by (rule conjunct1[OF t1])
  have 2: "dirs_added staging_missing_world (snd (check_documents install_dir staging_missing_world))"
    by (rule mp[OF conjunct1[OF conjunct2[OF t1]] h])
  have rel: "''/uploads/documents/'' @ ''C123'' @ ''/'' @ ''nic_proof-ab12.pdf''
             = ''/uploads/documents/C123/nic_proof-ab12.pdf''" by simp
  have a1: "staged_row ''nic_proof'' = Some ?p" by (simp add: staged_row_def row_of_def)
  have a2: "includes_str ?p ''temp-''" by (simp add: starts_with_def)
  have a3: "temp_match_check ?p = Some ''nic_proof-ab12.pdf''"
    by (simp add: temp_match_check_def starts_with_def)
  have a4: "node_at staged_world (path_join install_dir ?p) = Some (File ''%PDF'')"
    unfolding path_join_examples by (simp add: node_at_def staged_world_def ex_defs)
  have a5: "copy_to_client staged_world (path_join install_dir ?p)
             (path_join install_dir (''/uploads/documents/'' @ ''C123'' @ ''/'' @ ''nic_proof-ab12.pdf''))
             ''C123'' ''nic_proof'' (''/uploads/documents/'' @ ''C123'' @ ''/'' @ ''nic_proof-ab12.pdf'')
           = Return True ?w'"
    unfolding rel path_join_examples by (rule copy_to_client_staged)
  have g: "staged_row ''nic_proof'' = Some ?p \<and> includes_str ?p ''temp-''
        \<and> temp_match_check ?p = Some ''nic_proof-ab12.pdf''
        \<and> node_at staged_world (path_join install_dir ?p) = Some (File ''%PDF'')
        \<and> copy_to_client staged_world (path_join install_dir ?p)
             (path_join install_dir (''/uploads/documents/'' @ ''C123'' @ ''/'' @ ''nic_proof-ab12.pdf''))
             ''C123'' ''nic_proof'' (''/uploads/documents/'' @ ''C123'' @ ''/'' @ ''nic_proof-ab12.pdf'')
           = Return True ?w'"
    using a1 a2 a3 a4 a5 by (intro conjI)
  note t2 = scan_frame[where w = staged_world and root = install_dir and row = staged_row
      and fld = "''nic_proof''" and docPath = ?p and filename = "''nic_proof-ab12.pdf''"
      and content = "''%PDF''" and cid = "''C123''" and u = True and w' = ?w'
      and results = ?r0 and cr = ?c0]
  note f = conjunct1[OF mp[OF conjunct2[OF conjunct2[OF t2]] g]]
  have 3: "snd (check_field install_dir ''C123'' staged_row ''nic_proof'' ((?r0, ?c0), staged_world)) = ?w'"
    unfolding f by simp
  have 4: "map status (documents (snd (fst (check_field install_dir ''C123'' staged_row ''nic_proof''
            ((?r0, ?c0), staged_world))))) = [''fixed'']"
    unfolding f by (simp add: push_document_def)
  from 1 2 3 4 show ?thesis by (intro conjI)
qed


text \<open>
  A stored path that leaves the project directory and comes back to the staging file is
  handled like the plain path: the file is copied and the reference rewritten.
\<close>

lemma scan_follows_detour:
  "map (\<lambda>r. r ''nic_proof'') (rows (snd (check_documents install_dir detour_world)))
     = [Some ''/uploads/documents/C123/nic_proof-ab12.pdf'']
   \<and> nodes (snd (check_documents install_dir detour_world))
        (install_dir @ [''uploads'', ''documents'', ''C123'', ''nic_proof-ab12.pdf''])
     = Some (File ''%PDF'')"
  by (simp add: scan_defs detour_world_def detour_row_def fs_defs path_defs db_defs ex_defs
      documentFields_def Let_def)

text \<open>
  A staging reference with a file behind it is what a create request followed by the
  repair leaves: the request stores the reference to the handler's staging directory, the
  repair writes a placeholder there, and the scan then copies that placeholder into the
  client's directory and rewrites the reference to it.
\<close>

lemma scan_after_create:
  "map (\<lambda>r. (r ''id'', r ''nic_proof''))
     (rows (snd (check_documents install_dir
        (snd (post_with_documents install_dir empty_store admin new_client_body [nic_upload]
                ''1f0e'' ''9a8b7c6d'' True)))))
     = [(Some ''C9a8b7c6d'', Some ''/uploads/documents/C9a8b7c6d/nic_proof-ab12.pdf'')]
   \<and> nodes (snd (check_documents install_dir
        (snd (post_with_documents install_dir empty_store admin new_client_body [nic_upload]
                ''1f0e'' ''9a8b7c6d'' True))))
       (install_dir @ [''uploads'', ''documents'', ''C9a8b7c6d'', ''nic_proof-ab12.pdf''])
     = Some (File placeholder_text)
   \<and> nodes (snd (check_documents install_dir
        (snd (post_with_documents install_dir empty_store admin new_client_body [nic_upload]
                ''1f0e'' ''9a8b7c6d'' True))))
       (install_dir @ [''uploads'', ''documents'', ''temp-1f0e'', ''nic_proof-ab12.pdf''])
     = Some (File placeholder_text)"
  by (simp add: scan_defs upload_defs create_defs repair_defs fs_defs path_defs db_defs ex_defs
      Let_def)

text \<open>
  C2 as stated fails: with one staging reference whose file exists, the scan rewrites
  the reference and creates a file in the client's directory.
\<close>

theorem scan_rewrites_reference_counterexample:
  "map (\<lambda>r. r ''nic_proof'') (rows staged_world)
     = [Some ''/uploads/documents/temp-1f0e/nic_proof-ab12.pdf'']
   \<and> map (\<lambda>r. r ''nic_proof'') (rows (snd (check_documents install_dir staged_world)))
     = [Some ''/uploads/documents/C123/nic_proof-ab12.pdf'']
   \<and> nodes staged_world (install_dir @ [''uploads'', ''documents'', ''C123'', ''nic_proof-ab12.pdf'']) = None
   \<and> nodes (snd (check_documents install_dir staged_world))
        (install_dir @ [''uploads'', ''documents'', ''C123'', ''nic_proof-ab12.pdf'']) = Some (File ''%PDF'')"
  by (simp add: scan_defs staged_world_def staged_row_def fs_defs path_defs db_defs ex_defs
      documentFields_def Let_def)

section \<open>Facts about record updates\<close>

lemma set_columns_Nil: "set_columns [] r = r"
  by (simp add: set_columns_def)

lemma set_columns_Cons: "set_columns (x # xs) r = set_columns xs (r(fst x := snd x))"
  by (simp add: set_columns_def split: prod.splits)

lemma set_columns_other: "k \<notin> fst ` set data \<Longrightarrow> set_columns data r k = r k"
  by (induction data arbitrary: r) (auto simp: set_columns_Cons, simp add: set_columns_def)

section \<open>A second run of the repair\<close>

lemma repair_field_settled:
  "settled_field root w client fld \<Longrightarrow> repair_field root client fld acc w = Return acc w"
  by (cases acc) (auto simp: settled_field_def repair_field_def split: option.splits)

lemma for_each_fixpoint:
  "(\<And>x s. x \<in> set xs \<Longrightarrow> body x s w = Return s w) \<Longrightarrow> for_each body xs s w = Return s w"
  by (induction xs arbitrary: s) auto

lemma repair_client_settled:
  assumes "settled_client root w client"
  shows "repair_client root client results w = Return results w"
proof (cases "client ''id''")
  case None
  then show ?thesis by (simp add: repair_client_def)
next
  case (Some cid)
  show ?thesis
  proof (cases "cid = []")
    case True
    with Some show ?thesis by (simp add: repair_client_def)
  next
    case False
    with Some assms have ex: "exists_joined w (documents_root root) cid"
      and flds: "\<forall>fld \<in> set documentFields. settled_field root w client fld"
      by (auto simp: settled_client_def)
    have "for_each (repair_field root client) documentFields (results, []) w = Return (results, []) w"
      by (rule for_each_fixpoint) (use flds repair_field_settled in blast)
    with Some False ex show ?thesis by (simp add: repair_client_def)
  qed
qed

lemma repair_all_settled:
  assumes "settled root w"
  shows "repair_all_documents root w =
     (Success 200 \<lparr>success = True, clientsProcessed = length (rows w), fixedPaths = 0,
                   createdDirectories = 0, errors = []\<rparr>, w)"
proof -
  have "for_each (repair_client root) (rows w) s w = Return s w" for s
    by (rule for_each_fixpoint) (use assms repair_client_settled in \<open>auto simp: settled_def\<close>)
  then show ?thesis by (simp add: repair_all_documents_def)
qed

lemma extends_exists: "extends w w' \<Longrightarrow> exists_sync w p \<Longrightarrow> exists_sync w' p"
  unfolding extends_def exists_sync_def node_at_def
  by (cases "p = []") (auto, metis node.exhaust option.distinct(1))

lemma extends_node_at:
  "extends w w' \<Longrightarrow> node_at w p = Some Dir \<Longrightarrow> node_at w' p = Some Dir"
  "extends w w' \<Longrightarrow> node_at w p = Some (File c) \<Longrightarrow> \<exists>c'. node_at w' p = Some (File c')"
  unfolding extends_def node_at_def by (auto split: if_splits)

lemma extends_exists_joined:
  assumes "extends w w'" and "exists_joined w b r"
  shows "exists_joined w' b r"
proof (cases "node_at w (path_join b r)")
  case None
  with assms(2) show ?thesis by (simp add: exists_joined_def)
next
  case (Some n)
  show ?thesis
  proof (cases n)
    case Dir
    with Some extends_node_at(1)[OF assms(1)] show ?thesis by (simp add: exists_joined_def)
  next
    case (File c)
    with Some extends_node_at(2)[OF assms(1)] obtain c'
      where "node_at w' (path_join b r) = Some (File c')" by blast
    with Some File assms(2) show ?thesis by (simp add: exists_joined_def)
  qed
qed

lemma exists_joined_nodes: "nodes w' = nodes w \<Longrightarrow> exists_joined w' b r = exists_joined w b r"
  by (simp add: exists_joined_def node_at_def)

lemma exists_joined_dir: "node_at w (path_join b r) = Some Dir \<Longrightarrow> exists_joined w b r"
  by (simp add: exists_joined_def)

lemma settled_field_mono: "extends w w' \<Longrightarrow> settled_field root w c f \<Longrightarrow> settled_field root w' c f"
  by (auto simp: settled_field_def extends_exists split: option.splits)

lemma settled_client_mono: "extends w w' \<Longrightarrow> settled_client root w c \<Longrightarrow> settled_client root w' c"
  by (auto simp: settled_client_def extends_exists_joined settled_field_mono split: option.splits)

lemma settled_field_cong: "c f = c' f \<Longrightarrow> settled_field root w c f = settled_field root w c' f"
  by (simp add: settled_field_def)

lemma settled_field_nodes:
  "nodes w' = nodes w \<Longrightarrow> settled_field root w' c f = settled_field root w c f"
  by (auto simp: settled_field_def exists_sync_def node_at_def split: option.splits)

lemma mkdir_from_Return:
  "mkdir_from w pre ss = Return u w' \<Longrightarrow> ss \<noteq> [] \<Longrightarrow> nodes w' (pre @ ss) = Some Dir"
proof (induction w pre ss rule: mkdir_from.induct)
  case (1 w pre)
  then show ?case by simp
next
  case (2 w pre s ss)
  let ?q = "pre @ [s]"
  show ?case
  proof (cases "ss = []")
    case True
    with 2(3) show ?thesis by (auto split: option.splits node.splits if_splits)
  next
    case False
    show ?thesis
    proof (cases "nodes w ?q")
      case None
      with 2(3) have nd: "\<not> denied w ?q"
        and r: "mkdir_from (w\<lparr>nodes := (nodes w)(?q \<mapsto> Dir)\<rparr>) ?q ss = Return u w'"
        by (auto split: if_splits)
      from 2(1)[OF None nd r False] show ?thesis by simp
    next
      case (Some n)
      with 2(3) have n: "n = Dir" and r: "mkdir_from w ?q ss = Return u w'"
        by (auto split: node.splits)
      from 2(2)[OF Some n r False] show ?thesis by simp
    qed
  qed
qed

lemma mkdir_sync_Return_dir: "mkdir_sync w p = Return u w' \<Longrightarrow> node_at w' p = Some Dir"
  using mkdir_from_Return[of w "[]" p u w']
  by (cases "p = []") (auto simp: mkdir_sync_def node_at_def)

lemma mkdir_sync_Return: "mkdir_sync w p = Return u w' \<Longrightarrow> exists_sync w' p"
  using mkdir_sync_Return_dir[of w p u w'] by (simp add: exists_sync_def)

lemma mkdir_sync_extends: "mkdir_sync w p = Return u w' \<Longrightarrow> extends w w' \<and> rows w' = rows w"
  using mkdir_sync_dirs_added[of w p] by (auto simp: state_of_def dirs_added_extends dirs_added_def)

lemma is_wrong_prefix_fixed: "is_wrong_prefix p \<Longrightarrow> \<not> is_wrong_prefix (''/uploads'' @ p)"
  by (auto simp: is_wrong_prefix_def starts_with_def)

text \<open>One field of one client, in a run that reports no error.\<close>

lemma repair_field_step:
  assumes "repair_field root x fld (results, updates) w = Return (results', updates') w'"
    and "repair_results.errors results' = []"
  shows "repair_results.errors results = [] \<and> extends w w' \<and> rows w' = rows w
         \<and> ((updates' = updates \<and> settled_field root w' x fld)
            \<or> (\<exists>p. x fld = Some p \<and> p \<noteq> [] \<and> temp_match_repair p = None \<and> is_wrong_prefix p
                   \<and> updates' = updates @ [(fld, Some (''/uploads'' @ p))] \<and> w' = w))"
proof (cases "x fld")
  case None
  with assms show ?thesis by (auto simp: repair_field_def settled_field_def extends_refl)
next
  case (Some p)
  show ?thesis
  proof (cases "p = []")
    case True
    with Some assms show ?thesis by (auto simp: repair_field_def settled_field_def extends_refl)
  next
    case False
    show ?thesis
    proof (cases "temp_match_repair p")
      case None
      with Some False assms show ?thesis
        by (auto simp: repair_field_def settled_field_def extends_refl split: if_splits)
    next
      case (Some tf)
      obtain tempId filename where tf: "tf = (tempId, filename)" by (cases tf)
      let ?dir = "path_join (documents_root root) tempId"
      let ?file = "path_join ?dir filename"
      note m = Some[unfolded tf]
      have body: "repair_field root x fld (results, updates) w =
        (case (if \<not> exists_sync w ?dir
               then (case mkdir_sync w ?dir of
                       Raise e w1 \<Rightarrow> Raise e w1
                     | Return u w1 \<Rightarrow>
                         Return (results\<lparr>createdDirectories := createdDirectories results + 1\<rparr>) w1)
               else Return results w) of
           Raise e w1 \<Rightarrow> Raise e w1
         | Return results1 w1 \<Rightarrow>
             if \<not> exists_sync w1 ?file
             then (case write_file_sync w1 ?file placeholder_text of
                     Raise e w2 \<Rightarrow>
                       Return (results1\<lparr>repair_results.errors := repair_results.errors results1 @
                                  [FailedToCreatePlaceholder ?file e]\<rparr>, updates) w2
                   | Return u w2 \<Rightarrow>
                       Return (results1\<lparr>repair_results.fixedPaths :=
                                  repair_results.fixedPaths results1 + 1\<rparr>, updates) w2)
             else Return (results1, updates) w1)"
        using \<open>x fld = Some p\<close> False m by (simp add: repair_field_def)
      obtain results1 w1 where
        s1: "(if \<not> exists_sync w ?dir
               then (case mkdir_sync w ?dir of
                       Raise e w1 \<Rightarrow> Raise e w1
                     | Return u w1 \<Rightarrow>
                         Return (results\<lparr>createdDirectories := createdDirectories results + 1\<rparr>) w1)
               else Return results w) = Return results1 w1"
        using assms(1) unfolding body by (auto split: result.splits)
      have e1: "repair_results.errors results1 = repair_results.errors results"
        and x1: "extends w w1" and r1: "rows w1 = rows w" and d1: "exists_sync w1 ?dir"
        using s1 mkdir_sync_extends[of w ?dir] mkdir_sync_Return[of w ?dir]
        by (auto simp: extends_refl split: if_splits result.splits)
      show ?thesis
      proof (cases "exists_sync w1 ?file")
        case True
        with assms(1) s1 have "results' = results1" "updates' = updates" "w' = w1"
          unfolding body by auto
        with e1 x1 r1 d1 True assms(2) \<open>x fld = Some p\<close> m show ?thesis
          by (simp add: settled_field_def)
      next
        case nofile: False
        show ?thesis
        proof (cases "write_file_sync w1 ?file placeholder_text")
          case (Raise e w2)
          with assms(1) s1 nofile
          have "repair_results.errors results' \<noteq> []" unfolding body by auto
          with assms(2) show ?thesis by simp
        next
          case (Return u w2)
          with assms(1) s1 nofile
          have eq: "results' = results1\<lparr>repair_results.fixedPaths :=
                                  repair_results.fixedPaths results1 + 1\<rparr>"
                "updates' = updates" "w' = w2"
            unfolding body by auto
          from write_file_sync_Return[OF Return]
          have w2: "w2 = w1\<lparr>nodes := (nodes w1)(?file \<mapsto> File placeholder_text)\<rparr>" .
          have x2: "extends w1 w2" using write_file_sync_extends[of w1 ?file placeholder_text] Return
            by (simp add: state_of_def)
          have f2: "exists_sync w2 ?file" using w2 by (simp add: exists_sync_def node_at_def)
          have d2: "exists_sync w2 ?dir" using extends_exists[OF x2 d1] .
          from eq e1 assms(2) extends_trans[OF x1 x2] r1 w2 f2 d2 \<open>x fld = Some p\<close> m
          show ?thesis by (simp add: settled_field_def)
        qed
      qed
    qed
  qed
qed

lemma set_columns_append: "set_columns (a @ b) r = set_columns b (set_columns a r)"
  by (simp add: set_columns_def)

lemma set_columns_single: "set_columns [(k, v)] r = r(k := v)"
  by (simp add: set_columns_def)

lemma temp_match_repair_nonempty: "temp_match_repair [] = None"
  by (simp add: temp_match_repair_def)

text \<open>The loop over the fields of one client, in a run that reports no error.\<close>

lemma repair_fields_loop:
  assumes "for_each (repair_field root x) flds (results, updates) w = Return (results', updates') w'"
    and "repair_results.errors results' = []"
    and "distinct flds"
    and "fst ` set updates \<inter> set flds = {}"
    and "\<forall>fld \<in> set flds. \<forall>p.
           x fld = Some p \<and> temp_match_repair p = None \<and> is_wrong_prefix p
           \<longrightarrow> temp_match_repair (''/uploads'' @ p) = None"
  shows "repair_results.errors results = [] \<and> extends w w' \<and> rows w' = rows w
         \<and> fst ` set updates' \<subseteq> fst ` set updates \<union> set flds
         \<and> (\<forall>k. k \<notin> set flds \<longrightarrow> set_columns updates' x k = set_columns updates x k)
         \<and> (\<forall>fld \<in> set flds. settled_field root w' (set_columns updates' x) fld)"
  using assms
proof (induction flds arbitrary: results updates w)
  case Nil
  then show ?case by (simp add: extends_refl)
next
  case (Cons f fs)
  from Cons.prems(1) obtain results1 updates1 w1 where
    s: "repair_field root x f (results, updates) w = Return (results1, updates1) w1"
    and l: "for_each (repair_field root x) fs (results1, updates1) w1 = Return (results', updates') w'"
    by (auto split: result.splits)
  have fnot: "f \<notin> set fs" "distinct fs" using Cons.prems(3) by auto
  have fup: "f \<notin> fst ` set updates" using Cons.prems(4) by auto
  have sub1: "fst ` set updates1 \<subseteq> fst ` set updates \<union> {f}"
    and " True" 
    using s by (auto simp: repair_field_def split: option.splits if_splits result.splits prod.splits)
  have disj1: "fst ` set updates1 \<inter> set fs = {}"
    using sub1 Cons.prems(4) fnot by auto
  have hb: "\<forall>fld \<in> set fs. \<forall>p.
           x fld = Some p \<and> temp_match_repair p = None \<and> is_wrong_prefix p
           \<longrightarrow> temp_match_repair (''/uploads'' @ p) = None"
    using Cons.prems(5) by simp
  note ih = Cons.IH[OF l Cons.prems(2) fnot(2) disj1 hb]
  then have e1: "repair_results.errors results1 = []" and x1: "extends w1 w'"
    and r1: "rows w' = rows w1"
    and sub': "fst ` set updates' \<subseteq> fst ` set updates1 \<union> set fs"
    and keep: "\<forall>k. k \<notin> set fs \<longrightarrow> set_columns updates' x k = set_columns updates1 x k"
    and rest: "\<forall>fld \<in> set fs. settled_field root w' (set_columns updates' x) fld"
    by auto
  note st = repair_field_step[OF s e1]
  then have e0: "repair_results.errors results = []" and x0: "extends w w1"
    and r0: "rows w1 = rows w" by auto
  have keep0: "\<forall>k. k \<notin> set (f # fs) \<longrightarrow> set_columns updates' x k = set_columns updates x k"
  proof (intro allI impI)
    fix k assume k: "k \<notin> set (f # fs)"
    then have "set_columns updates' x k = set_columns updates1 x k" using keep by simp
    also have "\<dots> = set_columns updates x k"
      using st k by (auto simp: set_columns_append set_columns_single)
    finally show "set_columns updates' x k = set_columns updates x k" .
  qed
  have here: "settled_field root w' (set_columns updates' x) f"
  proof -
    have v: "set_columns updates' x f = set_columns updates1 x f" using keep fnot by simp
    from st consider
      (same) "updates1 = updates" "settled_field root w1 x f"
      | (fixed) p where "x f = Some p" "p \<noteq> []" "temp_match_repair p = None" "is_wrong_prefix p"
          "updates1 = updates @ [(f, Some (''/uploads'' @ p))]"
      by auto
    then show ?thesis
    proof cases
      case same
      have "set_columns updates x f = x f" using fup by (simp add: set_columns_other)
      with v same(1) have "set_columns updates' x f = x f" by simp
      from settled_field_cong[of "set_columns updates' x" f x root w', OF this]
        settled_field_mono[OF x1 same(2)] show ?thesis by simp
    next
      case (fixed p)
      then have val: "set_columns updates' x f = Some (''/uploads'' @ p)"
        using v by (simp add: set_columns_append set_columns_single)
      have "temp_match_repair (''/uploads'' @ p) = None" using Cons.prems(5) fixed by simp
      with val is_wrong_prefix_fixed[OF fixed(4)] show ?thesis
        by (simp add: settled_field_def)
    qed
  qed
  have sub0: "fst ` set updates' \<subseteq> fst ` set updates \<union> set (f # fs)"
  proof
    fix k assume "k \<in> fst ` set updates'"
    with sub' have "k \<in> fst ` set updates1 \<or> k \<in> set fs" by blast
    with sub1 have "k \<in> fst ` set updates \<or> k = f \<or> k \<in> set fs" by blast
    then show "k \<in> fst ` set updates \<union> set (f # fs)" by auto
  qed
  have all: "\<forall>fld \<in> set (f # fs). settled_field root w' (set_columns updates' x) fld"
    using here rest by simp
  have rr: "rows w' = rows w" using r0 r1 by simp
  have xx: "extends w w'" using x0 x1 by (rule extends_trans)
  from e0 xx rr sub0 keep0 all show ?case by (intro conjI)
qed

lemma distinct_documentFields: "distinct documentFields"
  by (simp add: documentFields_def)

lemma id_not_document_field: "''id'' \<notin> set documentFields"
  by (simp add: documentFields_def)

lemma update_query_Return:
  "update_query w cid data = Return b w'
   \<Longrightarrow> nodes w' = nodes w
       \<and> rows w' = map (\<lambda>r. if r ''id'' = Some cid then set_columns data r else r) (rows w)"
  by (auto simp: update_query_def split: if_splits)

text \<open>One client, in a run that reports no error.\<close>

lemma repair_client_step:
  assumes "x ''id'' = Some cid" and "cid \<noteq> []"
    and "repair_client root x results w = Return results' w'"
    and "repair_results.errors results' = []"
    and "no_staging_behind_prefix x"
  shows "repair_results.errors results = [] \<and> extends w w'
         \<and> (\<exists>updates. fst ` set updates \<subseteq> set documentFields
               \<and> rows w' = map (\<lambda>r. if r ''id'' = Some cid then set_columns updates r else r) (rows w)
               \<and> settled_client root w' (set_columns updates x))"
proof -
  let ?dir = "path_join (documents_root root) cid"
  let ?m = "if \<not> exists_joined w (documents_root root) cid
            then (case mkdir_sync w ?dir of
                    Raise e w1 \<Rightarrow> Raise e w1
                  | Return u w1 \<Rightarrow>
                      Return (results\<lparr>createdDirectories := createdDirectories results + 1\<rparr>) w1)
            else Return results w"
  have body: "repair_client root x results w =
     (case ?m of
        Raise e w1 \<Rightarrow> Raise e w1
      | Return results1 w1 \<Rightarrow>
          (case for_each (repair_field root x) documentFields (results1, []) w1 of
             Raise e w2 \<Rightarrow> Raise e w2
           | Return (results2, updates) w2 \<Rightarrow>
               if updates \<noteq> [] then
                 (case update_query w2 cid updates of
                    Raise e w3 \<Rightarrow>
                      Return (results2\<lparr>repair_results.errors := repair_results.errors results2 @
                                 [DatabaseErrorUpdating cid e]\<rparr>) w3
                  | Return u w3 \<Rightarrow> Return results2 w3)
               else Return results2 w2))"
    using assms(1,2) by (simp add: repair_client_def)
  obtain results1 w1 where s1: "?m = Return results1 w1"
    using assms(3) unfolding body by (cases ?m) auto
  have e1: "repair_results.errors results1 = repair_results.errors results"
    and x1: "extends w w1" and r1: "rows w1 = rows w"
    and d1: "exists_joined w1 (documents_root root) cid"
    using s1 mkdir_sync_extends[of w ?dir] mkdir_sync_Return_dir[of w ?dir]
    by (auto simp: extends_refl exists_joined_dir split: if_splits result.splits)
  obtain results2 updates w2 where
    l: "for_each (repair_field root x) documentFields (results1, []) w1 = Return (results2, updates) w2"
    using assms(3) s1 unfolding body
    by (cases "for_each (repair_field root x) documentFields (results1, []) w1") auto
  have fin: "(if updates \<noteq> [] then
                 (case update_query w2 cid updates of
                    Raise e w3 \<Rightarrow>
                      Return (results2\<lparr>repair_results.errors := repair_results.errors results2 @
                                 [DatabaseErrorUpdating cid e]\<rparr>) w3
                  | Return u w3 \<Rightarrow> Return results2 w3)
               else Return results2 w2) = Return results' w'"
    using assms(3) s1 l unfolding body by simp
  have res: "results' = results2 \<and> nodes w' = nodes w2
             \<and> rows w' = map (\<lambda>r. if r ''id'' = Some cid then set_columns updates r else r) (rows w2)"
  proof (cases "updates = []")
    case True
    with fin show ?thesis by (simp add: set_columns_Nil cong: if_cong)
  next
    case False
    show ?thesis
    proof (cases "update_query w2 cid updates")
      case (Raise e w3)
      with fin False have "repair_results.errors results' \<noteq> []" by auto
      with assms(4) show ?thesis by simp
    next
      case (Return u w3)
      with fin False update_query_Return[OF Return] show ?thesis by auto
    qed
  qed
  then have e2: "repair_results.errors results2 = []" using assms(4) by simp
  have hb: "\<forall>fld \<in> set documentFields. \<forall>p.
           x fld = Some p \<and> temp_match_repair p = None \<and> is_wrong_prefix p
           \<longrightarrow> temp_match_repair (''/uploads'' @ p) = None"
    using assms(5) by (simp add: no_staging_behind_prefix_def)
  have "fst ` set ([]::(string \<times> string option) list) \<inter> set documentFields = {}" by simp
  note loop = repair_fields_loop[OF l e2 distinct_documentFields this hb]
  then have e1': "repair_results.errors results1 = []" and x2: "extends w1 w2"
    and r2: "rows w2 = rows w1"
    and sub: "fst ` set updates \<subseteq> set documentFields"
    and flds: "\<forall>fld \<in> set documentFields. settled_field root w2 (set_columns updates x) fld"
    by auto
  have x': "extends w w'"
  proof -
    have "extends w w2" using x1 x2 by (rule extends_trans)
    moreover have "extends w2 w'" using res fin
      by (auto simp: extends_def update_query_def split: if_splits result.splits)
    ultimately show ?thesis by (rule extends_trans)
  qed
  have idk: "set_columns updates x ''id'' = Some cid"
    using sub id_not_document_field assms(1) by (subst set_columns_other) auto
  have d': "exists_joined w' (documents_root root) cid"
    using extends_exists_joined[OF x2 d1] res exists_joined_nodes[of w' w2] by simp
  have flds': "\<forall>fld \<in> set documentFields. settled_field root w' (set_columns updates x) fld"
    using flds res settled_field_nodes[of w' w2] by simp
  have sc: "settled_client root w' (set_columns updates x)"
    using idk d' flds' assms(2) by (simp add: settled_client_def)
  have rows': "rows w' = map (\<lambda>r. if r ''id'' = Some cid then set_columns updates r else r) (rows w)"
    using res r2 r1 by simp
  from e1 e1' x' sub rows' sc show ?thesis by auto
qed

lemma repair_client_falsy:
  "x ''id'' = None \<or> x ''id'' = Some [] \<Longrightarrow> repair_client root x results w = Return results w"
  by (auto simp: repair_client_def)

lemma repair_clients_errors:
  assumes "for_each (repair_client root) xs results w = Return results' w'"
    and "repair_results.errors results' = []"
    and "\<forall>x \<in> set xs. no_staging_behind_prefix x"
  shows "repair_results.errors results = []"
  using assms
proof (induction xs arbitrary: results w)
  case Nil
  then show ?case by simp
next
  case (Cons x xs)
  from Cons.prems(1) obtain results1 w1 where
    s: "repair_client root x results w = Return results1 w1"
    and l: "for_each (repair_client root) xs results1 w1 = Return results' w'"
    by (auto split: result.splits)
  have e1: "repair_results.errors results1 = []"
    using Cons.IH[OF l Cons.prems(2)] Cons.prems(3) by simp
  show ?case
  proof (cases "x ''id'' = None \<or> x ''id'' = Some []")
    case True
    with s e1 show ?thesis by (simp add: repair_client_falsy)
  next
    case False
    then obtain cid where "x ''id'' = Some cid" "cid \<noteq> []" by auto
    from repair_client_step[OF this s e1] Cons.prems(3) show ?thesis by simp
  qed
qed

lemma distinct_map_eq:
  "distinct (map f xs) \<Longrightarrow> a \<in> set xs \<Longrightarrow> b \<in> set xs \<Longrightarrow> f a = f b \<Longrightarrow> a = b"
  by (meson distinct_map inj_onD)

text \<open>The loop over the clients: rows still to be visited are as they were, all others are settled.\<close>

lemma repair_clients_loop:
  assumes "for_each (repair_client root) xs results w = Return results' w'"
    and "repair_results.errors results' = []"
    and "distinct (map (\<lambda>r. r ''id'') (rows w))"
    and "distinct xs" and "set xs \<subseteq> set (rows w)"
    and "\<forall>r \<in> set (rows w). r \<notin> set xs \<longrightarrow> settled_client root w r"
    and "\<forall>x \<in> set xs. no_staging_behind_prefix x"
  shows "settled root w' \<and> length (rows w') = length (rows w)"
  using assms
proof (induction xs arbitrary: results w)
  case Nil
  then show ?case by (simp add: settled_def)
next
  case (Cons x xs)
  from Cons.prems(1) obtain results1 w1 where
    s: "repair_client root x results w = Return results1 w1"
    and l: "for_each (repair_client root) xs results1 w1 = Return results' w'"
    by (auto split: result.splits)
  have hb: "\<forall>y \<in> set xs. no_staging_behind_prefix y" using Cons.prems(7) by simp
  have e1: "repair_results.errors results1 = []"
    using repair_clients_errors[OF l Cons.prems(2) hb] .
  have xin: "x \<in> set (rows w)" and xs_in: "set xs \<subseteq> set (rows w)"
    and xnot: "x \<notin> set xs" and dxs: "distinct xs"
    using Cons.prems(4,5) by auto
  show ?case
  proof (cases "x ''id'' = None \<or> x ''id'' = Some []")
    case True
    with s have w1: "w1 = w" by (simp add: repair_client_falsy)
    have sx: "settled_client root w x" using True by (auto simp: settled_client_def)
    have rest: "\<forall>r \<in> set (rows w). r \<notin> set xs \<longrightarrow> settled_client root w r"
      using Cons.prems(6) sx by auto
    from Cons.IH[OF l[unfolded w1] Cons.prems(2,3) dxs xs_in rest hb] show ?thesis .
  next
    case False
    then obtain cid where cid: "x ''id'' = Some cid" "cid \<noteq> []" by auto
    have hx: "no_staging_behind_prefix x" using Cons.prems(7) by simp
    from repair_client_step[OF cid s e1 hx] obtain updates where
      x1: "extends w w1" and sub: "fst ` set updates \<subseteq> set documentFields"
      and rows1: "rows w1 = map (\<lambda>r. if r ''id'' = Some cid then set_columns updates r else r) (rows w)"
      and sx: "settled_client root w1 (set_columns updates x)"
      by auto
    let ?g = "\<lambda>r. if r ''id'' = Some cid then set_columns updates r else r"
    have "''id'' \<notin> fst ` set updates" using sub id_not_document_field by auto
    then have idg: "?g r ''id'' = r ''id''" for r
      by (simp add: set_columns_other)
    have ids1: "map (\<lambda>r. r ''id'') (rows w1) = map (\<lambda>r. r ''id'') (rows w)"
      unfolding rows1 using idg by (simp add: comp_def)
    have d1: "distinct (map (\<lambda>r. r ''id'') (rows w1))" using ids1 Cons.prems(3) by simp
    have only_x: "r = x" if "r \<in> set (rows w)" "r ''id'' = Some cid" for r
      using distinct_map_eq[OF Cons.prems(3) that(1) xin] that(2) cid(1) by simp
    have xs1: "set xs \<subseteq> set (rows w1)"
    proof
      fix y assume y: "y \<in> set xs"
      then have yin: "y \<in> set (rows w)" using xs_in by auto
      have "y \<noteq> x" using y xnot by auto
      with only_x[OF yin] have "y ''id'' \<noteq> Some cid" by auto
      then have "?g y = y" by simp
      moreover have "?g y \<in> ?g ` set (rows w)" using yin by (rule imageI)
      ultimately show "y \<in> set (rows w1)" unfolding rows1 by simp
    qed
    have rest1: "\<forall>r' \<in> set (rows w1). r' \<notin> set xs \<longrightarrow> settled_client root w1 r'"
    proof (intro ballI impI)
      fix r' assume r': "r' \<in> set (rows w1)" and nx: "r' \<notin> set xs"
      from r' obtain r where r: "r \<in> set (rows w)" and eq: "r' = ?g r"
        unfolding rows1 by auto
      show "settled_client root w1 r'"
      proof (cases "r ''id'' = Some cid")
        case True
        with only_x[OF r] eq sx show ?thesis by simp
      next
        case False
        with eq have same: "r' = r" by simp
        have "r \<noteq> x" using False cid(1) by auto
        with nx same have "r \<notin> set (x # xs)" by simp
        with Cons.prems(6) r have "settled_client root w r" by blast
        with same x1 show ?thesis by (simp add: settled_client_mono)
      qed
    qed
    from Cons.IH[OF l Cons.prems(2) d1 dxs xs1 rest1 hb]
    have "settled root w'" and "length (rows w') = length (rows w1)" by auto
    then show ?thesis unfolding rows1 by simp
  qed
qed

lemma repair_second_run:
  assumes "distinct (map (\<lambda>r. r ''id'') (rows w))"
    and "\<forall>r \<in> set (rows w). no_staging_behind_prefix r"
    and "repair_all_documents root w = (Success 200 r1, w1)"
    and "repair_results.errors r1 = []"
  shows "repair_all_documents root w1 =
           (Success 200 \<lparr>success = True, clientsProcessed = length (rows w), fixedPaths = 0,
                         createdDirectories = 0, errors = []\<rparr>, w1)"
proof -
  let ?r0 = "\<lparr>success = True, clientsProcessed = length (rows w), fixedPaths = 0,
              createdDirectories = 0, errors = ([]::message list)\<rparr>"
  have run: "for_each (repair_client root) (rows w) ?r0 w = Return r1 w1"
    using assms(3) by (auto simp: repair_all_documents_def split: result.splits)
  have d: "distinct (rows w)" using assms(1) by (simp add: distinct_map)
  have "settled root w1 \<and> length (rows w1) = length (rows w)"
    by (rule repair_clients_loop[OF run assms(4) assms(1) d _ _ assms(2)]) auto
  with repair_all_settled[of root w1] show ?thesis by simp
qed

lemma legacy_staging_first_run:
  "repair_all_documents install_dir legacy_staging_world =
     (Success 200 \<lparr>success = True, clientsProcessed = 1, fixedPaths = 1,
                   createdDirectories = 0, errors = []\<rparr>,
      legacy_staging_world\<lparr>rows :=
        [legacy_staging_row(''nic_proof'' \<mapsto> ''/uploads/documents/temp-1f0e/nic_proof-ab12.pdf'')]\<rparr>)"
  by (simp add: repair_defs legacy_staging_world_def legacy_staging_row_def
      fs_defs path_defs db_defs ex_defs)

text \<open>
  C4 as stated fails: a reference \<open>/documents/temp-1f0e/...\<close> gets its prefix in the
  first run (\<open>fixedPaths = 1\<close>); the second run then sees a staging reference whose
  file is absent, creates the staging directory and a placeholder, and reports
  \<open>fixedPaths = 1\<close> again.
\<close>

theorem repair_second_run_counterexample:
  "distinct (map (\<lambda>r. r ''id'') (rows legacy_staging_world))
   \<and> fst (repair_all_documents install_dir legacy_staging_world)
       = Success 200 \<lparr>success = True, clientsProcessed = 1, fixedPaths = 1,
                      createdDirectories = 0, errors = []\<rparr>
   \<and> fst (repair_all_documents install_dir (snd (repair_all_documents install_dir legacy_staging_world)))
       = Success 200 \<lparr>success = True, clientsProcessed = 1, fixedPaths = 1,
                      createdDirectories = 1, errors = []\<rparr>"
  unfolding legacy_staging_first_run
  by (simp add: repair_defs legacy_staging_world_def legacy_staging_row_def
      fs_defs path_defs db_defs ex_defs)

lemma legacy_first_run:
  "repair_all_documents install_dir legacy_world =
     (Success 200 \<lparr>success = True, clientsProcessed = 1, fixedPaths = 1,
                   createdDirectories = 0, errors = []\<rparr>,
      legacy_world\<lparr>rows :=
        [legacy_row(''nic_proof'' \<mapsto> ''/uploads/documents/C1/nic_proof-ab12.pdf'')]\<rparr>)"
  by (simp add: repair_defs legacy_world_def legacy_row_def
      fs_defs path_defs db_defs ex_defs)

lemma legacy_hyps:
  "distinct (map (\<lambda>r. r ''id'') (rows legacy_world))"
  "\<forall>r \<in> set (rows legacy_world). no_staging_behind_prefix r"
  by (simp_all add: no_staging_behind_prefix_def legacy_world_def legacy_row_def ex_defs
      repair_defs)

lemma is_wrong_prefix_Nil: "\<not> is_wrong_prefix []"
  by (simp add: is_wrong_prefix_def starts_with_def)

lemma fix_field_step:
  assumes "fix_field x fld ((results, cr), updates) = ((results', cr'), updates')"
  shows "fix_results.errors results' = fix_results.errors results
         \<and> ((updates' = updates \<and> fix_results.fixedPaths results' = fix_results.fixedPaths results
              \<and> (\<forall>p. x fld = Some p \<longrightarrow> \<not> is_wrong_prefix p))
            \<or> (\<exists>p. x fld = Some p \<and> is_wrong_prefix p
                   \<and> updates' = updates @ [(fld, Some (''/uploads'' @ p))]))"
  using assms
  by (auto simp: fix_field_def is_wrong_prefix_Nil split: option.splits if_splits)

lemma fix_fields_loop:
  assumes "fold (fix_field x) flds ((results, cr), updates) = ((results', cr'), updates')"
    and "distinct flds" and "fst ` set updates \<inter> set flds = {}"
  shows "fix_results.errors results' = fix_results.errors results
         \<and> fst ` set updates' \<subseteq> fst ` set updates \<union> set flds
         \<and> (\<forall>k. k \<notin> set flds \<longrightarrow> set_columns updates' x k = set_columns updates x k)
         \<and> (\<forall>fld \<in> set flds. \<forall>p. set_columns updates' x fld = Some p \<longrightarrow> \<not> is_wrong_prefix p)"
  using assms
proof (induction flds arbitrary: results cr updates)
  case Nil
  then show ?case by simp
next
  case (Cons f fs)
  obtain results1 cr1 updates1 where
    s: "fix_field x f ((results, cr), updates) = ((results1, cr1), updates1)"
    by (metis surj_pair)
  with Cons.prems(1) have
    l: "fold (fix_field x) fs ((results1, cr1), updates1) = ((results', cr'), updates')" by simp
  note st = fix_field_step[OF s]
  have fnot: "f \<notin> set fs" "distinct fs" using Cons.prems(2) by auto
  have fup: "f \<notin> fst ` set updates" using Cons.prems(3) by auto
  have sub1: "fst ` set updates1 \<subseteq> fst ` set updates \<union> {f}" using st by auto
  have disj1: "fst ` set updates1 \<inter> set fs = {}" using sub1 Cons.prems(3) fnot by auto
  note ih = Cons.IH[OF l fnot(2) disj1]
  then have e1: "fix_results.errors results' = fix_results.errors results1"
    and sub': "fst ` set updates' \<subseteq> fst ` set updates1 \<union> set fs"
    and keep: "\<forall>k. k \<notin> set fs \<longrightarrow> set_columns updates' x k = set_columns updates1 x k"
    and rest: "\<forall>fld \<in> set fs. \<forall>p. set_columns updates' x fld = Some p \<longrightarrow> \<not> is_wrong_prefix p"
    by auto
  have keep0: "\<forall>k. k \<notin> set (f # fs) \<longrightarrow> set_columns updates' x k = set_columns updates x k"
  proof (intro allI impI)
    fix k assume k: "k \<notin> set (f # fs)"
    then have "set_columns updates' x k = set_columns updates1 x k" using keep by simp
    also have "\<dots> = set_columns updates x k"
      using st k by (auto simp: set_columns_append set_columns_single)
    finally show "set_columns updates' x k = set_columns updates x k" .
  qed
  have here: "\<forall>p. set_columns updates' x f = Some p \<longrightarrow> \<not> is_wrong_prefix p"
  proof -
    have v: "set_columns updates' x f = set_columns updates1 x f" using keep fnot by simp
    from st consider
      (same) "updates1 = updates" "\<forall>p. x f = Some p \<longrightarrow> \<not> is_wrong_prefix p"
      | (fixed) p where "x f = Some p" "is_wrong_prefix p"
          "updates1 = updates @ [(f, Some (''/uploads'' @ p))]"
      by auto
    then show ?thesis
    proof cases
      case same
      have "set_columns updates x f = x f" using fup by (simp add: set_columns_other)
      with v same show ?thesis by simp
    next
      case (fixed p)
      then have "set_columns updates' x f = Some (''/uploads'' @ p)"
        using v by (simp add: set_columns_append set_columns_single)
      with is_wrong_prefix_fixed[OF fixed(2)] show ?thesis by simp
    qed
  qed
  have sub0: "fst ` set updates' \<subseteq> fst ` set updates \<union> set (f # fs)"
  proof
    fix k assume "k \<in> fst ` set updates'"
    with sub' have "k \<in> fst ` set updates1 \<or> k \<in> set fs" by blast
    with sub1 have "k \<in> fst ` set updates \<or> k = f \<or> k \<in> set fs" by blast
    then show "k \<in> fst ` set updates \<union> set (f # fs)" by auto
  qed
  have all: "\<forall>fld \<in> set (f # fs). \<forall>p. set_columns updates' x fld = Some p \<longrightarrow> \<not> is_wrong_prefix p"
    using here rest by simp
  have ee: "fix_results.errors results' = fix_results.errors results" using e1 st by simp
  from ee sub0 keep0 all show ?case by (intro conjI)
qed

lemma fix_fields_clean:
  assumes "fold (fix_field x) flds ((results, cr), updates) = ((results', cr'), updates')"
    and "\<forall>fld \<in> set flds. \<forall>p. x fld = Some p \<longrightarrow> \<not> is_wrong_prefix p"
  shows "updates' = updates \<and> fix_results.fixedPaths results' = fix_results.fixedPaths results
         \<and> fix_results.errors results' = fix_results.errors results"
  using assms
proof (induction flds arbitrary: results cr updates)
  case Nil
  then show ?case by simp
next
  case (Cons f fs)
  obtain results1 cr1 updates1 where
    s: "fix_field x f ((results, cr), updates) = ((results1, cr1), updates1)"
    by (metis surj_pair)
  with Cons.prems(1) have
    l: "fold (fix_field x) fs ((results1, cr1), updates1) = ((results', cr'), updates')" by simp
  from fix_field_step[OF s] Cons.prems(2)
  have "updates1 = updates" "fix_results.fixedPaths results1 = fix_results.fixedPaths results"
    "fix_results.errors results1 = fix_results.errors results" by auto
  with Cons.IH[OF l] Cons.prems(2) show ?case by simp
qed

lemma client_update_Return:
  "client_update w cid data = Return b w'
   \<Longrightarrow> nodes w' = nodes w
       \<and> rows w' = map (\<lambda>r. if r ''id'' = Some cid then set_columns data r else r) (rows w)"
  by (auto simp: client_update_def set_columns_Nil split: if_splits cong: if_cong)

text \<open>One client of the path fix, in a run that reports no error.\<close>

lemma fix_client_step:
  assumes "fix_client x results w = Return results' w'"
    and "fix_results.errors results' = []"
  shows "fix_results.errors results = []
         \<and> (\<exists>cid updates. x ''id'' = Some cid \<and> cid \<noteq> []
               \<and> fst ` set updates \<subseteq> set documentFields
               \<and> rows w' = map (\<lambda>r. if r ''id'' = Some cid then set_columns updates r else r) (rows w)
               \<and> clean_row (set_columns updates x))"
proof (cases "x ''id'' = None \<or> x ''id'' = Some []")
  case True
  with assms(1) have "fix_results.errors results' \<noteq> []"
    by (auto simp: fix_client_def)
  with assms(2) show ?thesis by simp
next
  case False
  then obtain cid where cid: "x ''id'' = Some cid" "cid \<noteq> []" by auto
  let ?c0 = "\<lparr>fixClientId = cid, fixClientName = x ''client_name'', pathsChecked = 0, pathsFixed = 0\<rparr>"
  obtain results2 cr updates where
    l: "fold (fix_field x) documentFields ((results, ?c0), []) = ((results2, cr), updates)"
    by (metis surj_pair)
  have fin: "(if updates \<noteq> [] then
               (case client_update w cid updates of
                  Raise e w' \<Rightarrow>
                    Return (results2\<lparr>fix_results.errors := fix_results.errors results2 @
                                       [FailedToUpdateClient cid e]\<rparr>) w'
                | Return u w' \<Rightarrow>
                    Return (results2\<lparr>fix_results.details :=
                                       fix_results.details results2 @ [cr]\<rparr>) w')
             else Return results2 w) = Return results' w'"
    using assms(1) cid l by (simp add: fix_client_def)
  have "fst ` set ([]::(string \<times> string option) list) \<inter> set documentFields = {}" by simp
  note loop = fix_fields_loop[OF l distinct_documentFields this]
  then have e2: "fix_results.errors results2 = fix_results.errors results"
    and sub: "fst ` set updates \<subseteq> set documentFields"
    and cl: "\<forall>fld \<in> set documentFields. \<forall>p. set_columns updates x fld = Some p \<longrightarrow> \<not> is_wrong_prefix p"
    by auto
  have res: "fix_results.errors results' = fix_results.errors results2
             \<and> rows w' = map (\<lambda>r. if r ''id'' = Some cid then set_columns updates r else r) (rows w)"
  proof (cases "updates = []")
    case True
    with fin show ?thesis by (auto simp: set_columns_Nil cong: if_cong)
  next
    case False
    show ?thesis
    proof (cases "client_update w cid updates")
      case (Raise e w3)
      with fin False have "fix_results.errors results' \<noteq> []" by auto
      with assms(2) show ?thesis by simp
    next
      case (Return u w3)
      with fin False client_update_Return[OF Return] show ?thesis by auto
    qed
  qed
  have "clean_row (set_columns updates x)" using cl by (simp add: clean_row_def)
  with res e2 assms(2) cid sub show ?thesis by auto
qed

lemma fix_client_clean:
  assumes "x ''id'' = Some cid" and "cid \<noteq> []" and "clean_row x"
  shows "\<exists>results'. fix_client x results w = Return results' w
           \<and> fix_results.fixedPaths results' = fix_results.fixedPaths results
           \<and> fix_results.errors results' = fix_results.errors results"
proof -
  let ?c0 = "\<lparr>fixClientId = cid, fixClientName = x ''client_name'', pathsChecked = 0, pathsFixed = 0\<rparr>"
  obtain results2 cr updates where
    l: "fold (fix_field x) documentFields ((results, ?c0), []) = ((results2, cr), updates)"
    by (metis surj_pair)
  from fix_fields_clean[OF l] assms(3)
  have "updates = []" "fix_results.fixedPaths results2 = fix_results.fixedPaths results"
    "fix_results.errors results2 = fix_results.errors results"
    by (auto simp: clean_row_def)
  with l assms(1,2) show ?thesis by (simp add: fix_client_def)
qed

lemma fix_clients_clean:
  assumes "\<forall>x \<in> set xs. truthy (x ''id'') \<and> clean_row x"
  shows "\<exists>results'. for_each fix_client xs results w = Return results' w
           \<and> fix_results.fixedPaths results' = fix_results.fixedPaths results
           \<and> fix_results.errors results' = fix_results.errors results"
  using assms
proof (induction xs arbitrary: results)
  case Nil
  then show ?case by simp
next
  case (Cons x xs)
  then obtain cid where "x ''id'' = Some cid" "cid \<noteq> []" and c: "clean_row x"
    by (auto simp: truthy_def)
  from fix_client_clean[OF this, of results w] obtain results1 where
    s: "fix_client x results w = Return results1 w"
    and f: "fix_results.fixedPaths results1 = fix_results.fixedPaths results"
    and e: "fix_results.errors results1 = fix_results.errors results" by auto
  from Cons.IH[of results1] Cons.prems obtain results' where
    "for_each fix_client xs results1 w = Return results' w"
    "fix_results.fixedPaths results' = fix_results.fixedPaths results1"
    "fix_results.errors results' = fix_results.errors results1" by auto
  with s f e show ?case by simp
qed

lemma fix_clients_errors:
  assumes "for_each fix_client xs results w = Return results' w'"
    and "fix_results.errors results' = []"
  shows "fix_results.errors results = []"
  using assms
proof (induction xs arbitrary: results w)
  case Nil
  then show ?case by simp
next
  case (Cons x xs)
  from Cons.prems(1) obtain results1 w1 where
    s: "fix_client x results w = Return results1 w1"
    and l: "for_each fix_client xs results1 w1 = Return results' w'"
    by (auto split: result.splits)
  from fix_client_step[OF s Cons.IH[OF l Cons.prems(2)]] show ?case by simp
qed

lemma fix_clients_loop:
  assumes "for_each fix_client xs results w = Return results' w'"
    and "fix_results.errors results' = []"
    and "distinct (map (\<lambda>r. r ''id'') (rows w))"
    and "distinct xs" and "set xs \<subseteq> set (take n (rows w))"
    and "\<forall>r \<in> set (take n (rows w)). r \<notin> set xs \<longrightarrow> truthy (r ''id'') \<and> clean_row r"
  shows "(\<forall>r \<in> set (take n (rows w')). truthy (r ''id'') \<and> clean_row r)
         \<and> length (take n (rows w')) = length (take n (rows w))"
  using assms
proof (induction xs arbitrary: results w)
  case Nil
  then show ?case by simp
next
  case (Cons x xs)
  from Cons.prems(1) obtain results1 w1 where
    s: "fix_client x results w = Return results1 w1"
    and l: "for_each fix_client xs results1 w1 = Return results' w'"
    by (auto split: result.splits)
  have e1: "fix_results.errors results1 = []" using fix_clients_errors[OF l Cons.prems(2)] .
  have xin: "x \<in> set (rows w)" and xs_in: "set xs \<subseteq> set (take n (rows w))"
    and xnot: "x \<notin> set xs" and dxs: "distinct xs"
    using Cons.prems(4,5) set_take_subset[of n "rows w"] by auto
  from fix_client_step[OF s e1] obtain cid updates where
    cid: "x ''id'' = Some cid" "cid \<noteq> []"
    and sub: "fst ` set updates \<subseteq> set documentFields"
    and rows1: "rows w1 = map (\<lambda>r. if r ''id'' = Some cid then set_columns updates r else r) (rows w)"
    and cx: "clean_row (set_columns updates x)"
    by auto
  let ?g = "\<lambda>r. if r ''id'' = Some cid then set_columns updates r else r"
  have "''id'' \<notin> fst ` set updates" using sub id_not_document_field by auto
  then have idg: "?g r ''id'' = r ''id''" for r
    by (simp add: set_columns_other)
  have ids1: "map (\<lambda>r. r ''id'') (rows w1) = map (\<lambda>r. r ''id'') (rows w)"
    unfolding rows1 using idg by (simp add: comp_def)
  have d1: "distinct (map (\<lambda>r. r ''id'') (rows w1))" using ids1 Cons.prems(3) by simp
  have take1: "take n (rows w1) = map ?g (take n (rows w))"
    unfolding rows1 by (simp add: take_map)
  have only_x: "r = x" if "r \<in> set (rows w)" "r ''id'' = Some cid" for r
    using distinct_map_eq[OF Cons.prems(3) that(1) xin] that(2) cid(1) by simp
  have xs1: "set xs \<subseteq> set (take n (rows w1))"
  proof
    fix y assume y: "y \<in> set xs"
    then have yin: "y \<in> set (take n (rows w))" using xs_in by auto
    then have yin': "y \<in> set (rows w)" using set_take_subset[of n "rows w"] by auto
    have "y \<noteq> x" using y xnot by auto
    with only_x[OF yin'] have "y ''id'' \<noteq> Some cid" by auto
    then have "?g y = y" by simp
    moreover have "?g y \<in> ?g ` set (take n (rows w))" using yin by (rule imageI)
    ultimately show "y \<in> set (take n (rows w1))" unfolding take1 by simp
  qed
  have rest1: "\<forall>r' \<in> set (take n (rows w1)). r' \<notin> set xs \<longrightarrow> truthy (r' ''id'') \<and> clean_row r'"
  proof (intro ballI impI)
    fix r' assume r': "r' \<in> set (take n (rows w1))" and nx: "r' \<notin> set xs"
    from r' obtain r where r: "r \<in> set (take n (rows w))" and eq: "r' = ?g r"
      unfolding take1 by auto
    have rin: "r \<in> set (rows w)" using r set_take_subset[of n "rows w"] by auto
    show "truthy (r' ''id'') \<and> clean_row r'"
    proof (cases "r ''id'' = Some cid")
      case True
      with only_x[OF rin] eq cx cid idg[of x] show ?thesis by (simp add: truthy_def)
    next
      case False
      with eq have same: "r' = r" by simp
      have "r \<noteq> x" using False cid(1) by auto
      with nx same have "r \<notin> set (x # xs)" by simp
      with Cons.prems(6) r same show ?thesis by blast
    qed
  qed
  from Cons.IH[OF l Cons.prems(2) d1 dxs xs1 rest1]
  show ?case unfolding take1 by simp
qed

lemma fix_second_run:
  assumes "distinct (map (\<lambda>r. r ''id'') (rows w))"
    and "fix_document_paths w = (Success 200 f1, w1)"
    and "fix_results.errors f1 = []"
  shows "\<exists>f2. fix_document_paths w1 = (Success 200 f2, w1)
           \<and> fix_results.fixedPaths f2 = 0 \<and> fix_results.errors f2 = []"
proof -
  let ?r0 = "\<lparr>fix_results.totalClients = length (get_all w 100 0), checkedPaths = 0,
              fixedPaths = 0, errors = ([]::message list), details = []\<rparr>"
  have run: "for_each fix_client (take 100 (rows w)) ?r0 w = Return f1 w1"
    using assms(2) by (auto simp: fix_document_paths_def get_all_def split: result.splits)
  have d: "distinct (take 100 (rows w))"
    using assms(1) by (simp add: distinct_map distinct_take)
  have "\<forall>r \<in> set (take 100 (rows w1)). truthy (r ''id'') \<and> clean_row r"
    using fix_clients_loop[OF run assms(3) assms(1) d, of 100] by auto
  note clean = this
  let ?r1 = "\<lparr>fix_results.totalClients = length (get_all w1 100 0), checkedPaths = 0,
              fixedPaths = 0, errors = ([]::message list), details = []\<rparr>"
  from fix_clients_clean[OF clean, of ?r1 w1] obtain f2 where
    "for_each fix_client (take 100 (rows w1)) ?r1 w1 = Return f2 w1"
    "fix_results.fixedPaths f2 = fix_results.fixedPaths ?r1"
    "fix_results.errors f2 = fix_results.errors ?r1" by auto
  then show ?thesis by (simp add: fix_document_paths_def get_all_def)
qed

text \<open>
  C4, as amended. Let the client ids be distinct. If a run of the repair tool completes
  and reports no error, and no reference lacks the \<open>/uploads\<close> prefix while
  being a staging reference once prefixed, then the next run changes neither records
  nor files and reports \<open>fixedPaths = 0\<close> (and no created directory and no error).
  If a run of the path fix of the diagnostic routes completes without error, its next
  run changes nothing and reports \<open>fixedPaths = 0\<close>.
\<close>

theorem repair_second_run_idle:
  assumes "distinct (map (\<lambda>r. r ''id'') (rows w))"
  shows "((\<forall>r \<in> set (rows w). no_staging_behind_prefix r)
          \<and> repair_all_documents root w = (Success 200 r1, w1) \<and> repair_results.errors r1 = []
          \<longrightarrow> repair_all_documents root w1 =
                (Success 200 \<lparr>success = True, clientsProcessed = length (rows w), fixedPaths = 0,
                              createdDirectories = 0, errors = []\<rparr>, w1))
       \<and> (fix_document_paths w = (Success 200 f1, w2) \<and> fix_results.errors f1 = []
          \<longrightarrow> (\<exists>f2. fix_document_paths w2 = (Success 200 f2, w2)
                  \<and> fix_results.fixedPaths f2 = 0 \<and> fix_results.errors f2 = []))"
  using repair_second_run[OF assms] fix_second_run[OF assms] by blast

lemma legacy_fix_run:
  "fix_document_paths legacy_world =
     (Success 200 \<lparr>fix_results.totalClients = 1, checkedPaths = 1, fixedPaths = 1, errors = [],
                   details = [\<lparr>fixClientId = ''C1'', fixClientName = Some ''Silva'',
                               pathsChecked = 1, pathsFixed = 1\<rparr>]\<rparr>,
      legacy_world\<lparr>rows :=
        [legacy_row(''nic_proof'' \<mapsto> ''/uploads/documents/C1/nic_proof-ab12.pdf'')]\<rparr>)"
  by (simp add: fix_document_paths_def fix_client_def fix_field_def legacy_world_def
      legacy_row_def db_defs ex_defs is_wrong_prefix_def starts_with_def documentFields_def)

theorem repair_second_run_idle_witness:
  "repair_all_documents install_dir
     (legacy_world\<lparr>rows :=
        [legacy_row(''nic_proof'' \<mapsto> ''/uploads/documents/C1/nic_proof-ab12.pdf'')]\<rparr>)
   = (Success 200 \<lparr>success = True, clientsProcessed = length (rows legacy_world),
                   fixedPaths = 0, createdDirectories = 0, errors = []\<rparr>,
      legacy_world\<lparr>rows :=
        [legacy_row(''nic_proof'' \<mapsto> ''/uploads/documents/C1/nic_proof-ab12.pdf'')]\<rparr>)
   \<and> (\<exists>f2. fix_document_paths
          (legacy_world\<lparr>rows :=
             [legacy_row(''nic_proof'' \<mapsto> ''/uploads/documents/C1/nic_proof-ab12.pdf'')]\<rparr>)
        = (Success 200 f2,
           legacy_world\<lparr>rows :=
             [legacy_row(''nic_proof'' \<mapsto> ''/uploads/documents/C1/nic_proof-ab12.pdf'')]\<rparr>)
        \<and> fix_results.fixedPaths f2 = 0 \<and> fix_results.errors f2 = [])"
proof -
  let ?w1 = "legacy_world\<lparr>rows :=
        [legacy_row(''nic_proof'' \<mapsto> ''/uploads/documents/C1/nic_proof-ab12.pdf'')]\<rparr>"
  let ?r1 = "\<lparr>success = True, clientsProcessed = 1, fixedPaths = 1,
                   createdDirectories = 0, errors = ([]::message list)\<rparr>"
  let ?f1 = "\<lparr>fix_results.totalClients = 1, checkedPaths = 1, fixedPaths = 1,
              errors = ([]::message list),
              details = [\<lparr>fixClientId = ''C1'', fixClientName = Some ''Silva'',
                          pathsChecked = 1, pathsFixed = 1\<rparr>]\<rparr>"
  note t = repair_second_run_idle[OF legacy_hyps(1), where ?r1.0 = ?r1 and ?w1.0 = ?w1
             and ?f1.0 = ?f1 and ?w2.0 = ?w1]
  have p1: "(\<forall>r \<in> set (rows legacy_world). no_staging_behind_prefix r)
          \<and> repair_all_documents install_dir legacy_world = (Success 200 ?r1, ?w1)
          \<and> repair_results.errors ?r1 = []"
    using legacy_hyps(2) legacy_first_run by simp
  have p2: "fix_document_paths legacy_world = (Success 200 ?f1, ?w1)
          \<and> fix_results.errors ?f1 = []"
    using legacy_fix_run by simp
  show ?thesis
    by (rule conjI[OF mp[OF conjunct1[OF t] p1] mp[OF conjunct2[OF t] p2]])
qed

end
